theory Spec2Isabelle
  imports Main
begin

section \<open>Constants of the \<open>Sudoku\<close> class\<close>

text \<open>
  Squares are two-character strings (row letter, column digit); a candidate string is
  the ordered string of digits still possible for a square. A one-character JavaScript
  string is a \<open>char\<close> here wherever the source passes a single value around.
\<close>

type_synonym square = string

definition DIGITS :: string where
  "DIGITS = ''123456789''"

definition ROWS :: string where
  "ROWS = ''ABCDEFGHI''"

definition COLS :: string where
  "COLS = ''123456789''"

definition BLANK_CHAR :: char where
  "BLANK_CHAR = CHR ''.''"

definition BLANK_BOARD :: string where
  "BLANK_BOARD = replicate 81 BLANK_CHAR"

definition MIN_GIVENS :: nat where
  "MIN_GIVENS = 17"

definition NR_SQUARES :: nat where
  "NR_SQUARES = 81"

text \<open>
  The members of \<open>ErrorCode\<close> the class throws, and \<open>TypeError\<close> for the
  property reads of \<open>undefined\<close> that JavaScript itself rejects.
\<close>

datatype error =
    ERR_BOARD_EMPTY
  | ERR_BOARD_SIZE_INVALID
  | ERR_BOARD_CHARACTER_INVALID
  | ERR_GIVENS_SIZE_INSUFFICIENT
  | ERR_RANGE_UNDEFINED
  | TypeError

section \<open>Topology: squares, units, peers\<close>

text \<open>\<open>_in(v, seq)\<close>: \<open>seq.indexOf(v) !== -1\<close>, for a one-character \<open>v\<close>.\<close>

definition is_in :: "'a \<Rightarrow> 'a list \<Rightarrow> bool" where
  "is_in v seq = (v \<in> set seq)"

text \<open>\<open>_cross(a, b)\<close>: the two nested loops push \<open>a[ai] + b[bi]\<close>.\<close>

definition cross :: "string \<Rightarrow> string \<Rightarrow> square list" where
  "cross a b = concat (map (\<lambda>x. map (\<lambda>y. [x, y]) b) a)"

text \<open>\<open>_get_all_units\<close>: the rows, then the columns, then the boxes.\<close>

definition get_all_units :: "string \<Rightarrow> string \<Rightarrow> square list list" where
  "get_all_units rows cols =
     map (\<lambda>row_val. cross [row_val] cols) rows @
     map (\<lambda>col_val. cross rows [col_val]) cols @
     concat (map (\<lambda>rsi. map (\<lambda>csi. cross rsi csi) [''123'', ''456'', ''789''])
                 [''ABC'', ''DEF'', ''GHI''])"

text \<open>
  \<open>_get_square_units_map\<close>: for each square, the units whose \<open>indexOf\<close> finds it,
  in the order of \<open>units\<close>. The JavaScript object is a finite map.
\<close>

definition get_square_units_map ::
  "square list \<Rightarrow> square list list \<Rightarrow> (square \<rightharpoonup> square list list)" where
  "get_square_units_map sqs us =
     map_of (map (\<lambda>cur_square. (cur_square, filter (\<lambda>cur_unit. is_in cur_square cur_unit) us)) sqs)"

text \<open>
  \<open>_get_square_peers_map\<close>: the squares of the square's units, in order, each pushed
  unless it is already in the list or is the square itself.
\<close>

definition push_peer :: "square \<Rightarrow> square list \<Rightarrow> square \<Rightarrow> square list" where
  "push_peer cur_square cur_square_peers cur_unit_square =
     (if \<not> is_in cur_unit_square cur_square_peers \<and> cur_unit_square \<noteq> cur_square
      then cur_square_peers @ [cur_unit_square] else cur_square_peers)"

definition get_square_peers_map ::
  "square list \<Rightarrow> (square \<rightharpoonup> square list list) \<Rightarrow> (square \<rightharpoonup> square list)" where
  "get_square_peers_map sqs units_map =
     map_of (map (\<lambda>cur_square.
        (cur_square,
         foldl (push_peer cur_square) []
           (concat (case units_map cur_square of Some cur_square_units \<Rightarrow> cur_square_units
                    | None \<Rightarrow> [])))) sqs)"

text \<open>The fields the constructor fills in.\<close>

definition squares :: "square list" where
  "squares = cross ROWS COLS"

definition units :: "square list list" where
  "units = get_all_units ROWS COLS"

text \<open>
  \<open>this.square_units_map[square]\<close> and \<open>this.square_peers_map[square]\<close>. Every call
  of the class passes one of the 81 squares; for any other key the lookup is
  \<open>undefined\<close> in the source and the empty list here.
\<close>

definition square_units_map :: "square \<Rightarrow> square list list" where
  "square_units_map sq =
     (case get_square_units_map squares units sq of Some us \<Rightarrow> us | None \<Rightarrow> [])"

definition square_peers_map :: "square \<Rightarrow> square list" where
  "square_peers_map sq =
     (case get_square_peers_map squares (get_square_units_map squares units) sq of
        Some ps \<Rightarrow> ps | None \<Rightarrow> [])"

section \<open>The candidate store and constraint propagation\<close>

text \<open>
  A \<open>CandidatesMap\<close> is an object from squares to candidate strings. The functions
  below mutate the object they are given and return it, or \<open>false\<close>; the model
  returns the flag together with the object's contents after the call, which the
  source leaves mutated also when it returns \<open>false\<close>.
\<close>

type_synonym candidates = "square \<Rightarrow> string"

text \<open>
  The inner loop of \<open>_eliminate\<close> over the squares of one unit: the places where
  \<open>val\<close> is still a candidate, in the order of the unit.
\<close>

fun get_val_places :: "candidates \<Rightarrow> char \<Rightarrow> square list \<Rightarrow> square list" where
  "get_val_places cands val [] = []"
| "get_val_places cands val (unit_square # unit) =
     (if is_in val (cands unit_square) then unit_square # get_val_places cands val unit
      else get_val_places cands val unit)"

text \<open>
  The measure of the termination proof: the total number of candidates over the 81
  squares, then the position of the call in the chain
  \<open>eliminate_units \<rightarrow> assign \<rightarrow> assign_loop \<rightarrow> eliminate\<close>, then the length of the
  list a loop still has to walk.
\<close>

definition cands_size :: "candidates \<Rightarrow> nat" where
  "cands_size cands = sum_list (map (\<lambda>q. length (cands q)) squares)"

fun call_weight ::
  "(candidates \<times> square \<times> char + candidates \<times> square \<times> string) +
   candidates \<times> square \<times> char + candidates \<times> square list \<times> char +
   candidates \<times> square list list \<times> char \<Rightarrow> nat" where
  "call_weight (Inl (Inl (cands, sq, val))) = 10 * cands_size cands + 3"
| "call_weight (Inl (Inr (cands, sq, other_vals))) =
     10 * cands_size cands + (if other_vals = [] then 0 else 2)"
| "call_weight (Inr (Inl (cands, sq, val))) = 10 * cands_size cands + 1"
| "call_weight (Inr (Inr (Inl (cands, peers, val)))) =
     10 * cands_size cands + (if peers = [] then 0 else 2)"
| "call_weight (Inr (Inr (Inr (cands, us, val)))) =
     10 * cands_size cands + (if us = [] then 0 else 4)"

fun call_length ::
  "(candidates \<times> square \<times> char + candidates \<times> square \<times> string) +
   candidates \<times> square \<times> char + candidates \<times> square list \<times> char +
   candidates \<times> square list list \<times> char \<Rightarrow> nat" where
  "call_length (Inl (Inl (cands, sq, val))) = 0"
| "call_length (Inl (Inr (cands, sq, other_vals))) = length other_vals"
| "call_length (Inr (Inl (cands, sq, val))) = 0"
| "call_length (Inr (Inr (Inl (cands, peers, val)))) = length peers"
| "call_length (Inr (Inr (Inr (cands, us, val)))) = length us"

text \<open>
  \<open>_assign\<close> and \<open>_eliminate\<close>. The three \<open>for\<close> loops are the functions
  \<open>assign_loop\<close> (over \<open>other_vals\<close>), \<open>eliminate_peers\<close> and
  \<open>eliminate_units\<close>; each leaves at the first \<open>false\<close>.
  \<open>candidates[square].replace(val, '')\<close> removes the first occurrence of the
  character.
\<close>

function assign :: "candidates \<Rightarrow> square \<Rightarrow> char \<Rightarrow> bool \<times> candidates"
  and assign_loop :: "candidates \<Rightarrow> square \<Rightarrow> string \<Rightarrow> bool \<times> candidates"
  and eliminate :: "candidates \<Rightarrow> square \<Rightarrow> char \<Rightarrow> bool \<times> candidates"
  and eliminate_peers :: "candidates \<Rightarrow> square list \<Rightarrow> char \<Rightarrow> bool \<times> candidates"
  and eliminate_units :: "candidates \<Rightarrow> square list list \<Rightarrow> char \<Rightarrow> bool \<times> candidates"
where
  "assign cands sq val = assign_loop cands sq (remove1 val (cands sq))"
| "assign_loop cands sq [] = (True, cands)"
| "assign_loop cands sq (other_val # other_vals) =
     (case eliminate cands sq other_val of
        (ok, cands') \<Rightarrow> if ok then assign_loop cands' sq other_vals else (False, cands'))"
| "eliminate cands sq val =
     (if \<not> is_in val (cands sq) then (True, cands)
      else
        (let cands1 = cands(sq := remove1 val (cands sq));
             nr_candidates = length (cands1 sq)
         in if nr_candidates = 1 then
              (case eliminate_peers cands1 (square_peers_map sq) (hd (cands1 sq)) of
                 (ok, cands2) \<Rightarrow>
                   if ok then eliminate_units cands2 (square_units_map sq) val
                   else (False, cands2))
            else if nr_candidates = 0 then (False, cands1)
            else eliminate_units cands1 (square_units_map sq) val))"
| "eliminate_peers cands [] target_val = (True, cands)"
| "eliminate_peers cands (peer # peers) target_val =
     (case eliminate cands peer target_val of
        (ok, cands') \<Rightarrow> if ok then eliminate_peers cands' peers target_val else (False, cands'))"
| "eliminate_units cands [] val = (True, cands)"
| "eliminate_units cands (unit # us) val =
     (let val_places = get_val_places cands val unit
      in if length val_places = 0 then (False, cands)
         else if length val_places = 1 then
           (case assign cands (hd val_places) val of
              (ok, cands') \<Rightarrow> if ok then eliminate_units cands' us val else (False, cands'))
         else eliminate_units cands us val)"
  by pat_completeness auto

subsection \<open>Termination of the propagation\<close>

text \<open>
  The recursion is nested: a loop continues on the store its previous call returned.
  On the domain of the functions no call lengthens a candidate string
  (\<open>shrinks\<close>), which is what the termination proof needs of the inner calls.
\<close>

definition shrinks :: "candidates \<Rightarrow> candidates \<Rightarrow> bool" where
  "shrinks cands' cands =
     (\<forall>q. length (cands' q) \<le> length (cands q) \<and> set (cands' q) \<subseteq> set (cands q))"

lemma shrinks_refl: "shrinks cands cands"
  by (simp add: shrinks_def)

lemma shrinks_trans: "shrinks c3 c2 \<Longrightarrow> shrinks c2 c1 \<Longrightarrow> shrinks c3 c1"
  unfolding shrinks_def by (meson le_trans subset_trans)

lemma shrinks_remove1: "shrinks (cands(sq := remove1 val (cands sq))) cands"
  by (simp add: shrinks_def length_remove1 set_remove1_subset)

lemma shrink_dom:
  "assign_assign_loop_eliminate_eliminate_peers_eliminate_units_dom (Inl (Inl (cands, sq, val))) \<Longrightarrow>
     shrinks (snd (assign cands sq val)) cands"
  "assign_assign_loop_eliminate_eliminate_peers_eliminate_units_dom (Inl (Inr (cands, sq, ovs))) \<Longrightarrow>
     shrinks (snd (assign_loop cands sq ovs)) cands"
  "assign_assign_loop_eliminate_eliminate_peers_eliminate_units_dom (Inr (Inl (cands, sq, val))) \<Longrightarrow>
     shrinks (snd (eliminate cands sq val)) cands"
  "assign_assign_loop_eliminate_eliminate_peers_eliminate_units_dom (Inr (Inr (Inl (cands, ps, tv)))) \<Longrightarrow>
     shrinks (snd (eliminate_peers cands ps tv)) cands"
  "assign_assign_loop_eliminate_eliminate_peers_eliminate_units_dom (Inr (Inr (Inr (cands, us, val)))) \<Longrightarrow>
     shrinks (snd (eliminate_units cands us val)) cands"
proof (induct rule: assign_assign_loop_eliminate_eliminate_peers_eliminate_units.pinduct)
  case (1 cands sq val)
  then show ?case by (simp add: assign.psimps)
next
  case (2 cands sq)
  then show ?case by (simp add: assign_loop.psimps shrinks_refl)
next
  case (3 cands sq other_val other_vals)
  obtain ok c' where e: "eliminate cands sq other_val = (ok, c')"
    by (cases "eliminate cands sq other_val")
  have s1: "shrinks c' cands" using 3(2) e by simp
  show ?case
  proof (cases ok)
    case True
    have "shrinks (snd (assign_loop c' sq other_vals)) c'"
      using 3(3)[OF e[symmetric] True] .
    with s1 have "shrinks (snd (assign_loop c' sq other_vals)) cands"
      by (meson shrinks_trans)
    with 3(1) e True show ?thesis by (simp add: assign_loop.psimps)
  next
    case False
    with 3(1) e s1 show ?thesis by (simp add: assign_loop.psimps)
  qed
next
  case (4 cands sq val)
  define c1 where "c1 = cands(sq := remove1 val (cands sq))"
  have s1: "shrinks c1 cands" unfolding c1_def by (rule shrinks_remove1)
  show ?case
  proof (cases "is_in val (cands sq)")
    case False
    with 4(1) show ?thesis by (simp add: eliminate.psimps shrinks_refl)
  next
    case mem: True
    show ?thesis
    proof (cases "length (c1 sq) = 1")
      case one: True
      obtain ok c2 where e: "eliminate_peers c1 (square_peers_map sq) (hd (c1 sq)) = (ok, c2)"
        by (cases "eliminate_peers c1 (square_peers_map sq) (hd (c1 sq))")
      have "shrinks (snd (eliminate_peers c1 (square_peers_map sq) (hd (c1 sq)))) c1"
        using 4(2)[OF _ c1_def refl] mem one by simp
      with e have s2: "shrinks c2 c1" by simp
      show ?thesis
      proof (cases ok)
        case True
        have "shrinks (snd (eliminate_units c2 (square_units_map sq) val)) c2"
          using 4(3)[OF _ c1_def refl _ e[symmetric] True] mem one by simp
        with s2 s1 have "shrinks (snd (eliminate_units c2 (square_units_map sq) val)) cands"
          by (meson shrinks_trans)
        with 4(1) mem one e True show ?thesis
          by (simp add: eliminate.psimps Let_def shrinks_refl flip: c1_def)
      next
        case False
        from s2 s1 have "shrinks c2 cands" by (meson shrinks_trans)
        with 4(1) mem one e False show ?thesis
          by (simp add: eliminate.psimps Let_def shrinks_refl flip: c1_def)
      qed
    next
      case notone: False
      show ?thesis
      proof (cases "length (c1 sq) = 0")
        case True
        with 4(1) mem notone s1 show ?thesis
          by (simp add: eliminate.psimps Let_def shrinks_refl flip: c1_def)
      next
        case False
        have "shrinks (snd (eliminate_units c1 (square_units_map sq) val)) c1"
          using 4(4)[OF _ c1_def refl] mem notone False by simp
        with s1 have "shrinks (snd (eliminate_units c1 (square_units_map sq) val)) cands"
          by (meson shrinks_trans)
        with 4(1) mem notone False show ?thesis
          by (simp add: eliminate.psimps Let_def shrinks_refl flip: c1_def)
      qed
    qed
  qed
next
  case (5 cands target_val)
  then show ?case by (simp add: eliminate_peers.psimps shrinks_refl)
next
  case (6 cands peer peers target_val)
  obtain ok c' where e: "eliminate cands peer target_val = (ok, c')"
    by (cases "eliminate cands peer target_val")
  have s1: "shrinks c' cands" using 6(2) e by simp
  show ?case
  proof (cases ok)
    case True
    have "shrinks (snd (eliminate_peers c' peers target_val)) c'"
      using 6(3)[OF e[symmetric] True] .
    with s1 have "shrinks (snd (eliminate_peers c' peers target_val)) cands"
      by (meson shrinks_trans)
    with 6(1) e True show ?thesis by (simp add: eliminate_peers.psimps)
  next
    case False
    with 6(1) e s1 show ?thesis by (simp add: eliminate_peers.psimps)
  qed
next
  case (7 cands val)
  then show ?case by (simp add: eliminate_units.psimps shrinks_refl)
next
  case (8 cands unit us val)
  define places where "places = get_val_places cands val unit"
  show ?case
  proof (cases "length places = 0")
    case True
    with 8(1) show ?thesis
      by (simp add: eliminate_units.psimps Let_def shrinks_refl flip: places_def)
  next
    case nonzero: False
    show ?thesis
    proof (cases "length places = 1")
      case one: True
      obtain ok c' where e: "assign cands (hd places) val = (ok, c')"
        by (cases "assign cands (hd places) val")
      have "shrinks (snd (assign cands (hd places) val)) cands"
        using 8(2)[OF places_def nonzero one] .
      with e have s1: "shrinks c' cands" by simp
      show ?thesis
      proof (cases ok)
        case True
        have "shrinks (snd (eliminate_units c' us val)) c'"
          using 8(3)[OF places_def nonzero one e[symmetric] True] .
        with s1 have "shrinks (snd (eliminate_units c' us val)) cands"
          by (meson shrinks_trans)
        with 8(1) nonzero one e True show ?thesis
          by (simp add: eliminate_units.psimps Let_def shrinks_refl flip: places_def)
      next
        case False
        with 8(1) nonzero one e s1 show ?thesis
          by (simp add: eliminate_units.psimps Let_def shrinks_refl flip: places_def)
      qed
    next
      case False
      with 8(1) nonzero 8(4)[OF places_def nonzero False] show ?thesis
        by (simp add: eliminate_units.psimps Let_def shrinks_refl flip: places_def)
    qed
  qed
qed

lemma cands_size_mono: "shrinks c' c \<Longrightarrow> cands_size c' \<le> cands_size c"
  unfolding cands_size_def shrinks_def by (rule sum_list_mono) simp

lemma sum_list_strict_one:
  "\<forall>q. (f q::nat) \<le> g q \<Longrightarrow> x \<in> set xs \<Longrightarrow> f x < g x \<Longrightarrow>
   sum_list (map f xs) < sum_list (map g xs)"
proof (induction xs)
  case Nil
  then show ?case by simp
next
  case (Cons y ys)
  have le: "sum_list (map f ys) \<le> sum_list (map g ys)"
    using Cons.prems(1) by (intro sum_list_mono) simp
  show ?case
  proof (cases "x = y")
    case True
    with Cons.prems le show ?thesis by simp
  next
    case False
    with Cons have "sum_list (map f ys) < sum_list (map g ys)" by simp
    moreover have "f y \<le> g y" using Cons.prems(1) by simp
    ultimately show ?thesis by simp
  qed
qed

lemma cands_size_less:
  "shrinks c' c \<Longrightarrow> sq \<in> set squares \<Longrightarrow> length (c' sq) < length (c sq) \<Longrightarrow>
   cands_size c' < cands_size c"
  unfolding cands_size_def shrinks_def by (rule sum_list_strict_one) simp_all

lemma square_units_map_outside: "sq \<notin> set squares \<Longrightarrow> square_units_map sq = []"
  by (simp add: square_units_map_def get_square_units_map_def map_of_eq_None_iff[THEN iffD2] image_image)

lemma square_peers_map_outside: "sq \<notin> set squares \<Longrightarrow> square_peers_map sq = []"
  by (simp add: square_peers_map_def get_square_peers_map_def map_of_eq_None_iff[THEN iffD2] image_image)

lemma remove1_shorter: "is_in v xs \<Longrightarrow> length (remove1 v xs) < length xs"
  using length_pos_if_in_set[of v xs] by (simp add: is_in_def length_remove1)

lemma eliminate_first_step:
  assumes "is_in val (cands sq)"
  shows "10 * cands_size (cands(sq := remove1 val (cands sq))) +
           (if square_peers_map sq = [] then 0 else 2) < 10 * cands_size cands + 1"
    and "c2 = cands(sq := remove1 val (cands sq)) \<or> shrinks c2 (cands(sq := remove1 val (cands sq))) \<Longrightarrow>
         10 * cands_size c2 + (if square_units_map sq = [] then 0 else 4) < 10 * cands_size cands + 1"
proof -
  let ?c1 = "cands(sq := remove1 val (cands sq))"
  have lt: "length (?c1 sq) < length (cands sq)"
    using remove1_shorter[OF assms] by simp
  have le: "shrinks ?c1 cands" by (rule shrinks_remove1)
  have key: "(sq \<in> set squares \<and> cands_size ?c1 < cands_size cands) \<or>
             (sq \<notin> set squares \<and> cands_size ?c1 \<le> cands_size cands)"
    using cands_size_less[OF le _ lt] cands_size_mono[OF le] by blast
  then show "10 * cands_size ?c1 + (if square_peers_map sq = [] then 0 else 2)
               < 10 * cands_size cands + 1"
    by (auto simp: square_peers_map_outside simp del: fun_upd_apply)
  assume "c2 = ?c1 \<or> shrinks c2 ?c1"
  then have "cands_size c2 \<le> cands_size ?c1"
    using cands_size_mono by auto
  with key show "10 * cands_size c2 + (if square_units_map sq = [] then 0 else 4)
               < 10 * cands_size cands + 1"
    by (auto simp: square_units_map_outside simp del: fun_upd_apply)
qed

lemma propagation_dom:
  "All assign_assign_loop_eliminate_eliminate_peers_eliminate_units_dom"
proof (rule "assign_assign_loop_eliminate_eliminate_peers_eliminate_units.termination"
         [of "measures [call_weight, call_length]"], goal_cases)
  case 1
  then show ?case by simp
next
  case (2 cands sq val)
  then show ?case by simp
next
  case (3 cands sq other_val other_vals)
  then show ?case by simp
next
  case (4 cands sq other_val other_vals x y)
  have "y = snd (eliminate cands sq other_val)"
    using 4(1) by (metis snd_conv)
  then have "cands_size y \<le> cands_size cands"
    using shrink_dom(3)[OF 4(3)] by (intro cands_size_mono) simp
  then show ?case by auto
next
  case (5 cands sq val x xa)
  then show ?case using eliminate_first_step(1)[of val cands sq]
    by (simp del: fun_upd_apply)
next
  case (6 cands sq val x xa xaa y)
  have "y = snd (eliminate_peers x (square_peers_map sq) (hd (x sq)))"
    using 6(5) by (metis snd_conv)
  then have "shrinks y (cands(sq := remove1 val (cands sq)))"
    using shrink_dom(4)[OF 6(7)] 6(2) by simp
  then show ?case using 6(1) eliminate_first_step(2)[of val cands sq y]
    by (simp del: fun_upd_apply)
next
  case (7 cands sq val x xa)
  then show ?case using eliminate_first_step(2)[of val cands sq x]
    by (simp del: fun_upd_apply)
next
  case (8 cands peer peers target_val)
  then show ?case by simp
next
  case (9 cands peer peers target_val x y)
  have "y = snd (eliminate cands peer target_val)"
    using 9(1) by (metis snd_conv)
  then have "cands_size y \<le> cands_size cands"
    using shrink_dom(3)[OF 9(3)] by (intro cands_size_mono) simp
  then show ?case by auto
next
  case (10 cands unit us val x)
  then show ?case by simp
next
  case (11 cands unit us val x xa y)
  have "y = snd (assign cands (hd x) val)"
    using 11(4) by (metis snd_conv)
  then have "cands_size y \<le> cands_size cands"
    using shrink_dom(1)[OF 11(6)] by (intro cands_size_mono) simp
  then show ?case by auto
next
  case (12 cands unit us val x)
  then show ?case by simp
qed

termination assign
  by (rule propagation_dom)

declare assign.simps [simp del] eliminate.simps [simp del]

subsection \<open>What propagation does to a store\<close>

lemmas propagation_total = propagation_dom[THEN spec]

lemma shrinks_assign: "shrinks (snd (assign cands sq val)) cands"
  by (rule shrink_dom(1)[OF propagation_total])

lemma shrinks_assign_loop: "shrinks (snd (assign_loop cands sq ovs)) cands"
  by (rule shrink_dom(2)[OF propagation_total])

lemma shrinks_eliminate: "shrinks (snd (eliminate cands sq val)) cands"
  by (rule shrink_dom(3)[OF propagation_total])

lemma shrinks_eliminate_peers: "shrinks (snd (eliminate_peers cands ps tv)) cands"
  by (rule shrink_dom(4)[OF propagation_total])

lemma shrinks_eliminate_units: "shrinks (snd (eliminate_units cands us val)) cands"
  by (rule shrink_dom(5)[OF propagation_total])

lemma eliminate_below:
  assumes "is_in val (cands sq)"
  shows "shrinks (snd (eliminate cands sq val)) (cands(sq := remove1 val (cands sq)))"
proof -
  let ?c1 = "cands(sq := remove1 val (cands sq))"
  obtain ok c2 where e: "eliminate_peers ?c1 (square_peers_map sq) (hd (?c1 sq)) = (ok, c2)"
    by (cases "eliminate_peers ?c1 (square_peers_map sq) (hd (?c1 sq))")
  have s2: "shrinks c2 ?c1"
    using shrinks_eliminate_peers[of ?c1 "square_peers_map sq" "hd (?c1 sq)"] e by simp
  have s3: "shrinks (snd (eliminate_units c2 (square_units_map sq) val)) ?c1"
    using shrinks_eliminate_units[of c2 "square_units_map sq" val] s2 by (meson shrinks_trans)
  have s4: "shrinks (snd (eliminate_units ?c1 (square_units_map sq) val)) ?c1"
    by (rule shrinks_eliminate_units)
  show ?thesis
    using assms e s2 s3 s4
    by (simp add: eliminate.simps Let_def shrinks_refl del: fun_upd_apply)
qed

lemma assign_strict:
  assumes sq: "sq \<in> set squares" and len: "2 \<le> length (cands sq)"
  shows "cands_size (snd (assign cands sq val)) < cands_size cands"
proof -
  have "1 \<le> length (remove1 val (cands sq))"
    using len by (auto simp: length_remove1)
  then obtain ov ovs where r: "remove1 val (cands sq) = ov # ovs"
    by (cases "remove1 val (cands sq)") auto
  then have mem: "is_in ov (cands sq)"
    unfolding is_in_def by (metis list.set_intros(1) notin_set_remove1)
  let ?c1 = "cands(sq := remove1 ov (cands sq))"
  obtain ok c' where e: "eliminate cands sq ov = (ok, c')"
    by (cases "eliminate cands sq ov")
  have below: "shrinks c' ?c1"
    using eliminate_below[of ov cands sq] mem e by simp
  have "length (?c1 sq) < length (cands sq)"
    using remove1_shorter[OF mem] by simp
  then have lt: "cands_size ?c1 < cands_size cands"
    using cands_size_less[OF shrinks_remove1 sq] by blast
  have "shrinks (snd (assign cands sq val)) c'"
    using e r shrinks_assign_loop[of c' sq ovs] by (simp add: assign.simps shrinks_refl)
  then have "shrinks (snd (assign cands sq val)) ?c1"
    using below by (meson shrinks_trans)
  then have "cands_size (snd (assign cands sq val)) \<le> cands_size ?c1"
    by (rule cands_size_mono)
  with lt show ?thesis by simp
qed


section \<open>Search\<close>

text \<open>
  \<open>_search\<close> copies the store it is given before each assignment
  (\<open>JSON.parse(JSON.stringify(candidates))\<close>), so the objects matter: a heap is
  the list of the candidate objects allocated so far, a reference is a position in
  it, and \<open>false\<close> is \<open>None\<close>. \<open>_assign\<close> mutates the object it is given,
  here the copy. A reference outside the heap does not arise in JavaScript; the model
  answers it with \<open>TypeError\<close>, as it does the read of \<open>candidates[null]\<close> when no
  square has between 2 and 9 candidates.

  The two scanning loops of \<open>_search\<close> over \<open>this.squares\<close> come first:
  the largest number of candidates, and the first square with the fewest candidates
  above one (starting from 10).
\<close>

fun max_nr_candidates :: "candidates \<Rightarrow> square list \<Rightarrow> nat \<Rightarrow> nat" where
  "max_nr_candidates cands [] max_nr = max_nr"
| "max_nr_candidates cands (sq # sqs) max_nr =
     (if length (cands sq) > max_nr then max_nr_candidates cands sqs (length (cands sq))
      else max_nr_candidates cands sqs max_nr)"

fun min_candidates_square ::
  "candidates \<Rightarrow> square list \<Rightarrow> nat \<Rightarrow> square option \<Rightarrow> square option" where
  "min_candidates_square cands [] min_nr min_sq = min_sq"
| "min_candidates_square cands (sq # sqs) min_nr min_sq =
     (if length (cands sq) < min_nr \<and> length (cands sq) > 1
      then min_candidates_square cands sqs (length (cands sq)) (Some sq)
      else min_candidates_square cands sqs min_nr min_sq)"

type_synonym heap = "candidates list"

definition branch_square_ok :: "heap \<Rightarrow> nat \<Rightarrow> square \<Rightarrow> bool" where
  "branch_square_ok h a sq = (sq \<in> set squares \<and> 2 \<le> length ((h ! a) sq))"

fun search_weight ::
  "heap \<times> nat option \<times> bool + heap \<times> nat \<times> square \<times> string \<times> bool \<Rightarrow> nat" where
  "search_weight (Inl (h, None, reverse)) = 0"
| "search_weight (Inl (h, Some a, reverse)) =
     (if a < length h then 2 * cands_size (h ! a) + 2 else 0)"
| "search_weight (Inr (h, a, sq, vals, reverse)) =
     (if a < length h
      then 2 * cands_size (h ! a) + (if branch_square_ok h a sq then 1 else 3) else 0)"

fun search_length ::
  "heap \<times> nat option \<times> bool + heap \<times> nat \<times> square \<times> string \<times> bool \<Rightarrow> nat" where
  "search_length (Inl (h, candidates, reverse)) = 0"
| "search_length (Inr (h, a, sq, vals, reverse)) = length vals"

function search :: "heap \<Rightarrow> nat option \<Rightarrow> bool \<Rightarrow> (error + nat option) \<times> heap"
  and search_vals :: "heap \<Rightarrow> nat \<Rightarrow> square \<Rightarrow> string \<Rightarrow> bool \<Rightarrow> (error + nat option) \<times> heap"
where
  "search h None reverse = (Inr None, h)"
| "search h (Some a) reverse =
     (if length h \<le> a then (Inl TypeError, h)
      else if max_nr_candidates (h ! a) squares 0 = 1 then (Inr (Some a), h)
      else
        (case min_candidates_square (h ! a) squares 10 None of
           None \<Rightarrow> (Inl TypeError, h)
         | Some sq \<Rightarrow>
             search_vals h a sq (if reverse then rev ((h ! a) sq) else (h ! a) sq) reverse))"
| "search_vals h a sq [] reverse = (Inr None, h)"
| "search_vals h a sq (val # vals) reverse =
     (if length h \<le> a then (Inl TypeError, h)
      else
        (let candidates_copy = length h;
             h1 = h @ [h ! a];
             assigned = assign (h1 ! candidates_copy) sq val;
             h2 = h1[candidates_copy := snd assigned]
         in case search h2 (if fst assigned then Some candidates_copy else None) reverse of
              (candidates_next, h3) \<Rightarrow>
                if candidates_next = Inr None then search_vals h3 a sq vals reverse
                else (candidates_next, h3)))"
  by pat_completeness auto



subsection \<open>Termination of the search, and its frame\<close>

text \<open>
  Each recursive call works on a fresh copy on which one more square has been
  assigned. That the loop over the candidate values continues on an unchanged
  store is the frame property \<open>frame\<close>: the heap only grows, and no object that
  existed before the call changes.
\<close>

lemma min_candidates_square_Some:
  "min_candidates_square cands sqs min_nr min_sq = Some sq \<Longrightarrow>
   (min_sq = Some sq \<or> (sq \<in> set sqs \<and> 2 \<le> length (cands sq)))"
  by (induction cands sqs min_nr min_sq rule: min_candidates_square.induct)
     (auto split: if_splits)

definition frame :: "heap \<Rightarrow> heap \<Rightarrow> bool" where
  "frame h h' = (length h \<le> length h' \<and> (\<forall>b. b < length h \<longrightarrow> h' ! b = h ! b))"

lemma frame_refl: "frame h h"
  by (simp add: frame_def)

lemma frame_trans: "frame h1 h2 \<Longrightarrow> frame h2 h3 \<Longrightarrow> frame h1 h3"
  by (auto simp: frame_def)

lemma frame_alloc: "frame h ((h @ [x])[length h := y])"
  by (simp add: frame_def nth_append)

lemma search_frame_dom:
  "search_search_vals_dom (Inl (h, candidates, reverse)) \<Longrightarrow>
     frame h (snd (search h candidates reverse))"
  "search_search_vals_dom (Inr (h, a, sq, vals, reverse)) \<Longrightarrow>
     frame h (snd (search_vals h a sq vals reverse))"
proof (induct rule: search_search_vals.pinduct)
  case (1 h reverse)
  then show ?case by (simp add: search.psimps frame_refl)
next
  case (2 h a reverse)
  show ?case
  proof (cases "min_candidates_square (h ! a) squares 10 None")
    case None
    with 2(1) show ?thesis by (simp add: search.psimps frame_refl)
  next
    case (Some sq)
    with 2(1) 2(2)[OF _ _ Some] show ?thesis
      by (simp add: search.psimps frame_refl)
  qed
next
  case (3 h a sq reverse)
  then show ?case by (simp add: search_vals.psimps frame_refl)
next
  case (4 h a sq val vals reverse)
  show ?case
  proof (cases "length h \<le> a")
    case True
    with 4(1) show ?thesis by (simp add: search_vals.psimps frame_refl)
  next
    case False
    define asg where "asg = assign (h ! a) sq val"
    define h2 where "h2 = h @ [snd asg]"
    have h2: "(h @ [h ! a])[length h := snd asg] = h2"
      and asg: "assign ((h @ [h ! a]) ! length h) sq val = asg"
      by (simp_all add: h2_def asg_def)
    obtain r h3 where s: "search h2 (if fst asg then Some (length h) else None) reverse = (r, h3)"
      by (cases "search h2 (if fst asg then Some (length h) else None) reverse")
    have f2: "frame h h2" using frame_alloc[of h "h ! a" "snd asg"] by (simp add: h2_def)
    have "frame h2 (snd (search h2 (if fst asg then Some (length h) else None) reverse))"
      using 4(2)[OF False refl refl refl refl] unfolding asg h2 .
    with s have f3: "frame h2 h3" by simp
    have eq: "search_vals h a sq (val # vals) reverse =
                (if r = Inr None then search_vals h3 a sq vals reverse else (r, h3))"
      using 4(1) False s by (simp add: search_vals.psimps Let_def asg h2 del: list_update_append1 list_update_length nth_append_length)
    show ?thesis
    proof (cases "r = Inr None")
      case True
      have "frame h3 (snd (search_vals h3 a sq vals reverse))"
        using 4(3)[OF False refl refl refl refl, unfolded asg h2, OF s[symmetric] True] .
      with f2 f3 have "frame h (snd (search_vals h3 a sq vals reverse))"
        by (meson frame_trans)
      with eq True show ?thesis by simp
    next
      case False
      from f2 f3 have "frame h h3" by (rule frame_trans)
      with eq False show ?thesis by simp
    qed
  qed
qed

lemma search_dom: "All search_search_vals_dom"
proof (rule "search_search_vals.termination" [of "measures [search_weight, search_length]"],
    goal_cases)
  case 1
  then show ?case by simp
next
  case (2 h a reverse sq)
  have "branch_square_ok h a sq"
    using min_candidates_square_Some[OF 2(3)] by (simp add: branch_square_ok_def)
  with 2(1) show ?case by simp
next
  case (3 h a sq val vals reverse x xa xb xc)
  have a: "a < length h" using 3(1) by simp
  have copy: "xc ! x = snd (assign (h ! a) sq val)"
    using 3(2-5) by (simp add: nth_append)
  have le: "cands_size (xc ! x) \<le> cands_size (h ! a)"
    unfolding copy by (rule cands_size_mono[OF shrinks_assign])
  have lt: "branch_square_ok h a sq \<Longrightarrow> cands_size (xc ! x) < cands_size (h ! a)"
    unfolding copy branch_square_ok_def by (auto intro: assign_strict)
  have len: "x < length xc" using 3(2-5) by simp
  show ?case using a le lt len by (auto simp: less_Suc_eq_le)
next
  case (4 h a sq val vals reverse x xa xb xc xaa y)
  have a: "a < length h" using 4(1) by simp
  have "frame xc (snd (search xc (if fst xb then Some x else None) reverse))"
    by (rule search_frame_dom(1)[OF 4(8)])
  then have f3: "frame xc y" using 4(6) by (metis snd_conv)
  have f2: "frame h xc" using 4(2-5) frame_alloc by simp
  have f: "frame h y" using f2 f3 by (rule frame_trans)
  then have same: "y ! a = h ! a" and a': "a < length y"
    using a by (auto simp: frame_def)
  have "branch_square_ok y a sq = branch_square_ok h a sq"
    by (simp add: branch_square_ok_def same)
  then show ?case using a a' same by simp
qed

termination search
  by (rule search_dom)

declare search.simps [simp del] search_vals.simps [simp del]

lemmas search_total = search_dom[THEN spec]

lemma search_frame: "frame h (snd (search h candidates reverse))"
  by (rule search_frame_dom(1)[OF search_total])

lemma search_vals_frame: "frame h (snd (search_vals h a sq vals reverse))"
  by (rule search_frame_dom(2)[OF search_total])

section \<open>Boards and \<open>solve\<close>\<close>

text \<open>
  \<open>validate_board\<close>. A board is a string; \<open>None\<close> is the absent board
  (\<open>null\<close> or \<open>undefined\<close>), which \<open>!board\<close> rejects together with the
  empty string. The checks run in the order of the source.
\<close>

definition validate_board :: "string option \<Rightarrow> error + bool" where
  "validate_board board =
     (case board of
        None \<Rightarrow> Inl ERR_BOARD_EMPTY
      | Some b \<Rightarrow>
          if b = [] then Inl ERR_BOARD_EMPTY
          else if length b \<noteq> NR_SQUARES then Inl ERR_BOARD_SIZE_INVALID
          else if list_ex (\<lambda>char. \<not> is_in char DIGITS \<and> char \<noteq> BLANK_CHAR) b
            then Inl ERR_BOARD_CHARACTER_INVALID
          else Inr True)"

text \<open>
  \<open>_get_square_vals_map\<close>: the squares with the characters of the board, in the
  order of \<open>this.squares\<close>, which is the order the caller walks the object in.
\<close>

definition get_square_vals_map :: "string \<Rightarrow> error + (square \<times> char) list" where
  "get_square_vals_map board =
     (if length board \<noteq> length squares then Inl ERR_BOARD_SIZE_INVALID
      else Inr (zip squares board))"

text \<open>
  \<open>_get_candidates_map\<close>. The object starts with \<open>DIGITS\<close> at each of the 81
  squares; no other key is ever read, and the model keeps the empty string there.
  \<open>assign_givens\<close> is the loop over the squares of the board; the result is
  \<open>None\<close> for \<open>false\<close>.
\<close>

definition all_digits :: "square list \<Rightarrow> candidates" where
  "all_digits sqs = foldl (\<lambda>candidate_map sq. candidate_map(sq := DIGITS)) (\<lambda>sq. []) sqs"

fun assign_givens :: "candidates \<Rightarrow> (square \<times> char) list \<Rightarrow> candidates option" where
  "assign_givens candidate_map [] = Some candidate_map"
| "assign_givens candidate_map ((sq, val) # squares_values) =
     (if is_in val DIGITS then
        (case assign candidate_map sq val of
           (ok, new_candidates) \<Rightarrow>
             if ok then assign_givens new_candidates squares_values else None)
      else assign_givens candidate_map squares_values)"

definition get_candidates_map :: "string \<Rightarrow> error + candidates option" where
  "get_candidates_map board =
     (case validate_board (Some board) of
        Inl e \<Rightarrow> Inl e
      | Inr valid \<Rightarrow>
          (case get_square_vals_map board of
             Inl e \<Rightarrow> Inl e
           | Inr squares_values_map \<Rightarrow>
               Inr (assign_givens (all_digits squares) squares_values_map)))"

text \<open>
  \<open>solve\<close>: \<open>Inl\<close> is a thrown error, \<open>Inr None\<close> is \<open>false\<close>, and
  \<open>Inr (Some solution)\<close> the solution string. The candidates object is the only
  object of the heap the search starts from; the solution is read off the object the
  search returns, in the order of its keys, which is the order of \<open>this.squares\<close>.
\<close>

definition nr_givens_of :: "string \<Rightarrow> nat" where
  "nr_givens_of board = length (filter (\<lambda>char. char \<noteq> BLANK_CHAR \<and> is_in char DIGITS) board)"

definition solution_of :: "candidates \<Rightarrow> string" where
  "solution_of result = concat (map result squares)"

definition solve :: "string \<Rightarrow> bool \<Rightarrow> error + string option" where
  "solve board reverse =
     (case validate_board (Some board) of
        Inl e \<Rightarrow> Inl e
      | Inr valid \<Rightarrow>
          if nr_givens_of board < MIN_GIVENS then Inl ERR_GIVENS_SIZE_INSUFFICIENT
          else
            (case get_candidates_map board of
               Inl e \<Rightarrow> Inl e
             | Inr candidates \<Rightarrow>
                 (case (case candidates of
                          None \<Rightarrow> search [] None reverse
                        | Some cands \<Rightarrow> search [cands] (Some 0) reverse) of
                    (Inl e, h) \<Rightarrow> Inl e
                  | (Inr None, h) \<Rightarrow> Inr None
                  | (Inr (Some result), h) \<Rightarrow> Inr (Some (solution_of (h ! result))))))"

section \<open>Validation\<close>

lemma validate_board_valid_iff:
  "validate_board (Some b) = Inr True \<longleftrightarrow>
     length b = 81 \<and> \<not> list_ex (\<lambda>c. \<not> is_in c DIGITS \<and> c \<noteq> BLANK_CHAR) b"
  by (cases b) (simp_all add: validate_board_def NR_SQUARES_def)

lemma validate_board_cases:
  "validate_board None = Inl ERR_BOARD_EMPTY"
  "validate_board (Some []) = Inl ERR_BOARD_EMPTY"
  "b \<noteq> [] \<Longrightarrow> length b \<noteq> 81 \<Longrightarrow> validate_board (Some b) = Inl ERR_BOARD_SIZE_INVALID"
  "length b = 81 \<Longrightarrow> \<exists>c \<in> set b. c \<notin> set DIGITS \<and> c \<noteq> BLANK_CHAR \<Longrightarrow>
     validate_board (Some b) = Inl ERR_BOARD_CHARACTER_INVALID"
  "length b = 81 \<Longrightarrow> \<forall>c \<in> set b. c \<in> set DIGITS \<or> c = BLANK_CHAR \<Longrightarrow>
     validate_board (Some b) = Inr True"
proof -
  show "validate_board None = Inl ERR_BOARD_EMPTY"
    by (simp add: validate_board_def)
  show "validate_board (Some []) = Inl ERR_BOARD_EMPTY"
    by (simp add: validate_board_def)
  show "b \<noteq> [] \<Longrightarrow> length b \<noteq> 81 \<Longrightarrow> validate_board (Some b) = Inl ERR_BOARD_SIZE_INVALID"
    by (simp add: validate_board_def NR_SQUARES_def)
  show "validate_board (Some b) = Inl ERR_BOARD_CHARACTER_INVALID"
    if "length b = 81" and "\<exists>c \<in> set b. c \<notin> set DIGITS \<and> c \<noteq> BLANK_CHAR"
  proof -
    have "b \<noteq> []" using that(1) by auto
    moreover have "list_ex (\<lambda>char. \<not> is_in char DIGITS \<and> char \<noteq> BLANK_CHAR) b"
      using that(2) unfolding list_ex_iff is_in_def .
    ultimately show ?thesis
      using that(1) by (simp add: validate_board_def NR_SQUARES_def)
  qed
  show "validate_board (Some b) = Inr True"
    if "length b = 81" and "\<forall>c \<in> set b. c \<in> set DIGITS \<or> c = BLANK_CHAR"
  proof -
    have "b \<noteq> []" using that(1) by auto
    moreover have "\<not> list_ex (\<lambda>char. \<not> is_in char DIGITS \<and> char \<noteq> BLANK_CHAR) b"
      using that(2) unfolding list_ex_iff is_in_def by blast
    ultimately show ?thesis
      using that(1) by (simp add: validate_board_def NR_SQUARES_def)
  qed
qed

text \<open>
  C8, as stated, promises \<open>ERR_BOARD_SIZE_INVALID\<close> on every board whose length
  is not 81. The empty board has length 0, and \<open>validate_board\<close> rejects it in its
  first check, with \<open>ERR_BOARD_EMPTY\<close>, before it looks at the length.
\<close>

theorem validate_board_empty_is_not_size_invalid:
  "length ([] :: string) \<noteq> 81 \<and>
   validate_board (Some []) = Inl ERR_BOARD_EMPTY \<and>
   validate_board (Some []) \<noteq> Inl ERR_BOARD_SIZE_INVALID"
  by (simp add: validate_board_def)

text \<open>
  C8, amended: \<open>validate_board\<close> fails with \<open>ERR_BOARD_EMPTY\<close> on the absent and
  on the empty board; with \<open>ERR_BOARD_SIZE_INVALID\<close> on every non-empty board whose
  length is not 81; with \<open>ERR_BOARD_CHARACTER_INVALID\<close> on every board of length 81
  that has a character other than the digits 1 to 9 and the blank marker; and it
  returns \<open>true\<close> on every board of length 81 over those characters.
\<close>

theorem validate_board_signals:
  "validate_board None = Inl ERR_BOARD_EMPTY \<and>
   validate_board (Some []) = Inl ERR_BOARD_EMPTY \<and>
   (b \<noteq> [] \<and> length b \<noteq> 81 \<longrightarrow> validate_board (Some b) = Inl ERR_BOARD_SIZE_INVALID) \<and>
   (length b = 81 \<and> (\<exists>c \<in> set b. c \<notin> set DIGITS \<and> c \<noteq> BLANK_CHAR) \<longrightarrow>
      validate_board (Some b) = Inl ERR_BOARD_CHARACTER_INVALID) \<and>
   (length b = 81 \<and> (\<forall>c \<in> set b. c \<in> set DIGITS \<or> c = BLANK_CHAR) \<longrightarrow>
      validate_board (Some b) = Inr True)"
  using validate_board_cases(1,2) validate_board_cases(3-5)[of b] by blast

text \<open>
  The boards of the specification's boundary cases: \<open>"12"\<close>, a \<open>1\<close> followed by
  eighty \<open>x\<close>, and the classic puzzle as a valid board.
\<close>

definition bad_char_board :: string where
  "bad_char_board = CHR ''1'' # replicate 80 (CHR ''x'')"

definition classic_puzzle :: string where
  "classic_puzzle =
     ''..3.2.6..9..3.5..1..18.64....81.29..7.......8..67.82....26.95..8..2.3..9..5.1.3..''"

theorem validate_board_signals_witness:
  "validate_board (Some ''12'') = Inl ERR_BOARD_SIZE_INVALID \<and>
   validate_board (Some bad_char_board) = Inl ERR_BOARD_CHARACTER_INVALID \<and>
   validate_board (Some classic_puzzle) = Inr True"
proof -
  have "validate_board (Some ''12'') = Inl ERR_BOARD_SIZE_INVALID"
    using validate_board_signals[of "''12''"] by simp
  moreover have "validate_board (Some bad_char_board) = Inl ERR_BOARD_CHARACTER_INVALID"
    using validate_board_signals[of bad_char_board]
    by (simp add: bad_char_board_def DIGITS_def BLANK_CHAR_def)
  moreover have "validate_board (Some classic_puzzle) = Inr True"
    using validate_board_signals[of classic_puzzle]
    by (simp add: classic_puzzle_def DIGITS_def BLANK_CHAR_def)
  ultimately show ?thesis by blast
qed

section \<open>Too few givens\<close>

text \<open>
  C9: on every valid board (81 characters, each a digit 1 to 9 or the blank marker)
  with fewer than 17 characters that are digits and not the blank marker,
  \<open>solve\<close> fails with \<open>ERR_GIVENS_SIZE_INSUFFICIENT\<close>, whatever the board holds
  and whichever way the search would have run; it returns neither a solution nor
  \<open>false\<close>.
\<close>

theorem solve_insufficient_givens:
  assumes "length board = 81"
    and "\<forall>char \<in> set board. char \<in> set DIGITS \<or> char = BLANK_CHAR"
    and "length (filter (\<lambda>char. char \<noteq> BLANK_CHAR \<and> char \<in> set DIGITS) board) < 17"
  shows "solve board reverse = Inl ERR_GIVENS_SIZE_INSUFFICIENT \<and>
         solve board reverse \<noteq> Inr None \<and>
         (\<forall>solution. solve board reverse \<noteq> Inr (Some solution))"
proof -
  have "validate_board (Some board) = Inr True"
    using assms(1,2) by (rule validate_board_cases(5))
  moreover have "nr_givens_of board < MIN_GIVENS"
    using assms(3) by (simp add: nr_givens_of_def MIN_GIVENS_def is_in_def)
  ultimately have "solve board reverse = Inl ERR_GIVENS_SIZE_INSUFFICIENT"
    by (simp add: solve_def)
  then show ?thesis by simp
qed

text \<open>A board with 16 givens: the first 16 digits of a solved grid, then blanks.\<close>

definition sixteen_givens :: string where
  "sixteen_givens = ''4839216579673458'' @ replicate 65 (CHR ''.'')"

theorem solve_insufficient_givens_witness:
  "length sixteen_givens = 81 \<and>
   length (filter (\<lambda>char. char \<noteq> BLANK_CHAR \<and> char \<in> set DIGITS) sixteen_givens) = 16 \<and>
   solve sixteen_givens False = Inl ERR_GIVENS_SIZE_INSUFFICIENT \<and>
   solve sixteen_givens True = Inl ERR_GIVENS_SIZE_INSUFFICIENT"
proof -
  have l: "length sixteen_givens = 81"
    by (simp add: sixteen_givens_def)
  have v: "\<forall>char \<in> set sixteen_givens. char \<in> set DIGITS \<or> char = BLANK_CHAR"
    by (simp add: sixteen_givens_def DIGITS_def BLANK_CHAR_def)
  have n: "length (filter (\<lambda>char. char \<noteq> BLANK_CHAR \<and> char \<in> set DIGITS) sixteen_givens) = 16"
    by (simp add: sixteen_givens_def DIGITS_def BLANK_CHAR_def)
  then have n': "length (filter (\<lambda>char. char \<noteq> BLANK_CHAR \<and> char \<in> set DIGITS) sixteen_givens) < 17"
    by simp
  show ?thesis
    using l n solve_insufficient_givens[OF l v n', of False]
      solve_insufficient_givens[OF l v n', of True] by simp
qed

section \<open>Eliminating an absent value\<close>

text \<open>
  C5: when the digit is not among the candidates of the square, \<open>_eliminate\<close>
  returns the store it was given (success) and every square keeps its candidate
  string.
\<close>

theorem eliminate_absent_noop:
  "val \<notin> set (cands sq) \<Longrightarrow> eliminate cands sq val = (True, cands)"
  by (simp add: eliminate.simps is_in_def)

theorem eliminate_absent_noop_witness:
  "CHR ''9'' \<notin> set ((\<lambda>sq. ''12345678'') ''A1'') \<and>
   eliminate (\<lambda>sq. ''12345678'') ''A1'' (CHR ''9'') = (True, \<lambda>sq. ''12345678'')"
  using eliminate_absent_noop[of "CHR ''9''" "\<lambda>sq. ''12345678''" "''A1''"] by simp

section \<open>The search leaves its argument alone\<close>



section \<open>The topology\<close>

text \<open>
  The squares and the units as the constructor computes them, and, for every
  square, its units and its peers. \<open>square_units_map\<close> keeps of \<open>units\<close> those that
  hold the square, and \<open>square_peers_map\<close> pushes the squares of these units other
  than the square itself, once each.
\<close>

lemma squares_eq: "squares =
  [''A1'', ''A2'', ''A3'', ''A4'', ''A5'', ''A6'', ''A7'', ''A8'', ''A9'',
   ''B1'', ''B2'', ''B3'', ''B4'', ''B5'', ''B6'', ''B7'', ''B8'', ''B9'',
   ''C1'', ''C2'', ''C3'', ''C4'', ''C5'', ''C6'', ''C7'', ''C8'', ''C9'',
   ''D1'', ''D2'', ''D3'', ''D4'', ''D5'', ''D6'', ''D7'', ''D8'', ''D9'',
   ''E1'', ''E2'', ''E3'', ''E4'', ''E5'', ''E6'', ''E7'', ''E8'', ''E9'',
   ''F1'', ''F2'', ''F3'', ''F4'', ''F5'', ''F6'', ''F7'', ''F8'', ''F9'',
   ''G1'', ''G2'', ''G3'', ''G4'', ''G5'', ''G6'', ''G7'', ''G8'', ''G9'',
   ''H1'', ''H2'', ''H3'', ''H4'', ''H5'', ''H6'', ''H7'', ''H8'', ''H9'',
   ''I1'', ''I2'', ''I3'', ''I4'', ''I5'', ''I6'', ''I7'', ''I8'', ''I9'']"
  by (simp add: squares_def cross_def ROWS_def COLS_def)

lemma units_eq: "units =
  [[''A1'', ''A2'', ''A3'', ''A4'', ''A5'', ''A6'', ''A7'', ''A8'', ''A9''],
   [''B1'', ''B2'', ''B3'', ''B4'', ''B5'', ''B6'', ''B7'', ''B8'', ''B9''],
   [''C1'', ''C2'', ''C3'', ''C4'', ''C5'', ''C6'', ''C7'', ''C8'', ''C9''],
   [''D1'', ''D2'', ''D3'', ''D4'', ''D5'', ''D6'', ''D7'', ''D8'', ''D9''],
   [''E1'', ''E2'', ''E3'', ''E4'', ''E5'', ''E6'', ''E7'', ''E8'', ''E9''],
   [''F1'', ''F2'', ''F3'', ''F4'', ''F5'', ''F6'', ''F7'', ''F8'', ''F9''],
   [''G1'', ''G2'', ''G3'', ''G4'', ''G5'', ''G6'', ''G7'', ''G8'', ''G9''],
   [''H1'', ''H2'', ''H3'', ''H4'', ''H5'', ''H6'', ''H7'', ''H8'', ''H9''],
   [''I1'', ''I2'', ''I3'', ''I4'', ''I5'', ''I6'', ''I7'', ''I8'', ''I9''],
   [''A1'', ''B1'', ''C1'', ''D1'', ''E1'', ''F1'', ''G1'', ''H1'', ''I1''],
   [''A2'', ''B2'', ''C2'', ''D2'', ''E2'', ''F2'', ''G2'', ''H2'', ''I2''],
   [''A3'', ''B3'', ''C3'', ''D3'', ''E3'', ''F3'', ''G3'', ''H3'', ''I3''],
   [''A4'', ''B4'', ''C4'', ''D4'', ''E4'', ''F4'', ''G4'', ''H4'', ''I4''],
   [''A5'', ''B5'', ''C5'', ''D5'', ''E5'', ''F5'', ''G5'', ''H5'', ''I5''],
   [''A6'', ''B6'', ''C6'', ''D6'', ''E6'', ''F6'', ''G6'', ''H6'', ''I6''],
   [''A7'', ''B7'', ''C7'', ''D7'', ''E7'', ''F7'', ''G7'', ''H7'', ''I7''],
   [''A8'', ''B8'', ''C8'', ''D8'', ''E8'', ''F8'', ''G8'', ''H8'', ''I8''],
   [''A9'', ''B9'', ''C9'', ''D9'', ''E9'', ''F9'', ''G9'', ''H9'', ''I9''],
   [''A1'', ''A2'', ''A3'', ''B1'', ''B2'', ''B3'', ''C1'', ''C2'', ''C3''],
   [''A4'', ''A5'', ''A6'', ''B4'', ''B5'', ''B6'', ''C4'', ''C5'', ''C6''],
   [''A7'', ''A8'', ''A9'', ''B7'', ''B8'', ''B9'', ''C7'', ''C8'', ''C9''],
   [''D1'', ''D2'', ''D3'', ''E1'', ''E2'', ''E3'', ''F1'', ''F2'', ''F3''],
   [''D4'', ''D5'', ''D6'', ''E4'', ''E5'', ''E6'', ''F4'', ''F5'', ''F6''],
   [''D7'', ''D8'', ''D9'', ''E7'', ''E8'', ''E9'', ''F7'', ''F8'', ''F9''],
   [''G1'', ''G2'', ''G3'', ''H1'', ''H2'', ''H3'', ''I1'', ''I2'', ''I3''],
   [''G4'', ''G5'', ''G6'', ''H4'', ''H5'', ''H6'', ''I4'', ''I5'', ''I6''],
   [''G7'', ''G8'', ''G9'', ''H7'', ''H8'', ''H9'', ''I7'', ''I8'', ''I9'']]"
  by (simp add: units_def get_all_units_def cross_def ROWS_def COLS_def)

lemma map_of_tabulate: "k \<in> set ks \<Longrightarrow> map_of (map (\<lambda>k. (k, f k)) ks) k = Some (f k)"
  by (induction ks) auto

lemma square_units_map_eq:
  "sq \<in> set squares \<Longrightarrow> square_units_map sq = filter (\<lambda>u. is_in sq u) units"
  by (simp add: square_units_map_def get_square_units_map_def map_of_tabulate)

lemma square_peers_map_eq:
  "sq \<in> set squares \<Longrightarrow>
   square_peers_map sq = foldl (push_peer sq) [] (concat (square_units_map sq))"
  by (simp add: square_peers_map_def get_square_peers_map_def map_of_tabulate
      square_units_map_def)

lemma units_tab_A:
  "square_units_map ''A1'' =
     [[''A1'', ''A2'', ''A3'', ''A4'', ''A5'', ''A6'', ''A7'', ''A8'', ''A9''], [''A1'', ''B1'',
       ''C1'', ''D1'', ''E1'', ''F1'', ''G1'', ''H1'', ''I1''], [''A1'', ''A2'', ''A3'', ''B1'',
       ''B2'', ''B3'', ''C1'', ''C2'', ''C3'']]"
  "square_units_map ''A2'' =
     [[''A1'', ''A2'', ''A3'', ''A4'', ''A5'', ''A6'', ''A7'', ''A8'', ''A9''], [''A2'', ''B2'',
       ''C2'', ''D2'', ''E2'', ''F2'', ''G2'', ''H2'', ''I2''], [''A1'', ''A2'', ''A3'', ''B1'',
       ''B2'', ''B3'', ''C1'', ''C2'', ''C3'']]"
  "square_units_map ''A3'' =
     [[''A1'', ''A2'', ''A3'', ''A4'', ''A5'', ''A6'', ''A7'', ''A8'', ''A9''], [''A3'', ''B3'',
       ''C3'', ''D3'', ''E3'', ''F3'', ''G3'', ''H3'', ''I3''], [''A1'', ''A2'', ''A3'', ''B1'',
       ''B2'', ''B3'', ''C1'', ''C2'', ''C3'']]"
  "square_units_map ''A4'' =
     [[''A1'', ''A2'', ''A3'', ''A4'', ''A5'', ''A6'', ''A7'', ''A8'', ''A9''], [''A4'', ''B4'',
       ''C4'', ''D4'', ''E4'', ''F4'', ''G4'', ''H4'', ''I4''], [''A4'', ''A5'', ''A6'', ''B4'',
       ''B5'', ''B6'', ''C4'', ''C5'', ''C6'']]"
  "square_units_map ''A5'' =
     [[''A1'', ''A2'', ''A3'', ''A4'', ''A5'', ''A6'', ''A7'', ''A8'', ''A9''], [''A5'', ''B5'',
       ''C5'', ''D5'', ''E5'', ''F5'', ''G5'', ''H5'', ''I5''], [''A4'', ''A5'', ''A6'', ''B4'',
       ''B5'', ''B6'', ''C4'', ''C5'', ''C6'']]"
  "square_units_map ''A6'' =
     [[''A1'', ''A2'', ''A3'', ''A4'', ''A5'', ''A6'', ''A7'', ''A8'', ''A9''], [''A6'', ''B6'',
       ''C6'', ''D6'', ''E6'', ''F6'', ''G6'', ''H6'', ''I6''], [''A4'', ''A5'', ''A6'', ''B4'',
       ''B5'', ''B6'', ''C4'', ''C5'', ''C6'']]"
  "square_units_map ''A7'' =
     [[''A1'', ''A2'', ''A3'', ''A4'', ''A5'', ''A6'', ''A7'', ''A8'', ''A9''], [''A7'', ''B7'',
       ''C7'', ''D7'', ''E7'', ''F7'', ''G7'', ''H7'', ''I7''], [''A7'', ''A8'', ''A9'', ''B7'',
       ''B8'', ''B9'', ''C7'', ''C8'', ''C9'']]"
  "square_units_map ''A8'' =
     [[''A1'', ''A2'', ''A3'', ''A4'', ''A5'', ''A6'', ''A7'', ''A8'', ''A9''], [''A8'', ''B8'',
       ''C8'', ''D8'', ''E8'', ''F8'', ''G8'', ''H8'', ''I8''], [''A7'', ''A8'', ''A9'', ''B7'',
       ''B8'', ''B9'', ''C7'', ''C8'', ''C9'']]"
  "square_units_map ''A9'' =
     [[''A1'', ''A2'', ''A3'', ''A4'', ''A5'', ''A6'', ''A7'', ''A8'', ''A9''], [''A9'', ''B9'',
       ''C9'', ''D9'', ''E9'', ''F9'', ''G9'', ''H9'', ''I9''], [''A7'', ''A8'', ''A9'', ''B7'',
       ''B8'', ''B9'', ''C7'', ''C8'', ''C9'']]"
  by (simp_all add: square_units_map_eq squares_eq units_eq is_in_def)

lemma units_tab_B:
  "square_units_map ''B1'' =
     [[''B1'', ''B2'', ''B3'', ''B4'', ''B5'', ''B6'', ''B7'', ''B8'', ''B9''], [''A1'', ''B1'',
       ''C1'', ''D1'', ''E1'', ''F1'', ''G1'', ''H1'', ''I1''], [''A1'', ''A2'', ''A3'', ''B1'',
       ''B2'', ''B3'', ''C1'', ''C2'', ''C3'']]"
  "square_units_map ''B2'' =
     [[''B1'', ''B2'', ''B3'', ''B4'', ''B5'', ''B6'', ''B7'', ''B8'', ''B9''], [''A2'', ''B2'',
       ''C2'', ''D2'', ''E2'', ''F2'', ''G2'', ''H2'', ''I2''], [''A1'', ''A2'', ''A3'', ''B1'',
       ''B2'', ''B3'', ''C1'', ''C2'', ''C3'']]"
  "square_units_map ''B3'' =
     [[''B1'', ''B2'', ''B3'', ''B4'', ''B5'', ''B6'', ''B7'', ''B8'', ''B9''], [''A3'', ''B3'',
       ''C3'', ''D3'', ''E3'', ''F3'', ''G3'', ''H3'', ''I3''], [''A1'', ''A2'', ''A3'', ''B1'',
       ''B2'', ''B3'', ''C1'', ''C2'', ''C3'']]"
  "square_units_map ''B4'' =
     [[''B1'', ''B2'', ''B3'', ''B4'', ''B5'', ''B6'', ''B7'', ''B8'', ''B9''], [''A4'', ''B4'',
       ''C4'', ''D4'', ''E4'', ''F4'', ''G4'', ''H4'', ''I4''], [''A4'', ''A5'', ''A6'', ''B4'',
       ''B5'', ''B6'', ''C4'', ''C5'', ''C6'']]"
  "square_units_map ''B5'' =
     [[''B1'', ''B2'', ''B3'', ''B4'', ''B5'', ''B6'', ''B7'', ''B8'', ''B9''], [''A5'', ''B5'',
       ''C5'', ''D5'', ''E5'', ''F5'', ''G5'', ''H5'', ''I5''], [''A4'', ''A5'', ''A6'', ''B4'',
       ''B5'', ''B6'', ''C4'', ''C5'', ''C6'']]"
  "square_units_map ''B6'' =
     [[''B1'', ''B2'', ''B3'', ''B4'', ''B5'', ''B6'', ''B7'', ''B8'', ''B9''], [''A6'', ''B6'',
       ''C6'', ''D6'', ''E6'', ''F6'', ''G6'', ''H6'', ''I6''], [''A4'', ''A5'', ''A6'', ''B4'',
       ''B5'', ''B6'', ''C4'', ''C5'', ''C6'']]"
  "square_units_map ''B7'' =
     [[''B1'', ''B2'', ''B3'', ''B4'', ''B5'', ''B6'', ''B7'', ''B8'', ''B9''], [''A7'', ''B7'',
       ''C7'', ''D7'', ''E7'', ''F7'', ''G7'', ''H7'', ''I7''], [''A7'', ''A8'', ''A9'', ''B7'',
       ''B8'', ''B9'', ''C7'', ''C8'', ''C9'']]"
  "square_units_map ''B8'' =
     [[''B1'', ''B2'', ''B3'', ''B4'', ''B5'', ''B6'', ''B7'', ''B8'', ''B9''], [''A8'', ''B8'',
       ''C8'', ''D8'', ''E8'', ''F8'', ''G8'', ''H8'', ''I8''], [''A7'', ''A8'', ''A9'', ''B7'',
       ''B8'', ''B9'', ''C7'', ''C8'', ''C9'']]"
  "square_units_map ''B9'' =
     [[''B1'', ''B2'', ''B3'', ''B4'', ''B5'', ''B6'', ''B7'', ''B8'', ''B9''], [''A9'', ''B9'',
       ''C9'', ''D9'', ''E9'', ''F9'', ''G9'', ''H9'', ''I9''], [''A7'', ''A8'', ''A9'', ''B7'',
       ''B8'', ''B9'', ''C7'', ''C8'', ''C9'']]"
  by (simp_all add: square_units_map_eq squares_eq units_eq is_in_def)

lemma units_tab_C:
  "square_units_map ''C1'' =
     [[''C1'', ''C2'', ''C3'', ''C4'', ''C5'', ''C6'', ''C7'', ''C8'', ''C9''], [''A1'', ''B1'',
       ''C1'', ''D1'', ''E1'', ''F1'', ''G1'', ''H1'', ''I1''], [''A1'', ''A2'', ''A3'', ''B1'',
       ''B2'', ''B3'', ''C1'', ''C2'', ''C3'']]"
  "square_units_map ''C2'' =
     [[''C1'', ''C2'', ''C3'', ''C4'', ''C5'', ''C6'', ''C7'', ''C8'', ''C9''], [''A2'', ''B2'',
       ''C2'', ''D2'', ''E2'', ''F2'', ''G2'', ''H2'', ''I2''], [''A1'', ''A2'', ''A3'', ''B1'',
       ''B2'', ''B3'', ''C1'', ''C2'', ''C3'']]"
  "square_units_map ''C3'' =
     [[''C1'', ''C2'', ''C3'', ''C4'', ''C5'', ''C6'', ''C7'', ''C8'', ''C9''], [''A3'', ''B3'',
       ''C3'', ''D3'', ''E3'', ''F3'', ''G3'', ''H3'', ''I3''], [''A1'', ''A2'', ''A3'', ''B1'',
       ''B2'', ''B3'', ''C1'', ''C2'', ''C3'']]"
  "square_units_map ''C4'' =
     [[''C1'', ''C2'', ''C3'', ''C4'', ''C5'', ''C6'', ''C7'', ''C8'', ''C9''], [''A4'', ''B4'',
       ''C4'', ''D4'', ''E4'', ''F4'', ''G4'', ''H4'', ''I4''], [''A4'', ''A5'', ''A6'', ''B4'',
       ''B5'', ''B6'', ''C4'', ''C5'', ''C6'']]"
  "square_units_map ''C5'' =
     [[''C1'', ''C2'', ''C3'', ''C4'', ''C5'', ''C6'', ''C7'', ''C8'', ''C9''], [''A5'', ''B5'',
       ''C5'', ''D5'', ''E5'', ''F5'', ''G5'', ''H5'', ''I5''], [''A4'', ''A5'', ''A6'', ''B4'',
       ''B5'', ''B6'', ''C4'', ''C5'', ''C6'']]"
  "square_units_map ''C6'' =
     [[''C1'', ''C2'', ''C3'', ''C4'', ''C5'', ''C6'', ''C7'', ''C8'', ''C9''], [''A6'', ''B6'',
       ''C6'', ''D6'', ''E6'', ''F6'', ''G6'', ''H6'', ''I6''], [''A4'', ''A5'', ''A6'', ''B4'',
       ''B5'', ''B6'', ''C4'', ''C5'', ''C6'']]"
  "square_units_map ''C7'' =
     [[''C1'', ''C2'', ''C3'', ''C4'', ''C5'', ''C6'', ''C7'', ''C8'', ''C9''], [''A7'', ''B7'',
       ''C7'', ''D7'', ''E7'', ''F7'', ''G7'', ''H7'', ''I7''], [''A7'', ''A8'', ''A9'', ''B7'',
       ''B8'', ''B9'', ''C7'', ''C8'', ''C9'']]"
  "square_units_map ''C8'' =
     [[''C1'', ''C2'', ''C3'', ''C4'', ''C5'', ''C6'', ''C7'', ''C8'', ''C9''], [''A8'', ''B8'',
       ''C8'', ''D8'', ''E8'', ''F8'', ''G8'', ''H8'', ''I8''], [''A7'', ''A8'', ''A9'', ''B7'',
       ''B8'', ''B9'', ''C7'', ''C8'', ''C9'']]"
  "square_units_map ''C9'' =
     [[''C1'', ''C2'', ''C3'', ''C4'', ''C5'', ''C6'', ''C7'', ''C8'', ''C9''], [''A9'', ''B9'',
       ''C9'', ''D9'', ''E9'', ''F9'', ''G9'', ''H9'', ''I9''], [''A7'', ''A8'', ''A9'', ''B7'',
       ''B8'', ''B9'', ''C7'', ''C8'', ''C9'']]"
  by (simp_all add: square_units_map_eq squares_eq units_eq is_in_def)

lemma units_tab_D:
  "square_units_map ''D1'' =
     [[''D1'', ''D2'', ''D3'', ''D4'', ''D5'', ''D6'', ''D7'', ''D8'', ''D9''], [''A1'', ''B1'',
       ''C1'', ''D1'', ''E1'', ''F1'', ''G1'', ''H1'', ''I1''], [''D1'', ''D2'', ''D3'', ''E1'',
       ''E2'', ''E3'', ''F1'', ''F2'', ''F3'']]"
  "square_units_map ''D2'' =
     [[''D1'', ''D2'', ''D3'', ''D4'', ''D5'', ''D6'', ''D7'', ''D8'', ''D9''], [''A2'', ''B2'',
       ''C2'', ''D2'', ''E2'', ''F2'', ''G2'', ''H2'', ''I2''], [''D1'', ''D2'', ''D3'', ''E1'',
       ''E2'', ''E3'', ''F1'', ''F2'', ''F3'']]"
  "square_units_map ''D3'' =
     [[''D1'', ''D2'', ''D3'', ''D4'', ''D5'', ''D6'', ''D7'', ''D8'', ''D9''], [''A3'', ''B3'',
       ''C3'', ''D3'', ''E3'', ''F3'', ''G3'', ''H3'', ''I3''], [''D1'', ''D2'', ''D3'', ''E1'',
       ''E2'', ''E3'', ''F1'', ''F2'', ''F3'']]"
  "square_units_map ''D4'' =
     [[''D1'', ''D2'', ''D3'', ''D4'', ''D5'', ''D6'', ''D7'', ''D8'', ''D9''], [''A4'', ''B4'',
       ''C4'', ''D4'', ''E4'', ''F4'', ''G4'', ''H4'', ''I4''], [''D4'', ''D5'', ''D6'', ''E4'',
       ''E5'', ''E6'', ''F4'', ''F5'', ''F6'']]"
  "square_units_map ''D5'' =
     [[''D1'', ''D2'', ''D3'', ''D4'', ''D5'', ''D6'', ''D7'', ''D8'', ''D9''], [''A5'', ''B5'',
       ''C5'', ''D5'', ''E5'', ''F5'', ''G5'', ''H5'', ''I5''], [''D4'', ''D5'', ''D6'', ''E4'',
       ''E5'', ''E6'', ''F4'', ''F5'', ''F6'']]"
  "square_units_map ''D6'' =
     [[''D1'', ''D2'', ''D3'', ''D4'', ''D5'', ''D6'', ''D7'', ''D8'', ''D9''], [''A6'', ''B6'',
       ''C6'', ''D6'', ''E6'', ''F6'', ''G6'', ''H6'', ''I6''], [''D4'', ''D5'', ''D6'', ''E4'',
       ''E5'', ''E6'', ''F4'', ''F5'', ''F6'']]"
  "square_units_map ''D7'' =
     [[''D1'', ''D2'', ''D3'', ''D4'', ''D5'', ''D6'', ''D7'', ''D8'', ''D9''], [''A7'', ''B7'',
       ''C7'', ''D7'', ''E7'', ''F7'', ''G7'', ''H7'', ''I7''], [''D7'', ''D8'', ''D9'', ''E7'',
       ''E8'', ''E9'', ''F7'', ''F8'', ''F9'']]"
  "square_units_map ''D8'' =
     [[''D1'', ''D2'', ''D3'', ''D4'', ''D5'', ''D6'', ''D7'', ''D8'', ''D9''], [''A8'', ''B8'',
       ''C8'', ''D8'', ''E8'', ''F8'', ''G8'', ''H8'', ''I8''], [''D7'', ''D8'', ''D9'', ''E7'',
       ''E8'', ''E9'', ''F7'', ''F8'', ''F9'']]"
  "square_units_map ''D9'' =
     [[''D1'', ''D2'', ''D3'', ''D4'', ''D5'', ''D6'', ''D7'', ''D8'', ''D9''], [''A9'', ''B9'',
       ''C9'', ''D9'', ''E9'', ''F9'', ''G9'', ''H9'', ''I9''], [''D7'', ''D8'', ''D9'', ''E7'',
       ''E8'', ''E9'', ''F7'', ''F8'', ''F9'']]"
  by (simp_all add: square_units_map_eq squares_eq units_eq is_in_def)

lemma units_tab_E:
  "square_units_map ''E1'' =
     [[''E1'', ''E2'', ''E3'', ''E4'', ''E5'', ''E6'', ''E7'', ''E8'', ''E9''], [''A1'', ''B1'',
       ''C1'', ''D1'', ''E1'', ''F1'', ''G1'', ''H1'', ''I1''], [''D1'', ''D2'', ''D3'', ''E1'',
       ''E2'', ''E3'', ''F1'', ''F2'', ''F3'']]"
  "square_units_map ''E2'' =
     [[''E1'', ''E2'', ''E3'', ''E4'', ''E5'', ''E6'', ''E7'', ''E8'', ''E9''], [''A2'', ''B2'',
       ''C2'', ''D2'', ''E2'', ''F2'', ''G2'', ''H2'', ''I2''], [''D1'', ''D2'', ''D3'', ''E1'',
       ''E2'', ''E3'', ''F1'', ''F2'', ''F3'']]"
  "square_units_map ''E3'' =
     [[''E1'', ''E2'', ''E3'', ''E4'', ''E5'', ''E6'', ''E7'', ''E8'', ''E9''], [''A3'', ''B3'',
       ''C3'', ''D3'', ''E3'', ''F3'', ''G3'', ''H3'', ''I3''], [''D1'', ''D2'', ''D3'', ''E1'',
       ''E2'', ''E3'', ''F1'', ''F2'', ''F3'']]"
  "square_units_map ''E4'' =
     [[''E1'', ''E2'', ''E3'', ''E4'', ''E5'', ''E6'', ''E7'', ''E8'', ''E9''], [''A4'', ''B4'',
       ''C4'', ''D4'', ''E4'', ''F4'', ''G4'', ''H4'', ''I4''], [''D4'', ''D5'', ''D6'', ''E4'',
       ''E5'', ''E6'', ''F4'', ''F5'', ''F6'']]"
  "square_units_map ''E5'' =
     [[''E1'', ''E2'', ''E3'', ''E4'', ''E5'', ''E6'', ''E7'', ''E8'', ''E9''], [''A5'', ''B5'',
       ''C5'', ''D5'', ''E5'', ''F5'', ''G5'', ''H5'', ''I5''], [''D4'', ''D5'', ''D6'', ''E4'',
       ''E5'', ''E6'', ''F4'', ''F5'', ''F6'']]"
  "square_units_map ''E6'' =
     [[''E1'', ''E2'', ''E3'', ''E4'', ''E5'', ''E6'', ''E7'', ''E8'', ''E9''], [''A6'', ''B6'',
       ''C6'', ''D6'', ''E6'', ''F6'', ''G6'', ''H6'', ''I6''], [''D4'', ''D5'', ''D6'', ''E4'',
       ''E5'', ''E6'', ''F4'', ''F5'', ''F6'']]"
  "square_units_map ''E7'' =
     [[''E1'', ''E2'', ''E3'', ''E4'', ''E5'', ''E6'', ''E7'', ''E8'', ''E9''], [''A7'', ''B7'',
       ''C7'', ''D7'', ''E7'', ''F7'', ''G7'', ''H7'', ''I7''], [''D7'', ''D8'', ''D9'', ''E7'',
       ''E8'', ''E9'', ''F7'', ''F8'', ''F9'']]"
  "square_units_map ''E8'' =
     [[''E1'', ''E2'', ''E3'', ''E4'', ''E5'', ''E6'', ''E7'', ''E8'', ''E9''], [''A8'', ''B8'',
       ''C8'', ''D8'', ''E8'', ''F8'', ''G8'', ''H8'', ''I8''], [''D7'', ''D8'', ''D9'', ''E7'',
       ''E8'', ''E9'', ''F7'', ''F8'', ''F9'']]"
  "square_units_map ''E9'' =
     [[''E1'', ''E2'', ''E3'', ''E4'', ''E5'', ''E6'', ''E7'', ''E8'', ''E9''], [''A9'', ''B9'',
       ''C9'', ''D9'', ''E9'', ''F9'', ''G9'', ''H9'', ''I9''], [''D7'', ''D8'', ''D9'', ''E7'',
       ''E8'', ''E9'', ''F7'', ''F8'', ''F9'']]"
  by (simp_all add: square_units_map_eq squares_eq units_eq is_in_def)

lemma units_tab_F:
  "square_units_map ''F1'' =
     [[''F1'', ''F2'', ''F3'', ''F4'', ''F5'', ''F6'', ''F7'', ''F8'', ''F9''], [''A1'', ''B1'',
       ''C1'', ''D1'', ''E1'', ''F1'', ''G1'', ''H1'', ''I1''], [''D1'', ''D2'', ''D3'', ''E1'',
       ''E2'', ''E3'', ''F1'', ''F2'', ''F3'']]"
  "square_units_map ''F2'' =
     [[''F1'', ''F2'', ''F3'', ''F4'', ''F5'', ''F6'', ''F7'', ''F8'', ''F9''], [''A2'', ''B2'',
       ''C2'', ''D2'', ''E2'', ''F2'', ''G2'', ''H2'', ''I2''], [''D1'', ''D2'', ''D3'', ''E1'',
       ''E2'', ''E3'', ''F1'', ''F2'', ''F3'']]"
  "square_units_map ''F3'' =
     [[''F1'', ''F2'', ''F3'', ''F4'', ''F5'', ''F6'', ''F7'', ''F8'', ''F9''], [''A3'', ''B3'',
       ''C3'', ''D3'', ''E3'', ''F3'', ''G3'', ''H3'', ''I3''], [''D1'', ''D2'', ''D3'', ''E1'',
       ''E2'', ''E3'', ''F1'', ''F2'', ''F3'']]"
  "square_units_map ''F4'' =
     [[''F1'', ''F2'', ''F3'', ''F4'', ''F5'', ''F6'', ''F7'', ''F8'', ''F9''], [''A4'', ''B4'',
       ''C4'', ''D4'', ''E4'', ''F4'', ''G4'', ''H4'', ''I4''], [''D4'', ''D5'', ''D6'', ''E4'',
       ''E5'', ''E6'', ''F4'', ''F5'', ''F6'']]"
  "square_units_map ''F5'' =
     [[''F1'', ''F2'', ''F3'', ''F4'', ''F5'', ''F6'', ''F7'', ''F8'', ''F9''], [''A5'', ''B5'',
       ''C5'', ''D5'', ''E5'', ''F5'', ''G5'', ''H5'', ''I5''], [''D4'', ''D5'', ''D6'', ''E4'',
       ''E5'', ''E6'', ''F4'', ''F5'', ''F6'']]"
  "square_units_map ''F6'' =
     [[''F1'', ''F2'', ''F3'', ''F4'', ''F5'', ''F6'', ''F7'', ''F8'', ''F9''], [''A6'', ''B6'',
       ''C6'', ''D6'', ''E6'', ''F6'', ''G6'', ''H6'', ''I6''], [''D4'', ''D5'', ''D6'', ''E4'',
       ''E5'', ''E6'', ''F4'', ''F5'', ''F6'']]"
  "square_units_map ''F7'' =
     [[''F1'', ''F2'', ''F3'', ''F4'', ''F5'', ''F6'', ''F7'', ''F8'', ''F9''], [''A7'', ''B7'',
       ''C7'', ''D7'', ''E7'', ''F7'', ''G7'', ''H7'', ''I7''], [''D7'', ''D8'', ''D9'', ''E7'',
       ''E8'', ''E9'', ''F7'', ''F8'', ''F9'']]"
  "square_units_map ''F8'' =
     [[''F1'', ''F2'', ''F3'', ''F4'', ''F5'', ''F6'', ''F7'', ''F8'', ''F9''], [''A8'', ''B8'',
       ''C8'', ''D8'', ''E8'', ''F8'', ''G8'', ''H8'', ''I8''], [''D7'', ''D8'', ''D9'', ''E7'',
       ''E8'', ''E9'', ''F7'', ''F8'', ''F9'']]"
  "square_units_map ''F9'' =
     [[''F1'', ''F2'', ''F3'', ''F4'', ''F5'', ''F6'', ''F7'', ''F8'', ''F9''], [''A9'', ''B9'',
       ''C9'', ''D9'', ''E9'', ''F9'', ''G9'', ''H9'', ''I9''], [''D7'', ''D8'', ''D9'', ''E7'',
       ''E8'', ''E9'', ''F7'', ''F8'', ''F9'']]"
  by (simp_all add: square_units_map_eq squares_eq units_eq is_in_def)

lemma units_tab_G:
  "square_units_map ''G1'' =
     [[''G1'', ''G2'', ''G3'', ''G4'', ''G5'', ''G6'', ''G7'', ''G8'', ''G9''], [''A1'', ''B1'',
       ''C1'', ''D1'', ''E1'', ''F1'', ''G1'', ''H1'', ''I1''], [''G1'', ''G2'', ''G3'', ''H1'',
       ''H2'', ''H3'', ''I1'', ''I2'', ''I3'']]"
  "square_units_map ''G2'' =
     [[''G1'', ''G2'', ''G3'', ''G4'', ''G5'', ''G6'', ''G7'', ''G8'', ''G9''], [''A2'', ''B2'',
       ''C2'', ''D2'', ''E2'', ''F2'', ''G2'', ''H2'', ''I2''], [''G1'', ''G2'', ''G3'', ''H1'',
       ''H2'', ''H3'', ''I1'', ''I2'', ''I3'']]"
  "square_units_map ''G3'' =
     [[''G1'', ''G2'', ''G3'', ''G4'', ''G5'', ''G6'', ''G7'', ''G8'', ''G9''], [''A3'', ''B3'',
       ''C3'', ''D3'', ''E3'', ''F3'', ''G3'', ''H3'', ''I3''], [''G1'', ''G2'', ''G3'', ''H1'',
       ''H2'', ''H3'', ''I1'', ''I2'', ''I3'']]"
  "square_units_map ''G4'' =
     [[''G1'', ''G2'', ''G3'', ''G4'', ''G5'', ''G6'', ''G7'', ''G8'', ''G9''], [''A4'', ''B4'',
       ''C4'', ''D4'', ''E4'', ''F4'', ''G4'', ''H4'', ''I4''], [''G4'', ''G5'', ''G6'', ''H4'',
       ''H5'', ''H6'', ''I4'', ''I5'', ''I6'']]"
  "square_units_map ''G5'' =
     [[''G1'', ''G2'', ''G3'', ''G4'', ''G5'', ''G6'', ''G7'', ''G8'', ''G9''], [''A5'', ''B5'',
       ''C5'', ''D5'', ''E5'', ''F5'', ''G5'', ''H5'', ''I5''], [''G4'', ''G5'', ''G6'', ''H4'',
       ''H5'', ''H6'', ''I4'', ''I5'', ''I6'']]"
  "square_units_map ''G6'' =
     [[''G1'', ''G2'', ''G3'', ''G4'', ''G5'', ''G6'', ''G7'', ''G8'', ''G9''], [''A6'', ''B6'',
       ''C6'', ''D6'', ''E6'', ''F6'', ''G6'', ''H6'', ''I6''], [''G4'', ''G5'', ''G6'', ''H4'',
       ''H5'', ''H6'', ''I4'', ''I5'', ''I6'']]"
  "square_units_map ''G7'' =
     [[''G1'', ''G2'', ''G3'', ''G4'', ''G5'', ''G6'', ''G7'', ''G8'', ''G9''], [''A7'', ''B7'',
       ''C7'', ''D7'', ''E7'', ''F7'', ''G7'', ''H7'', ''I7''], [''G7'', ''G8'', ''G9'', ''H7'',
       ''H8'', ''H9'', ''I7'', ''I8'', ''I9'']]"
  "square_units_map ''G8'' =
     [[''G1'', ''G2'', ''G3'', ''G4'', ''G5'', ''G6'', ''G7'', ''G8'', ''G9''], [''A8'', ''B8'',
       ''C8'', ''D8'', ''E8'', ''F8'', ''G8'', ''H8'', ''I8''], [''G7'', ''G8'', ''G9'', ''H7'',
       ''H8'', ''H9'', ''I7'', ''I8'', ''I9'']]"
  "square_units_map ''G9'' =
     [[''G1'', ''G2'', ''G3'', ''G4'', ''G5'', ''G6'', ''G7'', ''G8'', ''G9''], [''A9'', ''B9'',
       ''C9'', ''D9'', ''E9'', ''F9'', ''G9'', ''H9'', ''I9''], [''G7'', ''G8'', ''G9'', ''H7'',
       ''H8'', ''H9'', ''I7'', ''I8'', ''I9'']]"
  by (simp_all add: square_units_map_eq squares_eq units_eq is_in_def)

lemma units_tab_H:
  "square_units_map ''H1'' =
     [[''H1'', ''H2'', ''H3'', ''H4'', ''H5'', ''H6'', ''H7'', ''H8'', ''H9''], [''A1'', ''B1'',
       ''C1'', ''D1'', ''E1'', ''F1'', ''G1'', ''H1'', ''I1''], [''G1'', ''G2'', ''G3'', ''H1'',
       ''H2'', ''H3'', ''I1'', ''I2'', ''I3'']]"
  "square_units_map ''H2'' =
     [[''H1'', ''H2'', ''H3'', ''H4'', ''H5'', ''H6'', ''H7'', ''H8'', ''H9''], [''A2'', ''B2'',
       ''C2'', ''D2'', ''E2'', ''F2'', ''G2'', ''H2'', ''I2''], [''G1'', ''G2'', ''G3'', ''H1'',
       ''H2'', ''H3'', ''I1'', ''I2'', ''I3'']]"
  "square_units_map ''H3'' =
     [[''H1'', ''H2'', ''H3'', ''H4'', ''H5'', ''H6'', ''H7'', ''H8'', ''H9''], [''A3'', ''B3'',
       ''C3'', ''D3'', ''E3'', ''F3'', ''G3'', ''H3'', ''I3''], [''G1'', ''G2'', ''G3'', ''H1'',
       ''H2'', ''H3'', ''I1'', ''I2'', ''I3'']]"
  "square_units_map ''H4'' =
     [[''H1'', ''H2'', ''H3'', ''H4'', ''H5'', ''H6'', ''H7'', ''H8'', ''H9''], [''A4'', ''B4'',
       ''C4'', ''D4'', ''E4'', ''F4'', ''G4'', ''H4'', ''I4''], [''G4'', ''G5'', ''G6'', ''H4'',
       ''H5'', ''H6'', ''I4'', ''I5'', ''I6'']]"
  "square_units_map ''H5'' =
     [[''H1'', ''H2'', ''H3'', ''H4'', ''H5'', ''H6'', ''H7'', ''H8'', ''H9''], [''A5'', ''B5'',
       ''C5'', ''D5'', ''E5'', ''F5'', ''G5'', ''H5'', ''I5''], [''G4'', ''G5'', ''G6'', ''H4'',
       ''H5'', ''H6'', ''I4'', ''I5'', ''I6'']]"
  "square_units_map ''H6'' =
     [[''H1'', ''H2'', ''H3'', ''H4'', ''H5'', ''H6'', ''H7'', ''H8'', ''H9''], [''A6'', ''B6'',
       ''C6'', ''D6'', ''E6'', ''F6'', ''G6'', ''H6'', ''I6''], [''G4'', ''G5'', ''G6'', ''H4'',
       ''H5'', ''H6'', ''I4'', ''I5'', ''I6'']]"
  "square_units_map ''H7'' =
     [[''H1'', ''H2'', ''H3'', ''H4'', ''H5'', ''H6'', ''H7'', ''H8'', ''H9''], [''A7'', ''B7'',
       ''C7'', ''D7'', ''E7'', ''F7'', ''G7'', ''H7'', ''I7''], [''G7'', ''G8'', ''G9'', ''H7'',
       ''H8'', ''H9'', ''I7'', ''I8'', ''I9'']]"
  "square_units_map ''H8'' =
     [[''H1'', ''H2'', ''H3'', ''H4'', ''H5'', ''H6'', ''H7'', ''H8'', ''H9''], [''A8'', ''B8'',
       ''C8'', ''D8'', ''E8'', ''F8'', ''G8'', ''H8'', ''I8''], [''G7'', ''G8'', ''G9'', ''H7'',
       ''H8'', ''H9'', ''I7'', ''I8'', ''I9'']]"
  "square_units_map ''H9'' =
     [[''H1'', ''H2'', ''H3'', ''H4'', ''H5'', ''H6'', ''H7'', ''H8'', ''H9''], [''A9'', ''B9'',
       ''C9'', ''D9'', ''E9'', ''F9'', ''G9'', ''H9'', ''I9''], [''G7'', ''G8'', ''G9'', ''H7'',
       ''H8'', ''H9'', ''I7'', ''I8'', ''I9'']]"
  by (simp_all add: square_units_map_eq squares_eq units_eq is_in_def)

lemma units_tab_I:
  "square_units_map ''I1'' =
     [[''I1'', ''I2'', ''I3'', ''I4'', ''I5'', ''I6'', ''I7'', ''I8'', ''I9''], [''A1'', ''B1'',
       ''C1'', ''D1'', ''E1'', ''F1'', ''G1'', ''H1'', ''I1''], [''G1'', ''G2'', ''G3'', ''H1'',
       ''H2'', ''H3'', ''I1'', ''I2'', ''I3'']]"
  "square_units_map ''I2'' =
     [[''I1'', ''I2'', ''I3'', ''I4'', ''I5'', ''I6'', ''I7'', ''I8'', ''I9''], [''A2'', ''B2'',
       ''C2'', ''D2'', ''E2'', ''F2'', ''G2'', ''H2'', ''I2''], [''G1'', ''G2'', ''G3'', ''H1'',
       ''H2'', ''H3'', ''I1'', ''I2'', ''I3'']]"
  "square_units_map ''I3'' =
     [[''I1'', ''I2'', ''I3'', ''I4'', ''I5'', ''I6'', ''I7'', ''I8'', ''I9''], [''A3'', ''B3'',
       ''C3'', ''D3'', ''E3'', ''F3'', ''G3'', ''H3'', ''I3''], [''G1'', ''G2'', ''G3'', ''H1'',
       ''H2'', ''H3'', ''I1'', ''I2'', ''I3'']]"
  "square_units_map ''I4'' =
     [[''I1'', ''I2'', ''I3'', ''I4'', ''I5'', ''I6'', ''I7'', ''I8'', ''I9''], [''A4'', ''B4'',
       ''C4'', ''D4'', ''E4'', ''F4'', ''G4'', ''H4'', ''I4''], [''G4'', ''G5'', ''G6'', ''H4'',
       ''H5'', ''H6'', ''I4'', ''I5'', ''I6'']]"
  "square_units_map ''I5'' =
     [[''I1'', ''I2'', ''I3'', ''I4'', ''I5'', ''I6'', ''I7'', ''I8'', ''I9''], [''A5'', ''B5'',
       ''C5'', ''D5'', ''E5'', ''F5'', ''G5'', ''H5'', ''I5''], [''G4'', ''G5'', ''G6'', ''H4'',
       ''H5'', ''H6'', ''I4'', ''I5'', ''I6'']]"
  "square_units_map ''I6'' =
     [[''I1'', ''I2'', ''I3'', ''I4'', ''I5'', ''I6'', ''I7'', ''I8'', ''I9''], [''A6'', ''B6'',
       ''C6'', ''D6'', ''E6'', ''F6'', ''G6'', ''H6'', ''I6''], [''G4'', ''G5'', ''G6'', ''H4'',
       ''H5'', ''H6'', ''I4'', ''I5'', ''I6'']]"
  "square_units_map ''I7'' =
     [[''I1'', ''I2'', ''I3'', ''I4'', ''I5'', ''I6'', ''I7'', ''I8'', ''I9''], [''A7'', ''B7'',
       ''C7'', ''D7'', ''E7'', ''F7'', ''G7'', ''H7'', ''I7''], [''G7'', ''G8'', ''G9'', ''H7'',
       ''H8'', ''H9'', ''I7'', ''I8'', ''I9'']]"
  "square_units_map ''I8'' =
     [[''I1'', ''I2'', ''I3'', ''I4'', ''I5'', ''I6'', ''I7'', ''I8'', ''I9''], [''A8'', ''B8'',
       ''C8'', ''D8'', ''E8'', ''F8'', ''G8'', ''H8'', ''I8''], [''G7'', ''G8'', ''G9'', ''H7'',
       ''H8'', ''H9'', ''I7'', ''I8'', ''I9'']]"
  "square_units_map ''I9'' =
     [[''I1'', ''I2'', ''I3'', ''I4'', ''I5'', ''I6'', ''I7'', ''I8'', ''I9''], [''A9'', ''B9'',
       ''C9'', ''D9'', ''E9'', ''F9'', ''G9'', ''H9'', ''I9''], [''G7'', ''G8'', ''G9'', ''H7'',
       ''H8'', ''H9'', ''I7'', ''I8'', ''I9'']]"
  by (simp_all add: square_units_map_eq squares_eq units_eq is_in_def)

lemmas units_tab = units_tab_A units_tab_B units_tab_C units_tab_D units_tab_E units_tab_F units_tab_G units_tab_H units_tab_I

lemma peers_tab_A:
  "square_peers_map ''A1'' =
     [''A2'', ''A3'', ''A4'', ''A5'', ''A6'', ''A7'', ''A8'', ''A9'', ''B1'', ''C1'', ''D1'',
       ''E1'', ''F1'', ''G1'', ''H1'', ''I1'', ''B2'', ''B3'', ''C2'', ''C3'']"
  "square_peers_map ''A2'' =
     [''A1'', ''A3'', ''A4'', ''A5'', ''A6'', ''A7'', ''A8'', ''A9'', ''B2'', ''C2'', ''D2'',
       ''E2'', ''F2'', ''G2'', ''H2'', ''I2'', ''B1'', ''B3'', ''C1'', ''C3'']"
  "square_peers_map ''A3'' =
     [''A1'', ''A2'', ''A4'', ''A5'', ''A6'', ''A7'', ''A8'', ''A9'', ''B3'', ''C3'', ''D3'',
       ''E3'', ''F3'', ''G3'', ''H3'', ''I3'', ''B1'', ''B2'', ''C1'', ''C2'']"
  "square_peers_map ''A4'' =
     [''A1'', ''A2'', ''A3'', ''A5'', ''A6'', ''A7'', ''A8'', ''A9'', ''B4'', ''C4'', ''D4'',
       ''E4'', ''F4'', ''G4'', ''H4'', ''I4'', ''B5'', ''B6'', ''C5'', ''C6'']"
  "square_peers_map ''A5'' =
     [''A1'', ''A2'', ''A3'', ''A4'', ''A6'', ''A7'', ''A8'', ''A9'', ''B5'', ''C5'', ''D5'',
       ''E5'', ''F5'', ''G5'', ''H5'', ''I5'', ''B4'', ''B6'', ''C4'', ''C6'']"
  "square_peers_map ''A6'' =
     [''A1'', ''A2'', ''A3'', ''A4'', ''A5'', ''A7'', ''A8'', ''A9'', ''B6'', ''C6'', ''D6'',
       ''E6'', ''F6'', ''G6'', ''H6'', ''I6'', ''B4'', ''B5'', ''C4'', ''C5'']"
  "square_peers_map ''A7'' =
     [''A1'', ''A2'', ''A3'', ''A4'', ''A5'', ''A6'', ''A8'', ''A9'', ''B7'', ''C7'', ''D7'',
       ''E7'', ''F7'', ''G7'', ''H7'', ''I7'', ''B8'', ''B9'', ''C8'', ''C9'']"
  "square_peers_map ''A8'' =
     [''A1'', ''A2'', ''A3'', ''A4'', ''A5'', ''A6'', ''A7'', ''A9'', ''B8'', ''C8'', ''D8'',
       ''E8'', ''F8'', ''G8'', ''H8'', ''I8'', ''B7'', ''B9'', ''C7'', ''C9'']"
  "square_peers_map ''A9'' =
     [''A1'', ''A2'', ''A3'', ''A4'', ''A5'', ''A6'', ''A7'', ''A8'', ''B9'', ''C9'', ''D9'',
       ''E9'', ''F9'', ''G9'', ''H9'', ''I9'', ''B7'', ''B8'', ''C7'', ''C8'']"
  by (simp_all add: square_peers_map_eq squares_eq units_tab push_peer_def is_in_def)

lemma peers_tab_B:
  "square_peers_map ''B1'' =
     [''B2'', ''B3'', ''B4'', ''B5'', ''B6'', ''B7'', ''B8'', ''B9'', ''A1'', ''C1'', ''D1'',
       ''E1'', ''F1'', ''G1'', ''H1'', ''I1'', ''A2'', ''A3'', ''C2'', ''C3'']"
  "square_peers_map ''B2'' =
     [''B1'', ''B3'', ''B4'', ''B5'', ''B6'', ''B7'', ''B8'', ''B9'', ''A2'', ''C2'', ''D2'',
       ''E2'', ''F2'', ''G2'', ''H2'', ''I2'', ''A1'', ''A3'', ''C1'', ''C3'']"
  "square_peers_map ''B3'' =
     [''B1'', ''B2'', ''B4'', ''B5'', ''B6'', ''B7'', ''B8'', ''B9'', ''A3'', ''C3'', ''D3'',
       ''E3'', ''F3'', ''G3'', ''H3'', ''I3'', ''A1'', ''A2'', ''C1'', ''C2'']"
  "square_peers_map ''B4'' =
     [''B1'', ''B2'', ''B3'', ''B5'', ''B6'', ''B7'', ''B8'', ''B9'', ''A4'', ''C4'', ''D4'',
       ''E4'', ''F4'', ''G4'', ''H4'', ''I4'', ''A5'', ''A6'', ''C5'', ''C6'']"
  "square_peers_map ''B5'' =
     [''B1'', ''B2'', ''B3'', ''B4'', ''B6'', ''B7'', ''B8'', ''B9'', ''A5'', ''C5'', ''D5'',
       ''E5'', ''F5'', ''G5'', ''H5'', ''I5'', ''A4'', ''A6'', ''C4'', ''C6'']"
  "square_peers_map ''B6'' =
     [''B1'', ''B2'', ''B3'', ''B4'', ''B5'', ''B7'', ''B8'', ''B9'', ''A6'', ''C6'', ''D6'',
       ''E6'', ''F6'', ''G6'', ''H6'', ''I6'', ''A4'', ''A5'', ''C4'', ''C5'']"
  "square_peers_map ''B7'' =
     [''B1'', ''B2'', ''B3'', ''B4'', ''B5'', ''B6'', ''B8'', ''B9'', ''A7'', ''C7'', ''D7'',
       ''E7'', ''F7'', ''G7'', ''H7'', ''I7'', ''A8'', ''A9'', ''C8'', ''C9'']"
  "square_peers_map ''B8'' =
     [''B1'', ''B2'', ''B3'', ''B4'', ''B5'', ''B6'', ''B7'', ''B9'', ''A8'', ''C8'', ''D8'',
       ''E8'', ''F8'', ''G8'', ''H8'', ''I8'', ''A7'', ''A9'', ''C7'', ''C9'']"
  "square_peers_map ''B9'' =
     [''B1'', ''B2'', ''B3'', ''B4'', ''B5'', ''B6'', ''B7'', ''B8'', ''A9'', ''C9'', ''D9'',
       ''E9'', ''F9'', ''G9'', ''H9'', ''I9'', ''A7'', ''A8'', ''C7'', ''C8'']"
  by (simp_all add: square_peers_map_eq squares_eq units_tab push_peer_def is_in_def)

lemma peers_tab_C:
  "square_peers_map ''C1'' =
     [''C2'', ''C3'', ''C4'', ''C5'', ''C6'', ''C7'', ''C8'', ''C9'', ''A1'', ''B1'', ''D1'',
       ''E1'', ''F1'', ''G1'', ''H1'', ''I1'', ''A2'', ''A3'', ''B2'', ''B3'']"
  "square_peers_map ''C2'' =
     [''C1'', ''C3'', ''C4'', ''C5'', ''C6'', ''C7'', ''C8'', ''C9'', ''A2'', ''B2'', ''D2'',
       ''E2'', ''F2'', ''G2'', ''H2'', ''I2'', ''A1'', ''A3'', ''B1'', ''B3'']"
  "square_peers_map ''C3'' =
     [''C1'', ''C2'', ''C4'', ''C5'', ''C6'', ''C7'', ''C8'', ''C9'', ''A3'', ''B3'', ''D3'',
       ''E3'', ''F3'', ''G3'', ''H3'', ''I3'', ''A1'', ''A2'', ''B1'', ''B2'']"
  "square_peers_map ''C4'' =
     [''C1'', ''C2'', ''C3'', ''C5'', ''C6'', ''C7'', ''C8'', ''C9'', ''A4'', ''B4'', ''D4'',
       ''E4'', ''F4'', ''G4'', ''H4'', ''I4'', ''A5'', ''A6'', ''B5'', ''B6'']"
  "square_peers_map ''C5'' =
     [''C1'', ''C2'', ''C3'', ''C4'', ''C6'', ''C7'', ''C8'', ''C9'', ''A5'', ''B5'', ''D5'',
       ''E5'', ''F5'', ''G5'', ''H5'', ''I5'', ''A4'', ''A6'', ''B4'', ''B6'']"
  "square_peers_map ''C6'' =
     [''C1'', ''C2'', ''C3'', ''C4'', ''C5'', ''C7'', ''C8'', ''C9'', ''A6'', ''B6'', ''D6'',
       ''E6'', ''F6'', ''G6'', ''H6'', ''I6'', ''A4'', ''A5'', ''B4'', ''B5'']"
  "square_peers_map ''C7'' =
     [''C1'', ''C2'', ''C3'', ''C4'', ''C5'', ''C6'', ''C8'', ''C9'', ''A7'', ''B7'', ''D7'',
       ''E7'', ''F7'', ''G7'', ''H7'', ''I7'', ''A8'', ''A9'', ''B8'', ''B9'']"
  "square_peers_map ''C8'' =
     [''C1'', ''C2'', ''C3'', ''C4'', ''C5'', ''C6'', ''C7'', ''C9'', ''A8'', ''B8'', ''D8'',
       ''E8'', ''F8'', ''G8'', ''H8'', ''I8'', ''A7'', ''A9'', ''B7'', ''B9'']"
  "square_peers_map ''C9'' =
     [''C1'', ''C2'', ''C3'', ''C4'', ''C5'', ''C6'', ''C7'', ''C8'', ''A9'', ''B9'', ''D9'',
       ''E9'', ''F9'', ''G9'', ''H9'', ''I9'', ''A7'', ''A8'', ''B7'', ''B8'']"
  by (simp_all add: square_peers_map_eq squares_eq units_tab push_peer_def is_in_def)

lemma peers_tab_D:
  "square_peers_map ''D1'' =
     [''D2'', ''D3'', ''D4'', ''D5'', ''D6'', ''D7'', ''D8'', ''D9'', ''A1'', ''B1'', ''C1'',
       ''E1'', ''F1'', ''G1'', ''H1'', ''I1'', ''E2'', ''E3'', ''F2'', ''F3'']"
  "square_peers_map ''D2'' =
     [''D1'', ''D3'', ''D4'', ''D5'', ''D6'', ''D7'', ''D8'', ''D9'', ''A2'', ''B2'', ''C2'',
       ''E2'', ''F2'', ''G2'', ''H2'', ''I2'', ''E1'', ''E3'', ''F1'', ''F3'']"
  "square_peers_map ''D3'' =
     [''D1'', ''D2'', ''D4'', ''D5'', ''D6'', ''D7'', ''D8'', ''D9'', ''A3'', ''B3'', ''C3'',
       ''E3'', ''F3'', ''G3'', ''H3'', ''I3'', ''E1'', ''E2'', ''F1'', ''F2'']"
  "square_peers_map ''D4'' =
     [''D1'', ''D2'', ''D3'', ''D5'', ''D6'', ''D7'', ''D8'', ''D9'', ''A4'', ''B4'', ''C4'',
       ''E4'', ''F4'', ''G4'', ''H4'', ''I4'', ''E5'', ''E6'', ''F5'', ''F6'']"
  "square_peers_map ''D5'' =
     [''D1'', ''D2'', ''D3'', ''D4'', ''D6'', ''D7'', ''D8'', ''D9'', ''A5'', ''B5'', ''C5'',
       ''E5'', ''F5'', ''G5'', ''H5'', ''I5'', ''E4'', ''E6'', ''F4'', ''F6'']"
  "square_peers_map ''D6'' =
     [''D1'', ''D2'', ''D3'', ''D4'', ''D5'', ''D7'', ''D8'', ''D9'', ''A6'', ''B6'', ''C6'',
       ''E6'', ''F6'', ''G6'', ''H6'', ''I6'', ''E4'', ''E5'', ''F4'', ''F5'']"
  "square_peers_map ''D7'' =
     [''D1'', ''D2'', ''D3'', ''D4'', ''D5'', ''D6'', ''D8'', ''D9'', ''A7'', ''B7'', ''C7'',
       ''E7'', ''F7'', ''G7'', ''H7'', ''I7'', ''E8'', ''E9'', ''F8'', ''F9'']"
  "square_peers_map ''D8'' =
     [''D1'', ''D2'', ''D3'', ''D4'', ''D5'', ''D6'', ''D7'', ''D9'', ''A8'', ''B8'', ''C8'',
       ''E8'', ''F8'', ''G8'', ''H8'', ''I8'', ''E7'', ''E9'', ''F7'', ''F9'']"
  "square_peers_map ''D9'' =
     [''D1'', ''D2'', ''D3'', ''D4'', ''D5'', ''D6'', ''D7'', ''D8'', ''A9'', ''B9'', ''C9'',
       ''E9'', ''F9'', ''G9'', ''H9'', ''I9'', ''E7'', ''E8'', ''F7'', ''F8'']"
  by (simp_all add: square_peers_map_eq squares_eq units_tab push_peer_def is_in_def)

lemma peers_tab_E:
  "square_peers_map ''E1'' =
     [''E2'', ''E3'', ''E4'', ''E5'', ''E6'', ''E7'', ''E8'', ''E9'', ''A1'', ''B1'', ''C1'',
       ''D1'', ''F1'', ''G1'', ''H1'', ''I1'', ''D2'', ''D3'', ''F2'', ''F3'']"
  "square_peers_map ''E2'' =
     [''E1'', ''E3'', ''E4'', ''E5'', ''E6'', ''E7'', ''E8'', ''E9'', ''A2'', ''B2'', ''C2'',
       ''D2'', ''F2'', ''G2'', ''H2'', ''I2'', ''D1'', ''D3'', ''F1'', ''F3'']"
  "square_peers_map ''E3'' =
     [''E1'', ''E2'', ''E4'', ''E5'', ''E6'', ''E7'', ''E8'', ''E9'', ''A3'', ''B3'', ''C3'',
       ''D3'', ''F3'', ''G3'', ''H3'', ''I3'', ''D1'', ''D2'', ''F1'', ''F2'']"
  "square_peers_map ''E4'' =
     [''E1'', ''E2'', ''E3'', ''E5'', ''E6'', ''E7'', ''E8'', ''E9'', ''A4'', ''B4'', ''C4'',
       ''D4'', ''F4'', ''G4'', ''H4'', ''I4'', ''D5'', ''D6'', ''F5'', ''F6'']"
  "square_peers_map ''E5'' =
     [''E1'', ''E2'', ''E3'', ''E4'', ''E6'', ''E7'', ''E8'', ''E9'', ''A5'', ''B5'', ''C5'',
       ''D5'', ''F5'', ''G5'', ''H5'', ''I5'', ''D4'', ''D6'', ''F4'', ''F6'']"
  "square_peers_map ''E6'' =
     [''E1'', ''E2'', ''E3'', ''E4'', ''E5'', ''E7'', ''E8'', ''E9'', ''A6'', ''B6'', ''C6'',
       ''D6'', ''F6'', ''G6'', ''H6'', ''I6'', ''D4'', ''D5'', ''F4'', ''F5'']"
  "square_peers_map ''E7'' =
     [''E1'', ''E2'', ''E3'', ''E4'', ''E5'', ''E6'', ''E8'', ''E9'', ''A7'', ''B7'', ''C7'',
       ''D7'', ''F7'', ''G7'', ''H7'', ''I7'', ''D8'', ''D9'', ''F8'', ''F9'']"
  "square_peers_map ''E8'' =
     [''E1'', ''E2'', ''E3'', ''E4'', ''E5'', ''E6'', ''E7'', ''E9'', ''A8'', ''B8'', ''C8'',
       ''D8'', ''F8'', ''G8'', ''H8'', ''I8'', ''D7'', ''D9'', ''F7'', ''F9'']"
  "square_peers_map ''E9'' =
     [''E1'', ''E2'', ''E3'', ''E4'', ''E5'', ''E6'', ''E7'', ''E8'', ''A9'', ''B9'', ''C9'',
       ''D9'', ''F9'', ''G9'', ''H9'', ''I9'', ''D7'', ''D8'', ''F7'', ''F8'']"
  by (simp_all add: square_peers_map_eq squares_eq units_tab push_peer_def is_in_def)

lemma peers_tab_F:
  "square_peers_map ''F1'' =
     [''F2'', ''F3'', ''F4'', ''F5'', ''F6'', ''F7'', ''F8'', ''F9'', ''A1'', ''B1'', ''C1'',
       ''D1'', ''E1'', ''G1'', ''H1'', ''I1'', ''D2'', ''D3'', ''E2'', ''E3'']"
  "square_peers_map ''F2'' =
     [''F1'', ''F3'', ''F4'', ''F5'', ''F6'', ''F7'', ''F8'', ''F9'', ''A2'', ''B2'', ''C2'',
       ''D2'', ''E2'', ''G2'', ''H2'', ''I2'', ''D1'', ''D3'', ''E1'', ''E3'']"
  "square_peers_map ''F3'' =
     [''F1'', ''F2'', ''F4'', ''F5'', ''F6'', ''F7'', ''F8'', ''F9'', ''A3'', ''B3'', ''C3'',
       ''D3'', ''E3'', ''G3'', ''H3'', ''I3'', ''D1'', ''D2'', ''E1'', ''E2'']"
  "square_peers_map ''F4'' =
     [''F1'', ''F2'', ''F3'', ''F5'', ''F6'', ''F7'', ''F8'', ''F9'', ''A4'', ''B4'', ''C4'',
       ''D4'', ''E4'', ''G4'', ''H4'', ''I4'', ''D5'', ''D6'', ''E5'', ''E6'']"
  "square_peers_map ''F5'' =
     [''F1'', ''F2'', ''F3'', ''F4'', ''F6'', ''F7'', ''F8'', ''F9'', ''A5'', ''B5'', ''C5'',
       ''D5'', ''E5'', ''G5'', ''H5'', ''I5'', ''D4'', ''D6'', ''E4'', ''E6'']"
  "square_peers_map ''F6'' =
     [''F1'', ''F2'', ''F3'', ''F4'', ''F5'', ''F7'', ''F8'', ''F9'', ''A6'', ''B6'', ''C6'',
       ''D6'', ''E6'', ''G6'', ''H6'', ''I6'', ''D4'', ''D5'', ''E4'', ''E5'']"
  "square_peers_map ''F7'' =
     [''F1'', ''F2'', ''F3'', ''F4'', ''F5'', ''F6'', ''F8'', ''F9'', ''A7'', ''B7'', ''C7'',
       ''D7'', ''E7'', ''G7'', ''H7'', ''I7'', ''D8'', ''D9'', ''E8'', ''E9'']"
  "square_peers_map ''F8'' =
     [''F1'', ''F2'', ''F3'', ''F4'', ''F5'', ''F6'', ''F7'', ''F9'', ''A8'', ''B8'', ''C8'',
       ''D8'', ''E8'', ''G8'', ''H8'', ''I8'', ''D7'', ''D9'', ''E7'', ''E9'']"
  "square_peers_map ''F9'' =
     [''F1'', ''F2'', ''F3'', ''F4'', ''F5'', ''F6'', ''F7'', ''F8'', ''A9'', ''B9'', ''C9'',
       ''D9'', ''E9'', ''G9'', ''H9'', ''I9'', ''D7'', ''D8'', ''E7'', ''E8'']"
  by (simp_all add: square_peers_map_eq squares_eq units_tab push_peer_def is_in_def)

lemma peers_tab_G:
  "square_peers_map ''G1'' =
     [''G2'', ''G3'', ''G4'', ''G5'', ''G6'', ''G7'', ''G8'', ''G9'', ''A1'', ''B1'', ''C1'',
       ''D1'', ''E1'', ''F1'', ''H1'', ''I1'', ''H2'', ''H3'', ''I2'', ''I3'']"
  "square_peers_map ''G2'' =
     [''G1'', ''G3'', ''G4'', ''G5'', ''G6'', ''G7'', ''G8'', ''G9'', ''A2'', ''B2'', ''C2'',
       ''D2'', ''E2'', ''F2'', ''H2'', ''I2'', ''H1'', ''H3'', ''I1'', ''I3'']"
  "square_peers_map ''G3'' =
     [''G1'', ''G2'', ''G4'', ''G5'', ''G6'', ''G7'', ''G8'', ''G9'', ''A3'', ''B3'', ''C3'',
       ''D3'', ''E3'', ''F3'', ''H3'', ''I3'', ''H1'', ''H2'', ''I1'', ''I2'']"
  "square_peers_map ''G4'' =
     [''G1'', ''G2'', ''G3'', ''G5'', ''G6'', ''G7'', ''G8'', ''G9'', ''A4'', ''B4'', ''C4'',
       ''D4'', ''E4'', ''F4'', ''H4'', ''I4'', ''H5'', ''H6'', ''I5'', ''I6'']"
  "square_peers_map ''G5'' =
     [''G1'', ''G2'', ''G3'', ''G4'', ''G6'', ''G7'', ''G8'', ''G9'', ''A5'', ''B5'', ''C5'',
       ''D5'', ''E5'', ''F5'', ''H5'', ''I5'', ''H4'', ''H6'', ''I4'', ''I6'']"
  "square_peers_map ''G6'' =
     [''G1'', ''G2'', ''G3'', ''G4'', ''G5'', ''G7'', ''G8'', ''G9'', ''A6'', ''B6'', ''C6'',
       ''D6'', ''E6'', ''F6'', ''H6'', ''I6'', ''H4'', ''H5'', ''I4'', ''I5'']"
  "square_peers_map ''G7'' =
     [''G1'', ''G2'', ''G3'', ''G4'', ''G5'', ''G6'', ''G8'', ''G9'', ''A7'', ''B7'', ''C7'',
       ''D7'', ''E7'', ''F7'', ''H7'', ''I7'', ''H8'', ''H9'', ''I8'', ''I9'']"
  "square_peers_map ''G8'' =
     [''G1'', ''G2'', ''G3'', ''G4'', ''G5'', ''G6'', ''G7'', ''G9'', ''A8'', ''B8'', ''C8'',
       ''D8'', ''E8'', ''F8'', ''H8'', ''I8'', ''H7'', ''H9'', ''I7'', ''I9'']"
  "square_peers_map ''G9'' =
     [''G1'', ''G2'', ''G3'', ''G4'', ''G5'', ''G6'', ''G7'', ''G8'', ''A9'', ''B9'', ''C9'',
       ''D9'', ''E9'', ''F9'', ''H9'', ''I9'', ''H7'', ''H8'', ''I7'', ''I8'']"
  by (simp_all add: square_peers_map_eq squares_eq units_tab push_peer_def is_in_def)

lemma peers_tab_H:
  "square_peers_map ''H1'' =
     [''H2'', ''H3'', ''H4'', ''H5'', ''H6'', ''H7'', ''H8'', ''H9'', ''A1'', ''B1'', ''C1'',
       ''D1'', ''E1'', ''F1'', ''G1'', ''I1'', ''G2'', ''G3'', ''I2'', ''I3'']"
  "square_peers_map ''H2'' =
     [''H1'', ''H3'', ''H4'', ''H5'', ''H6'', ''H7'', ''H8'', ''H9'', ''A2'', ''B2'', ''C2'',
       ''D2'', ''E2'', ''F2'', ''G2'', ''I2'', ''G1'', ''G3'', ''I1'', ''I3'']"
  "square_peers_map ''H3'' =
     [''H1'', ''H2'', ''H4'', ''H5'', ''H6'', ''H7'', ''H8'', ''H9'', ''A3'', ''B3'', ''C3'',
       ''D3'', ''E3'', ''F3'', ''G3'', ''I3'', ''G1'', ''G2'', ''I1'', ''I2'']"
  "square_peers_map ''H4'' =
     [''H1'', ''H2'', ''H3'', ''H5'', ''H6'', ''H7'', ''H8'', ''H9'', ''A4'', ''B4'', ''C4'',
       ''D4'', ''E4'', ''F4'', ''G4'', ''I4'', ''G5'', ''G6'', ''I5'', ''I6'']"
  "square_peers_map ''H5'' =
     [''H1'', ''H2'', ''H3'', ''H4'', ''H6'', ''H7'', ''H8'', ''H9'', ''A5'', ''B5'', ''C5'',
       ''D5'', ''E5'', ''F5'', ''G5'', ''I5'', ''G4'', ''G6'', ''I4'', ''I6'']"
  "square_peers_map ''H6'' =
     [''H1'', ''H2'', ''H3'', ''H4'', ''H5'', ''H7'', ''H8'', ''H9'', ''A6'', ''B6'', ''C6'',
       ''D6'', ''E6'', ''F6'', ''G6'', ''I6'', ''G4'', ''G5'', ''I4'', ''I5'']"
  "square_peers_map ''H7'' =
     [''H1'', ''H2'', ''H3'', ''H4'', ''H5'', ''H6'', ''H8'', ''H9'', ''A7'', ''B7'', ''C7'',
       ''D7'', ''E7'', ''F7'', ''G7'', ''I7'', ''G8'', ''G9'', ''I8'', ''I9'']"
  "square_peers_map ''H8'' =
     [''H1'', ''H2'', ''H3'', ''H4'', ''H5'', ''H6'', ''H7'', ''H9'', ''A8'', ''B8'', ''C8'',
       ''D8'', ''E8'', ''F8'', ''G8'', ''I8'', ''G7'', ''G9'', ''I7'', ''I9'']"
  "square_peers_map ''H9'' =
     [''H1'', ''H2'', ''H3'', ''H4'', ''H5'', ''H6'', ''H7'', ''H8'', ''A9'', ''B9'', ''C9'',
       ''D9'', ''E9'', ''F9'', ''G9'', ''I9'', ''G7'', ''G8'', ''I7'', ''I8'']"
  by (simp_all add: square_peers_map_eq squares_eq units_tab push_peer_def is_in_def)

lemma peers_tab_I:
  "square_peers_map ''I1'' =
     [''I2'', ''I3'', ''I4'', ''I5'', ''I6'', ''I7'', ''I8'', ''I9'', ''A1'', ''B1'', ''C1'',
       ''D1'', ''E1'', ''F1'', ''G1'', ''H1'', ''G2'', ''G3'', ''H2'', ''H3'']"
  "square_peers_map ''I2'' =
     [''I1'', ''I3'', ''I4'', ''I5'', ''I6'', ''I7'', ''I8'', ''I9'', ''A2'', ''B2'', ''C2'',
       ''D2'', ''E2'', ''F2'', ''G2'', ''H2'', ''G1'', ''G3'', ''H1'', ''H3'']"
  "square_peers_map ''I3'' =
     [''I1'', ''I2'', ''I4'', ''I5'', ''I6'', ''I7'', ''I8'', ''I9'', ''A3'', ''B3'', ''C3'',
       ''D3'', ''E3'', ''F3'', ''G3'', ''H3'', ''G1'', ''G2'', ''H1'', ''H2'']"
  "square_peers_map ''I4'' =
     [''I1'', ''I2'', ''I3'', ''I5'', ''I6'', ''I7'', ''I8'', ''I9'', ''A4'', ''B4'', ''C4'',
       ''D4'', ''E4'', ''F4'', ''G4'', ''H4'', ''G5'', ''G6'', ''H5'', ''H6'']"
  "square_peers_map ''I5'' =
     [''I1'', ''I2'', ''I3'', ''I4'', ''I6'', ''I7'', ''I8'', ''I9'', ''A5'', ''B5'', ''C5'',
       ''D5'', ''E5'', ''F5'', ''G5'', ''H5'', ''G4'', ''G6'', ''H4'', ''H6'']"
  "square_peers_map ''I6'' =
     [''I1'', ''I2'', ''I3'', ''I4'', ''I5'', ''I7'', ''I8'', ''I9'', ''A6'', ''B6'', ''C6'',
       ''D6'', ''E6'', ''F6'', ''G6'', ''H6'', ''G4'', ''G5'', ''H4'', ''H5'']"
  "square_peers_map ''I7'' =
     [''I1'', ''I2'', ''I3'', ''I4'', ''I5'', ''I6'', ''I8'', ''I9'', ''A7'', ''B7'', ''C7'',
       ''D7'', ''E7'', ''F7'', ''G7'', ''H7'', ''G8'', ''G9'', ''H8'', ''H9'']"
  "square_peers_map ''I8'' =
     [''I1'', ''I2'', ''I3'', ''I4'', ''I5'', ''I6'', ''I7'', ''I9'', ''A8'', ''B8'', ''C8'',
       ''D8'', ''E8'', ''F8'', ''G8'', ''H8'', ''G7'', ''G9'', ''H7'', ''H9'']"
  "square_peers_map ''I9'' =
     [''I1'', ''I2'', ''I3'', ''I4'', ''I5'', ''I6'', ''I7'', ''I8'', ''A9'', ''B9'', ''C9'',
       ''D9'', ''E9'', ''F9'', ''G9'', ''H9'', ''G7'', ''G8'', ''H7'', ''H8'']"
  by (simp_all add: square_peers_map_eq squares_eq units_tab push_peer_def is_in_def)

lemmas peers_tab = peers_tab_A peers_tab_B peers_tab_C peers_tab_D peers_tab_E peers_tab_F peers_tab_G peers_tab_H peers_tab_I

lemma foldl_push_peer_set:
  "set (foldl (push_peer s) acc xs) = set acc \<union> (set xs - {s})"
  by (induction xs arbitrary: acc) (auto simp: push_peer_def is_in_def)

lemma foldl_push_peer_distinct:
  "distinct acc \<Longrightarrow> distinct (foldl (push_peer s) acc xs)"
  by (induction xs arbitrary: acc) (auto simp: push_peer_def is_in_def)

lemma set_square_units_map:
  "sq \<in> set squares \<Longrightarrow> set (square_units_map sq) = {u \<in> set units. sq \<in> set u}"
  by (auto simp: square_units_map_eq is_in_def)

lemma set_square_peers_map:
  "sq \<in> set squares \<Longrightarrow>
   set (square_peers_map sq) = (\<Union>u \<in> set (square_units_map sq). set u) - {sq}"
  by (simp add: square_peers_map_eq foldl_push_peer_set)

lemma distinct_square_peers_map: "sq \<in> set squares \<Longrightarrow> distinct (square_peers_map sq)"
  by (simp add: square_peers_map_eq foldl_push_peer_distinct)

lemma peer_iff:
  "a \<in> set squares \<Longrightarrow>
   b \<in> set (square_peers_map a) \<longleftrightarrow> b \<noteq> a \<and> (\<exists>u \<in>
     set units. a \<in> set u \<and> b \<in> set u)"
  by (auto simp: set_square_peers_map set_square_units_map)

lemma peers_symmetric:
  "a \<in> set squares \<Longrightarrow> b \<in> set squares \<Longrightarrow>
   b \<in> set (square_peers_map a) \<longleftrightarrow> a \<in> set (square_peers_map b)"
  by (auto simp: peer_iff)

lemma ball_squares:
  "(\<forall>sq \<in> set squares. P sq) \<longleftrightarrow> list_all P squares"
  by (simp add: list_all_iff)

lemma units_count: "list_all (\<lambda>sq. length (square_units_map sq) = 3) squares"
  unfolding squares_eq by (simp add: units_tab)

lemma peers_count: "list_all (\<lambda>sq. length (square_peers_map sq) = 20) squares"
  unfolding squares_eq by (simp add: peers_tab)

lemma units_shape:
  "list_all (\<lambda>sq. list_ex (\<lambda>rs. list_ex (\<lambda>cs.
      is_in (sq ! 0) rs \<and> is_in (sq ! 1) cs \<and>
      square_units_map sq = [cross [sq ! 0] COLS, cross ROWS [sq ! 1], cross rs cs])
        [''123'', ''456'', ''789'']) [''ABC'', ''DEF'', ''GHI'']) squares"
  unfolding squares_eq by (simp add: units_tab cross_def ROWS_def COLS_def is_in_def)

lemma length_squares: "length squares = 81"
  unfolding squares_eq by simp

lemma distinct_squares: "distinct squares"
  unfolding squares_eq by simp

lemma units_sizes: "list_all (\<lambda>u. length u = 9 \<and> distinct u \<and> list_all
  (\<lambda>sq. sq \<in> set squares) u) units"
  unfolding units_eq squares_eq by simp

lemma length_units: "length units = 27"
  unfolding units_eq by simp

text \<open>
  C7: the topology computed by the constructor. There are 81 squares, all
  different, and 27 units of 9 different squares each. \<open>square_units_map\<close> gives
  every square exactly 3 units, the units that hold the square: its row, its column
  and its box, in this order. \<open>square_peers_map\<close> gives every square 20 squares,
  all different: the squares of its 3 units other than the square itself. And on
  the squares the peer relation is symmetric.
\<close>

theorem topology_counts_and_symmetry:
  "length squares = 81 \<and> distinct squares
   \<and> length units = 27
   \<and> (\<forall>u \<in> set units. length u = 9 \<and> distinct u \<and> set u \<subseteq> set squares)
   \<and> (\<forall>sq \<in> set squares.
          length (square_units_map sq) = 3
        \<and> set (square_units_map sq) = {u \<in> set units. sq \<in> set u}
        \<and> (\<exists>rs \<in> {''ABC'', ''DEF'', ''GHI''}. \<exists>cs \<in> {''123'', ''456'', ''789''}.
              sq ! 0 \<in> set rs \<and> sq ! 1 \<in> set cs
            \<and> square_units_map sq = [cross [sq ! 0] COLS, cross ROWS [sq ! 1], cross rs cs])
        \<and> length (square_peers_map sq) = 20
        \<and> distinct (square_peers_map sq)
        \<and> set (square_peers_map sq) = (\<Union>u \<in> set (square_units_map sq). set u) - {sq})
   \<and> (\<forall>a \<in> set squares. \<forall>b \<in> set squares.
          b \<in> set (square_peers_map a) \<longleftrightarrow> a \<in> set (square_peers_map b))"
proof -
  have u: "\<forall>u \<in> set units. length u = 9 \<and> distinct u \<and> set u \<subseteq> set squares"
    using units_sizes by (auto simp: list_all_iff)
  have shape: "\<exists>rs \<in> {''ABC'', ''DEF'', ''GHI''}. \<exists>cs \<in> {''123'', ''456'', ''789''}.
              sq ! 0 \<in> set rs \<and> sq ! 1 \<in> set cs
            \<and> square_units_map sq = [cross [sq ! 0] COLS, cross ROWS [sq ! 1], cross rs cs]"
    if "sq \<in> set squares" for sq
  proof -
    from units_shape that
    have "list_ex (\<lambda>rs. list_ex (\<lambda>cs.
      is_in (sq ! 0) rs \<and> is_in (sq ! 1) cs \<and>
      square_units_map sq = [cross [sq ! 0] COLS, cross ROWS [sq ! 1], cross rs cs])
        [''123'', ''456'', ''789'']) [''ABC'', ''DEF'', ''GHI'']"
      unfolding list_all_iff by blast
    then obtain rs cs where "rs \<in> set [''ABC'', ''DEF'', ''GHI'']" "cs \<in> set [''123'', ''456'', ''789'']"
      "is_in (sq ! 0) rs" "is_in (sq ! 1) cs"
      "square_units_map sq = [cross [sq ! 0] COLS, cross ROWS [sq ! 1], cross rs cs]"
      unfolding list_ex_iff by blast
    then show ?thesis unfolding is_in_def by (intro bexI[of _ rs] bexI[of _ cs] conjI) simp_all
  qed
  have per: "length (square_units_map sq) = 3
        \<and> set (square_units_map sq) = {u \<in> set units. sq \<in> set u}
        \<and> (\<exists>rs \<in> {''ABC'', ''DEF'', ''GHI''}. \<exists>cs \<in> {''123'', ''456'', ''789''}.
              sq ! 0 \<in> set rs \<and> sq ! 1 \<in> set cs
            \<and> square_units_map sq = [cross [sq ! 0] COLS, cross ROWS [sq ! 1], cross rs cs])
        \<and> length (square_peers_map sq) = 20
        \<and> distinct (square_peers_map sq)
        \<and> set (square_peers_map sq) = (\<Union>u \<in> set (square_units_map sq). set u) - {sq}"
    if "sq \<in> set squares" for sq
  proof -
    have "length (square_units_map sq) = 3" using units_count that unfolding list_all_iff by blast
    moreover have "length (square_peers_map sq) = 20" using peers_count that unfolding list_all_iff by blast
    ultimately show ?thesis
      using that shape[OF that] set_square_units_map[OF that] set_square_peers_map[OF that]
        distinct_square_peers_map[OF that]
      by (intro conjI)
  qed
  have sym: "\<forall>a \<in> set squares. \<forall>b \<in> set squares.
          b \<in> set (square_peers_map a) \<longleftrightarrow> a \<in> set (square_peers_map b)"
    using peers_symmetric by blast
  show ?thesis
    using length_squares distinct_squares length_units u per sym by (intro conjI ballI) blast+
qed

theorem topology_counts_and_symmetry_witness:
  "''E5'' \<in> set squares \<and> ''A5'' \<in> set squares
   \<and> length (square_units_map ''E5'') = 3
   \<and> square_units_map ''E5'' = [cross ''E'' COLS, cross ROWS ''5'', cross ''DEF'' ''456'']
   \<and> length (square_peers_map ''E5'') = 20
   \<and> ''A5'' \<in> set (square_peers_map ''E5'') \<and> ''E5'' \<in> set (square_peers_map ''A5'')
   \<and> ''E5'' \<notin> set (square_peers_map ''E5'')"
proof -
  have e: "''E5'' \<in> set squares" and a: "''A5'' \<in> set squares"
    unfolding squares_eq by simp_all
  have p: "''A5'' \<in> set (square_peers_map ''E5'')"
    by (simp add: peers_tab)
  have s: "square_units_map ''E5'' = [cross ''E'' COLS, cross ROWS ''5'', cross ''DEF'' ''456'']"
    by (simp add: units_tab cross_def ROWS_def COLS_def)
  from topology_counts_and_symmetry
  have per: "\<forall>sq \<in> set squares. length (square_units_map sq) = 3 \<and> length (square_peers_map sq) = 20
      \<and> set (square_peers_map sq) = (\<Union>u \<in> set (square_units_map sq). set u) - {sq}"
   and sym: "\<forall>a \<in> set squares. \<forall>b \<in> set squares.
          b \<in> set (square_peers_map a) \<longleftrightarrow> a \<in> set (square_peers_map b)"
    by blast+
  from per e have "length (square_units_map ''E5'') = 3" "length (square_peers_map ''E5'') = 20"
    "''E5'' \<notin> set (square_peers_map ''E5'')" by blast+
  moreover from sym e a p have "''E5'' \<in> set (square_peers_map ''A5'')" by blast
  ultimately show ?thesis using e a p s by (intro conjI)
qed

section \<open>Running the propagation\<close>

text \<open>
  To run \<open>_assign\<close> and \<open>_eliminate\<close> on a given store, the store is written as a
  grid of nine rows of nine candidate strings, \<open>store_of\<close> the function that reads
  it. Reading a square of a grid and writing a square of a grid are then one
  rewrite step each.
\<close>

datatype 'a nine = Nine 'a 'a 'a 'a 'a 'a 'a 'a 'a

fun nine_list :: "'a nine \<Rightarrow> 'a list" where
  "nine_list (Nine a b c d e f g h i) = [a, b, c, d, e, f, g, h, i]"

definition cells :: "'a nine nine \<Rightarrow> 'a list" where
  "cells g = concat (map nine_list (nine_list g))"

definition store_cells :: "string list \<Rightarrow> candidates" where
  "store_cells vs = (\<lambda>sq. case map_of (zip squares vs) sq of Some v \<Rightarrow> v | None \<Rightarrow> [])"

definition store_of :: "string nine nine \<Rightarrow> candidates" where
  "store_of g = store_cells (cells g)"

lemma length_cells: "length (cells g) = 81"
proof -
  obtain a b c d e f g' h i where g: "g = Nine a b c d e f g' h i" by (cases g)
  have n: "length (nine_list r) = 9" for r :: "'a nine" by (cases r) simp
  show ?thesis by (simp add: cells_def g n)
qed

lemma map_of_zip_list_update:
  "distinct ks \<Longrightarrow> length vs = length ks \<Longrightarrow> i < length ks \<Longrightarrow>
   map_of (zip ks (vs[i := v])) = (map_of (zip ks vs))(ks ! i \<mapsto> v)"
proof (induction ks arbitrary: vs i)
  case Nil
  then show ?case by simp
next
  case (Cons k ks)
  obtain w ws where vs: "vs = w # ws" using Cons.prems(2) by (cases vs) auto
  show ?case
  proof (cases i)
    case 0
    then show ?thesis by (auto simp: vs fun_eq_iff)
  next
    case (Suc j)
    have "k \<noteq> ks ! j" using Cons.prems(1,3) Suc by auto
    then show ?thesis
      using Cons.IH[of ws j] Cons.prems Suc by (auto simp: vs fun_eq_iff)
  qed
qed

lemma store_cells_upd:
  assumes "length vs = length squares" and "i < length squares"
  shows "(store_cells vs)(squares ! i := v) = store_cells (vs[i := v])"
proof (rule ext)
  fix sq
  have eq: "map_of (zip squares (vs[i := v])) = (map_of (zip squares vs))(squares ! i \<mapsto> v)"
    using assms distinct_squares by (simp add: map_of_zip_list_update)
  show "((store_cells vs)(squares ! i := v)) sq = store_cells (vs[i := v]) sq"
    by (simp add: store_cells_def eq)
qed


lemma grid_look_A1:
  "store_of (Nine (Nine a b c d e f g h i) r2 r3 r4 r5 r6 r7 r8 r9) ''A1'' = a"
  by (cases r2; cases r3; cases r4; cases r5; cases r6; cases r7; cases r8; cases r9;
      simp add: store_of_def store_cells_def cells_def squares_eq)

lemma grid_look_A2:
  "store_of (Nine (Nine a b c d e f g h i) r2 r3 r4 r5 r6 r7 r8 r9) ''A2'' = b"
  by (cases r2; cases r3; cases r4; cases r5; cases r6; cases r7; cases r8; cases r9;
      simp add: store_of_def store_cells_def cells_def squares_eq)

lemma grid_look_A3:
  "store_of (Nine (Nine a b c d e f g h i) r2 r3 r4 r5 r6 r7 r8 r9) ''A3'' = c"
  by (cases r2; cases r3; cases r4; cases r5; cases r6; cases r7; cases r8; cases r9;
      simp add: store_of_def store_cells_def cells_def squares_eq)

lemma grid_look_A4:
  "store_of (Nine (Nine a b c d e f g h i) r2 r3 r4 r5 r6 r7 r8 r9) ''A4'' = d"
  by (cases r2; cases r3; cases r4; cases r5; cases r6; cases r7; cases r8; cases r9;
      simp add: store_of_def store_cells_def cells_def squares_eq)

lemma grid_look_A5:
  "store_of (Nine (Nine a b c d e f g h i) r2 r3 r4 r5 r6 r7 r8 r9) ''A5'' = e"
  by (cases r2; cases r3; cases r4; cases r5; cases r6; cases r7; cases r8; cases r9;
      simp add: store_of_def store_cells_def cells_def squares_eq)

lemma grid_look_A6:
  "store_of (Nine (Nine a b c d e f g h i) r2 r3 r4 r5 r6 r7 r8 r9) ''A6'' = f"
  by (cases r2; cases r3; cases r4; cases r5; cases r6; cases r7; cases r8; cases r9;
      simp add: store_of_def store_cells_def cells_def squares_eq)

lemma grid_look_A7:
  "store_of (Nine (Nine a b c d e f g h i) r2 r3 r4 r5 r6 r7 r8 r9) ''A7'' = g"
  by (cases r2; cases r3; cases r4; cases r5; cases r6; cases r7; cases r8; cases r9;
      simp add: store_of_def store_cells_def cells_def squares_eq)

lemma grid_look_A8:
  "store_of (Nine (Nine a b c d e f g h i) r2 r3 r4 r5 r6 r7 r8 r9) ''A8'' = h"
  by (cases r2; cases r3; cases r4; cases r5; cases r6; cases r7; cases r8; cases r9;
      simp add: store_of_def store_cells_def cells_def squares_eq)

lemma grid_look_A9:
  "store_of (Nine (Nine a b c d e f g h i) r2 r3 r4 r5 r6 r7 r8 r9) ''A9'' = i"
  by (cases r2; cases r3; cases r4; cases r5; cases r6; cases r7; cases r8; cases r9;
      simp add: store_of_def store_cells_def cells_def squares_eq)

lemma grid_look_B1:
  "store_of (Nine r1 (Nine a b c d e f g h i) r3 r4 r5 r6 r7 r8 r9) ''B1'' = a"
  by (cases r1; cases r3; cases r4; cases r5; cases r6; cases r7; cases r8; cases r9;
      simp add: store_of_def store_cells_def cells_def squares_eq)

lemma grid_look_B2:
  "store_of (Nine r1 (Nine a b c d e f g h i) r3 r4 r5 r6 r7 r8 r9) ''B2'' = b"
  by (cases r1; cases r3; cases r4; cases r5; cases r6; cases r7; cases r8; cases r9;
      simp add: store_of_def store_cells_def cells_def squares_eq)

lemma grid_look_B3:
  "store_of (Nine r1 (Nine a b c d e f g h i) r3 r4 r5 r6 r7 r8 r9) ''B3'' = c"
  by (cases r1; cases r3; cases r4; cases r5; cases r6; cases r7; cases r8; cases r9;
      simp add: store_of_def store_cells_def cells_def squares_eq)

lemma grid_look_B4:
  "store_of (Nine r1 (Nine a b c d e f g h i) r3 r4 r5 r6 r7 r8 r9) ''B4'' = d"
  by (cases r1; cases r3; cases r4; cases r5; cases r6; cases r7; cases r8; cases r9;
      simp add: store_of_def store_cells_def cells_def squares_eq)

lemma grid_look_B5:
  "store_of (Nine r1 (Nine a b c d e f g h i) r3 r4 r5 r6 r7 r8 r9) ''B5'' = e"
  by (cases r1; cases r3; cases r4; cases r5; cases r6; cases r7; cases r8; cases r9;
      simp add: store_of_def store_cells_def cells_def squares_eq)

lemma grid_look_B6:
  "store_of (Nine r1 (Nine a b c d e f g h i) r3 r4 r5 r6 r7 r8 r9) ''B6'' = f"
  by (cases r1; cases r3; cases r4; cases r5; cases r6; cases r7; cases r8; cases r9;
      simp add: store_of_def store_cells_def cells_def squares_eq)

lemma grid_look_B7:
  "store_of (Nine r1 (Nine a b c d e f g h i) r3 r4 r5 r6 r7 r8 r9) ''B7'' = g"
  by (cases r1; cases r3; cases r4; cases r5; cases r6; cases r7; cases r8; cases r9;
      simp add: store_of_def store_cells_def cells_def squares_eq)

lemma grid_look_B8:
  "store_of (Nine r1 (Nine a b c d e f g h i) r3 r4 r5 r6 r7 r8 r9) ''B8'' = h"
  by (cases r1; cases r3; cases r4; cases r5; cases r6; cases r7; cases r8; cases r9;
      simp add: store_of_def store_cells_def cells_def squares_eq)

lemma grid_look_B9:
  "store_of (Nine r1 (Nine a b c d e f g h i) r3 r4 r5 r6 r7 r8 r9) ''B9'' = i"
  by (cases r1; cases r3; cases r4; cases r5; cases r6; cases r7; cases r8; cases r9;
      simp add: store_of_def store_cells_def cells_def squares_eq)

lemma grid_look_C1:
  "store_of (Nine r1 r2 (Nine a b c d e f g h i) r4 r5 r6 r7 r8 r9) ''C1'' = a"
  by (cases r1; cases r2; cases r4; cases r5; cases r6; cases r7; cases r8; cases r9;
      simp add: store_of_def store_cells_def cells_def squares_eq)

lemma grid_look_C2:
  "store_of (Nine r1 r2 (Nine a b c d e f g h i) r4 r5 r6 r7 r8 r9) ''C2'' = b"
  by (cases r1; cases r2; cases r4; cases r5; cases r6; cases r7; cases r8; cases r9;
      simp add: store_of_def store_cells_def cells_def squares_eq)

lemma grid_look_C3:
  "store_of (Nine r1 r2 (Nine a b c d e f g h i) r4 r5 r6 r7 r8 r9) ''C3'' = c"
  by (cases r1; cases r2; cases r4; cases r5; cases r6; cases r7; cases r8; cases r9;
      simp add: store_of_def store_cells_def cells_def squares_eq)

lemma grid_look_C4:
  "store_of (Nine r1 r2 (Nine a b c d e f g h i) r4 r5 r6 r7 r8 r9) ''C4'' = d"
  by (cases r1; cases r2; cases r4; cases r5; cases r6; cases r7; cases r8; cases r9;
      simp add: store_of_def store_cells_def cells_def squares_eq)

lemma grid_look_C5:
  "store_of (Nine r1 r2 (Nine a b c d e f g h i) r4 r5 r6 r7 r8 r9) ''C5'' = e"
  by (cases r1; cases r2; cases r4; cases r5; cases r6; cases r7; cases r8; cases r9;
      simp add: store_of_def store_cells_def cells_def squares_eq)

lemma grid_look_C6:
  "store_of (Nine r1 r2 (Nine a b c d e f g h i) r4 r5 r6 r7 r8 r9) ''C6'' = f"
  by (cases r1; cases r2; cases r4; cases r5; cases r6; cases r7; cases r8; cases r9;
      simp add: store_of_def store_cells_def cells_def squares_eq)

lemma grid_look_C7:
  "store_of (Nine r1 r2 (Nine a b c d e f g h i) r4 r5 r6 r7 r8 r9) ''C7'' = g"
  by (cases r1; cases r2; cases r4; cases r5; cases r6; cases r7; cases r8; cases r9;
      simp add: store_of_def store_cells_def cells_def squares_eq)

lemma grid_look_C8:
  "store_of (Nine r1 r2 (Nine a b c d e f g h i) r4 r5 r6 r7 r8 r9) ''C8'' = h"
  by (cases r1; cases r2; cases r4; cases r5; cases r6; cases r7; cases r8; cases r9;
      simp add: store_of_def store_cells_def cells_def squares_eq)

lemma grid_look_C9:
  "store_of (Nine r1 r2 (Nine a b c d e f g h i) r4 r5 r6 r7 r8 r9) ''C9'' = i"
  by (cases r1; cases r2; cases r4; cases r5; cases r6; cases r7; cases r8; cases r9;
      simp add: store_of_def store_cells_def cells_def squares_eq)

lemma grid_look_D1:
  "store_of (Nine r1 r2 r3 (Nine a b c d e f g h i) r5 r6 r7 r8 r9) ''D1'' = a"
  by (cases r1; cases r2; cases r3; cases r5; cases r6; cases r7; cases r8; cases r9;
      simp add: store_of_def store_cells_def cells_def squares_eq)

lemma grid_look_D2:
  "store_of (Nine r1 r2 r3 (Nine a b c d e f g h i) r5 r6 r7 r8 r9) ''D2'' = b"
  by (cases r1; cases r2; cases r3; cases r5; cases r6; cases r7; cases r8; cases r9;
      simp add: store_of_def store_cells_def cells_def squares_eq)

lemma grid_look_D3:
  "store_of (Nine r1 r2 r3 (Nine a b c d e f g h i) r5 r6 r7 r8 r9) ''D3'' = c"
  by (cases r1; cases r2; cases r3; cases r5; cases r6; cases r7; cases r8; cases r9;
      simp add: store_of_def store_cells_def cells_def squares_eq)

lemma grid_look_D4:
  "store_of (Nine r1 r2 r3 (Nine a b c d e f g h i) r5 r6 r7 r8 r9) ''D4'' = d"
  by (cases r1; cases r2; cases r3; cases r5; cases r6; cases r7; cases r8; cases r9;
      simp add: store_of_def store_cells_def cells_def squares_eq)

lemma grid_look_D5:
  "store_of (Nine r1 r2 r3 (Nine a b c d e f g h i) r5 r6 r7 r8 r9) ''D5'' = e"
  by (cases r1; cases r2; cases r3; cases r5; cases r6; cases r7; cases r8; cases r9;
      simp add: store_of_def store_cells_def cells_def squares_eq)

lemma grid_look_D6:
  "store_of (Nine r1 r2 r3 (Nine a b c d e f g h i) r5 r6 r7 r8 r9) ''D6'' = f"
  by (cases r1; cases r2; cases r3; cases r5; cases r6; cases r7; cases r8; cases r9;
      simp add: store_of_def store_cells_def cells_def squares_eq)

lemma grid_look_D7:
  "store_of (Nine r1 r2 r3 (Nine a b c d e f g h i) r5 r6 r7 r8 r9) ''D7'' = g"
  by (cases r1; cases r2; cases r3; cases r5; cases r6; cases r7; cases r8; cases r9;
      simp add: store_of_def store_cells_def cells_def squares_eq)

lemma grid_look_D8:
  "store_of (Nine r1 r2 r3 (Nine a b c d e f g h i) r5 r6 r7 r8 r9) ''D8'' = h"
  by (cases r1; cases r2; cases r3; cases r5; cases r6; cases r7; cases r8; cases r9;
      simp add: store_of_def store_cells_def cells_def squares_eq)

lemma grid_look_D9:
  "store_of (Nine r1 r2 r3 (Nine a b c d e f g h i) r5 r6 r7 r8 r9) ''D9'' = i"
  by (cases r1; cases r2; cases r3; cases r5; cases r6; cases r7; cases r8; cases r9;
      simp add: store_of_def store_cells_def cells_def squares_eq)

lemma grid_look_E1:
  "store_of (Nine r1 r2 r3 r4 (Nine a b c d e f g h i) r6 r7 r8 r9) ''E1'' = a"
  by (cases r1; cases r2; cases r3; cases r4; cases r6; cases r7; cases r8; cases r9;
      simp add: store_of_def store_cells_def cells_def squares_eq)

lemma grid_look_E2:
  "store_of (Nine r1 r2 r3 r4 (Nine a b c d e f g h i) r6 r7 r8 r9) ''E2'' = b"
  by (cases r1; cases r2; cases r3; cases r4; cases r6; cases r7; cases r8; cases r9;
      simp add: store_of_def store_cells_def cells_def squares_eq)

lemma grid_look_E3:
  "store_of (Nine r1 r2 r3 r4 (Nine a b c d e f g h i) r6 r7 r8 r9) ''E3'' = c"
  by (cases r1; cases r2; cases r3; cases r4; cases r6; cases r7; cases r8; cases r9;
      simp add: store_of_def store_cells_def cells_def squares_eq)

lemma grid_look_E4:
  "store_of (Nine r1 r2 r3 r4 (Nine a b c d e f g h i) r6 r7 r8 r9) ''E4'' = d"
  by (cases r1; cases r2; cases r3; cases r4; cases r6; cases r7; cases r8; cases r9;
      simp add: store_of_def store_cells_def cells_def squares_eq)

lemma grid_look_E5:
  "store_of (Nine r1 r2 r3 r4 (Nine a b c d e f g h i) r6 r7 r8 r9) ''E5'' = e"
  by (cases r1; cases r2; cases r3; cases r4; cases r6; cases r7; cases r8; cases r9;
      simp add: store_of_def store_cells_def cells_def squares_eq)

lemma grid_look_E6:
  "store_of (Nine r1 r2 r3 r4 (Nine a b c d e f g h i) r6 r7 r8 r9) ''E6'' = f"
  by (cases r1; cases r2; cases r3; cases r4; cases r6; cases r7; cases r8; cases r9;
      simp add: store_of_def store_cells_def cells_def squares_eq)

lemma grid_look_E7:
  "store_of (Nine r1 r2 r3 r4 (Nine a b c d e f g h i) r6 r7 r8 r9) ''E7'' = g"
  by (cases r1; cases r2; cases r3; cases r4; cases r6; cases r7; cases r8; cases r9;
      simp add: store_of_def store_cells_def cells_def squares_eq)

lemma grid_look_E8:
  "store_of (Nine r1 r2 r3 r4 (Nine a b c d e f g h i) r6 r7 r8 r9) ''E8'' = h"
  by (cases r1; cases r2; cases r3; cases r4; cases r6; cases r7; cases r8; cases r9;
      simp add: store_of_def store_cells_def cells_def squares_eq)

lemma grid_look_E9:
  "store_of (Nine r1 r2 r3 r4 (Nine a b c d e f g h i) r6 r7 r8 r9) ''E9'' = i"
  by (cases r1; cases r2; cases r3; cases r4; cases r6; cases r7; cases r8; cases r9;
      simp add: store_of_def store_cells_def cells_def squares_eq)

lemma grid_look_F1:
  "store_of (Nine r1 r2 r3 r4 r5 (Nine a b c d e f g h i) r7 r8 r9) ''F1'' = a"
  by (cases r1; cases r2; cases r3; cases r4; cases r5; cases r7; cases r8; cases r9;
      simp add: store_of_def store_cells_def cells_def squares_eq)

lemma grid_look_F2:
  "store_of (Nine r1 r2 r3 r4 r5 (Nine a b c d e f g h i) r7 r8 r9) ''F2'' = b"
  by (cases r1; cases r2; cases r3; cases r4; cases r5; cases r7; cases r8; cases r9;
      simp add: store_of_def store_cells_def cells_def squares_eq)

lemma grid_look_F3:
  "store_of (Nine r1 r2 r3 r4 r5 (Nine a b c d e f g h i) r7 r8 r9) ''F3'' = c"
  by (cases r1; cases r2; cases r3; cases r4; cases r5; cases r7; cases r8; cases r9;
      simp add: store_of_def store_cells_def cells_def squares_eq)

lemma grid_look_F4:
  "store_of (Nine r1 r2 r3 r4 r5 (Nine a b c d e f g h i) r7 r8 r9) ''F4'' = d"
  by (cases r1; cases r2; cases r3; cases r4; cases r5; cases r7; cases r8; cases r9;
      simp add: store_of_def store_cells_def cells_def squares_eq)

lemma grid_look_F5:
  "store_of (Nine r1 r2 r3 r4 r5 (Nine a b c d e f g h i) r7 r8 r9) ''F5'' = e"
  by (cases r1; cases r2; cases r3; cases r4; cases r5; cases r7; cases r8; cases r9;
      simp add: store_of_def store_cells_def cells_def squares_eq)

lemma grid_look_F6:
  "store_of (Nine r1 r2 r3 r4 r5 (Nine a b c d e f g h i) r7 r8 r9) ''F6'' = f"
  by (cases r1; cases r2; cases r3; cases r4; cases r5; cases r7; cases r8; cases r9;
      simp add: store_of_def store_cells_def cells_def squares_eq)

lemma grid_look_F7:
  "store_of (Nine r1 r2 r3 r4 r5 (Nine a b c d e f g h i) r7 r8 r9) ''F7'' = g"
  by (cases r1; cases r2; cases r3; cases r4; cases r5; cases r7; cases r8; cases r9;
      simp add: store_of_def store_cells_def cells_def squares_eq)

lemma grid_look_F8:
  "store_of (Nine r1 r2 r3 r4 r5 (Nine a b c d e f g h i) r7 r8 r9) ''F8'' = h"
  by (cases r1; cases r2; cases r3; cases r4; cases r5; cases r7; cases r8; cases r9;
      simp add: store_of_def store_cells_def cells_def squares_eq)

lemma grid_look_F9:
  "store_of (Nine r1 r2 r3 r4 r5 (Nine a b c d e f g h i) r7 r8 r9) ''F9'' = i"
  by (cases r1; cases r2; cases r3; cases r4; cases r5; cases r7; cases r8; cases r9;
      simp add: store_of_def store_cells_def cells_def squares_eq)

lemma grid_look_G1:
  "store_of (Nine r1 r2 r3 r4 r5 r6 (Nine a b c d e f g h i) r8 r9) ''G1'' = a"
  by (cases r1; cases r2; cases r3; cases r4; cases r5; cases r6; cases r8; cases r9;
      simp add: store_of_def store_cells_def cells_def squares_eq)

lemma grid_look_G2:
  "store_of (Nine r1 r2 r3 r4 r5 r6 (Nine a b c d e f g h i) r8 r9) ''G2'' = b"
  by (cases r1; cases r2; cases r3; cases r4; cases r5; cases r6; cases r8; cases r9;
      simp add: store_of_def store_cells_def cells_def squares_eq)

lemma grid_look_G3:
  "store_of (Nine r1 r2 r3 r4 r5 r6 (Nine a b c d e f g h i) r8 r9) ''G3'' = c"
  by (cases r1; cases r2; cases r3; cases r4; cases r5; cases r6; cases r8; cases r9;
      simp add: store_of_def store_cells_def cells_def squares_eq)

lemma grid_look_G4:
  "store_of (Nine r1 r2 r3 r4 r5 r6 (Nine a b c d e f g h i) r8 r9) ''G4'' = d"
  by (cases r1; cases r2; cases r3; cases r4; cases r5; cases r6; cases r8; cases r9;
      simp add: store_of_def store_cells_def cells_def squares_eq)

lemma grid_look_G5:
  "store_of (Nine r1 r2 r3 r4 r5 r6 (Nine a b c d e f g h i) r8 r9) ''G5'' = e"
  by (cases r1; cases r2; cases r3; cases r4; cases r5; cases r6; cases r8; cases r9;
      simp add: store_of_def store_cells_def cells_def squares_eq)

lemma grid_look_G6:
  "store_of (Nine r1 r2 r3 r4 r5 r6 (Nine a b c d e f g h i) r8 r9) ''G6'' = f"
  by (cases r1; cases r2; cases r3; cases r4; cases r5; cases r6; cases r8; cases r9;
      simp add: store_of_def store_cells_def cells_def squares_eq)

lemma grid_look_G7:
  "store_of (Nine r1 r2 r3 r4 r5 r6 (Nine a b c d e f g h i) r8 r9) ''G7'' = g"
  by (cases r1; cases r2; cases r3; cases r4; cases r5; cases r6; cases r8; cases r9;
      simp add: store_of_def store_cells_def cells_def squares_eq)

lemma grid_look_G8:
  "store_of (Nine r1 r2 r3 r4 r5 r6 (Nine a b c d e f g h i) r8 r9) ''G8'' = h"
  by (cases r1; cases r2; cases r3; cases r4; cases r5; cases r6; cases r8; cases r9;
      simp add: store_of_def store_cells_def cells_def squares_eq)

lemma grid_look_G9:
  "store_of (Nine r1 r2 r3 r4 r5 r6 (Nine a b c d e f g h i) r8 r9) ''G9'' = i"
  by (cases r1; cases r2; cases r3; cases r4; cases r5; cases r6; cases r8; cases r9;
      simp add: store_of_def store_cells_def cells_def squares_eq)

lemma grid_look_H1:
  "store_of (Nine r1 r2 r3 r4 r5 r6 r7 (Nine a b c d e f g h i) r9) ''H1'' = a"
  by (cases r1; cases r2; cases r3; cases r4; cases r5; cases r6; cases r7; cases r9;
      simp add: store_of_def store_cells_def cells_def squares_eq)

lemma grid_look_H2:
  "store_of (Nine r1 r2 r3 r4 r5 r6 r7 (Nine a b c d e f g h i) r9) ''H2'' = b"
  by (cases r1; cases r2; cases r3; cases r4; cases r5; cases r6; cases r7; cases r9;
      simp add: store_of_def store_cells_def cells_def squares_eq)

lemma grid_look_H3:
  "store_of (Nine r1 r2 r3 r4 r5 r6 r7 (Nine a b c d e f g h i) r9) ''H3'' = c"
  by (cases r1; cases r2; cases r3; cases r4; cases r5; cases r6; cases r7; cases r9;
      simp add: store_of_def store_cells_def cells_def squares_eq)

lemma grid_look_H4:
  "store_of (Nine r1 r2 r3 r4 r5 r6 r7 (Nine a b c d e f g h i) r9) ''H4'' = d"
  by (cases r1; cases r2; cases r3; cases r4; cases r5; cases r6; cases r7; cases r9;
      simp add: store_of_def store_cells_def cells_def squares_eq)

lemma grid_look_H5:
  "store_of (Nine r1 r2 r3 r4 r5 r6 r7 (Nine a b c d e f g h i) r9) ''H5'' = e"
  by (cases r1; cases r2; cases r3; cases r4; cases r5; cases r6; cases r7; cases r9;
      simp add: store_of_def store_cells_def cells_def squares_eq)

lemma grid_look_H6:
  "store_of (Nine r1 r2 r3 r4 r5 r6 r7 (Nine a b c d e f g h i) r9) ''H6'' = f"
  by (cases r1; cases r2; cases r3; cases r4; cases r5; cases r6; cases r7; cases r9;
      simp add: store_of_def store_cells_def cells_def squares_eq)

lemma grid_look_H7:
  "store_of (Nine r1 r2 r3 r4 r5 r6 r7 (Nine a b c d e f g h i) r9) ''H7'' = g"
  by (cases r1; cases r2; cases r3; cases r4; cases r5; cases r6; cases r7; cases r9;
      simp add: store_of_def store_cells_def cells_def squares_eq)

lemma grid_look_H8:
  "store_of (Nine r1 r2 r3 r4 r5 r6 r7 (Nine a b c d e f g h i) r9) ''H8'' = h"
  by (cases r1; cases r2; cases r3; cases r4; cases r5; cases r6; cases r7; cases r9;
      simp add: store_of_def store_cells_def cells_def squares_eq)

lemma grid_look_H9:
  "store_of (Nine r1 r2 r3 r4 r5 r6 r7 (Nine a b c d e f g h i) r9) ''H9'' = i"
  by (cases r1; cases r2; cases r3; cases r4; cases r5; cases r6; cases r7; cases r9;
      simp add: store_of_def store_cells_def cells_def squares_eq)

lemma grid_look_I1:
  "store_of (Nine r1 r2 r3 r4 r5 r6 r7 r8 (Nine a b c d e f g h i)) ''I1'' = a"
  by (cases r1; cases r2; cases r3; cases r4; cases r5; cases r6; cases r7; cases r8;
      simp add: store_of_def store_cells_def cells_def squares_eq)

lemma grid_look_I2:
  "store_of (Nine r1 r2 r3 r4 r5 r6 r7 r8 (Nine a b c d e f g h i)) ''I2'' = b"
  by (cases r1; cases r2; cases r3; cases r4; cases r5; cases r6; cases r7; cases r8;
      simp add: store_of_def store_cells_def cells_def squares_eq)

lemma grid_look_I3:
  "store_of (Nine r1 r2 r3 r4 r5 r6 r7 r8 (Nine a b c d e f g h i)) ''I3'' = c"
  by (cases r1; cases r2; cases r3; cases r4; cases r5; cases r6; cases r7; cases r8;
      simp add: store_of_def store_cells_def cells_def squares_eq)

lemma grid_look_I4:
  "store_of (Nine r1 r2 r3 r4 r5 r6 r7 r8 (Nine a b c d e f g h i)) ''I4'' = d"
  by (cases r1; cases r2; cases r3; cases r4; cases r5; cases r6; cases r7; cases r8;
      simp add: store_of_def store_cells_def cells_def squares_eq)

lemma grid_look_I5:
  "store_of (Nine r1 r2 r3 r4 r5 r6 r7 r8 (Nine a b c d e f g h i)) ''I5'' = e"
  by (cases r1; cases r2; cases r3; cases r4; cases r5; cases r6; cases r7; cases r8;
      simp add: store_of_def store_cells_def cells_def squares_eq)

lemma grid_look_I6:
  "store_of (Nine r1 r2 r3 r4 r5 r6 r7 r8 (Nine a b c d e f g h i)) ''I6'' = f"
  by (cases r1; cases r2; cases r3; cases r4; cases r5; cases r6; cases r7; cases r8;
      simp add: store_of_def store_cells_def cells_def squares_eq)

lemma grid_look_I7:
  "store_of (Nine r1 r2 r3 r4 r5 r6 r7 r8 (Nine a b c d e f g h i)) ''I7'' = g"
  by (cases r1; cases r2; cases r3; cases r4; cases r5; cases r6; cases r7; cases r8;
      simp add: store_of_def store_cells_def cells_def squares_eq)

lemma grid_look_I8:
  "store_of (Nine r1 r2 r3 r4 r5 r6 r7 r8 (Nine a b c d e f g h i)) ''I8'' = h"
  by (cases r1; cases r2; cases r3; cases r4; cases r5; cases r6; cases r7; cases r8;
      simp add: store_of_def store_cells_def cells_def squares_eq)

lemma grid_look_I9:
  "store_of (Nine r1 r2 r3 r4 r5 r6 r7 r8 (Nine a b c d e f g h i)) ''I9'' = i"
  by (cases r1; cases r2; cases r3; cases r4; cases r5; cases r6; cases r7; cases r8;
      simp add: store_of_def store_cells_def cells_def squares_eq)

lemmas grid_look =
  grid_look_A1 grid_look_A2 grid_look_A3 grid_look_A4 grid_look_A5 grid_look_A6 grid_look_A7 grid_look_A8 grid_look_A9
  grid_look_B1 grid_look_B2 grid_look_B3 grid_look_B4 grid_look_B5 grid_look_B6 grid_look_B7 grid_look_B8 grid_look_B9
  grid_look_C1 grid_look_C2 grid_look_C3 grid_look_C4 grid_look_C5 grid_look_C6 grid_look_C7 grid_look_C8 grid_look_C9
  grid_look_D1 grid_look_D2 grid_look_D3 grid_look_D4 grid_look_D5 grid_look_D6 grid_look_D7 grid_look_D8 grid_look_D9
  grid_look_E1 grid_look_E2 grid_look_E3 grid_look_E4 grid_look_E5 grid_look_E6 grid_look_E7 grid_look_E8 grid_look_E9
  grid_look_F1 grid_look_F2 grid_look_F3 grid_look_F4 grid_look_F5 grid_look_F6 grid_look_F7 grid_look_F8 grid_look_F9
  grid_look_G1 grid_look_G2 grid_look_G3 grid_look_G4 grid_look_G5 grid_look_G6 grid_look_G7 grid_look_G8 grid_look_G9
  grid_look_H1 grid_look_H2 grid_look_H3 grid_look_H4 grid_look_H5 grid_look_H6 grid_look_H7 grid_look_H8 grid_look_H9
  grid_look_I1 grid_look_I2 grid_look_I3 grid_look_I4 grid_look_I5 grid_look_I6 grid_look_I7 grid_look_I8 grid_look_I9

lemma grid_upd_A1:
  "(store_of (Nine (Nine a b c d e f g h i) r2 r3 r4 r5 r6 r7 r8 r9))(''A1'' := v) =
     store_of (Nine (Nine v b c d e f g h i) r2 r3 r4 r5 r6 r7 r8 r9)"
  using store_cells_upd[of "cells (Nine (Nine a b c d e f g h i) r2 r3 r4 r5 r6 r7 r8 r9)" 0 v]
  by (cases r2; cases r3; cases r4; cases r5; cases r6; cases r7; cases r8; cases r9;
      simp add: store_of_def cells_def squares_eq)

lemma grid_upd_A2:
  "(store_of (Nine (Nine a b c d e f g h i) r2 r3 r4 r5 r6 r7 r8 r9))(''A2'' := v) =
     store_of (Nine (Nine a v c d e f g h i) r2 r3 r4 r5 r6 r7 r8 r9)"
  using store_cells_upd[of "cells (Nine (Nine a b c d e f g h i) r2 r3 r4 r5 r6 r7 r8 r9)" 1 v]
  by (cases r2; cases r3; cases r4; cases r5; cases r6; cases r7; cases r8; cases r9;
      simp add: store_of_def cells_def squares_eq)

lemma grid_upd_A3:
  "(store_of (Nine (Nine a b c d e f g h i) r2 r3 r4 r5 r6 r7 r8 r9))(''A3'' := v) =
     store_of (Nine (Nine a b v d e f g h i) r2 r3 r4 r5 r6 r7 r8 r9)"
  using store_cells_upd[of "cells (Nine (Nine a b c d e f g h i) r2 r3 r4 r5 r6 r7 r8 r9)" 2 v]
  by (cases r2; cases r3; cases r4; cases r5; cases r6; cases r7; cases r8; cases r9;
      simp add: store_of_def cells_def squares_eq)

lemma grid_upd_A4:
  "(store_of (Nine (Nine a b c d e f g h i) r2 r3 r4 r5 r6 r7 r8 r9))(''A4'' := v) =
     store_of (Nine (Nine a b c v e f g h i) r2 r3 r4 r5 r6 r7 r8 r9)"
  using store_cells_upd[of "cells (Nine (Nine a b c d e f g h i) r2 r3 r4 r5 r6 r7 r8 r9)" 3 v]
  by (cases r2; cases r3; cases r4; cases r5; cases r6; cases r7; cases r8; cases r9;
      simp add: store_of_def cells_def squares_eq)

lemma grid_upd_A5:
  "(store_of (Nine (Nine a b c d e f g h i) r2 r3 r4 r5 r6 r7 r8 r9))(''A5'' := v) =
     store_of (Nine (Nine a b c d v f g h i) r2 r3 r4 r5 r6 r7 r8 r9)"
  using store_cells_upd[of "cells (Nine (Nine a b c d e f g h i) r2 r3 r4 r5 r6 r7 r8 r9)" 4 v]
  by (cases r2; cases r3; cases r4; cases r5; cases r6; cases r7; cases r8; cases r9;
      simp add: store_of_def cells_def squares_eq)

lemma grid_upd_A6:
  "(store_of (Nine (Nine a b c d e f g h i) r2 r3 r4 r5 r6 r7 r8 r9))(''A6'' := v) =
     store_of (Nine (Nine a b c d e v g h i) r2 r3 r4 r5 r6 r7 r8 r9)"
  using store_cells_upd[of "cells (Nine (Nine a b c d e f g h i) r2 r3 r4 r5 r6 r7 r8 r9)" 5 v]
  by (cases r2; cases r3; cases r4; cases r5; cases r6; cases r7; cases r8; cases r9;
      simp add: store_of_def cells_def squares_eq)

lemma grid_upd_A7:
  "(store_of (Nine (Nine a b c d e f g h i) r2 r3 r4 r5 r6 r7 r8 r9))(''A7'' := v) =
     store_of (Nine (Nine a b c d e f v h i) r2 r3 r4 r5 r6 r7 r8 r9)"
  using store_cells_upd[of "cells (Nine (Nine a b c d e f g h i) r2 r3 r4 r5 r6 r7 r8 r9)" 6 v]
  by (cases r2; cases r3; cases r4; cases r5; cases r6; cases r7; cases r8; cases r9;
      simp add: store_of_def cells_def squares_eq)

lemma grid_upd_A8:
  "(store_of (Nine (Nine a b c d e f g h i) r2 r3 r4 r5 r6 r7 r8 r9))(''A8'' := v) =
     store_of (Nine (Nine a b c d e f g v i) r2 r3 r4 r5 r6 r7 r8 r9)"
  using store_cells_upd[of "cells (Nine (Nine a b c d e f g h i) r2 r3 r4 r5 r6 r7 r8 r9)" 7 v]
  by (cases r2; cases r3; cases r4; cases r5; cases r6; cases r7; cases r8; cases r9;
      simp add: store_of_def cells_def squares_eq)

lemma grid_upd_A9:
  "(store_of (Nine (Nine a b c d e f g h i) r2 r3 r4 r5 r6 r7 r8 r9))(''A9'' := v) =
     store_of (Nine (Nine a b c d e f g h v) r2 r3 r4 r5 r6 r7 r8 r9)"
  using store_cells_upd[of "cells (Nine (Nine a b c d e f g h i) r2 r3 r4 r5 r6 r7 r8 r9)" 8 v]
  by (cases r2; cases r3; cases r4; cases r5; cases r6; cases r7; cases r8; cases r9;
      simp add: store_of_def cells_def squares_eq)

lemma grid_upd_B1:
  "(store_of (Nine r1 (Nine a b c d e f g h i) r3 r4 r5 r6 r7 r8 r9))(''B1'' := v) =
     store_of (Nine r1 (Nine v b c d e f g h i) r3 r4 r5 r6 r7 r8 r9)"
  using store_cells_upd[of "cells (Nine r1 (Nine a b c d e f g h i) r3 r4 r5 r6 r7 r8 r9)" 9 v]
  by (cases r1; cases r3; cases r4; cases r5; cases r6; cases r7; cases r8; cases r9;
      simp add: store_of_def cells_def squares_eq)

lemma grid_upd_B2:
  "(store_of (Nine r1 (Nine a b c d e f g h i) r3 r4 r5 r6 r7 r8 r9))(''B2'' := v) =
     store_of (Nine r1 (Nine a v c d e f g h i) r3 r4 r5 r6 r7 r8 r9)"
  using store_cells_upd[of "cells (Nine r1 (Nine a b c d e f g h i) r3 r4 r5 r6 r7 r8 r9)" 10 v]
  by (cases r1; cases r3; cases r4; cases r5; cases r6; cases r7; cases r8; cases r9;
      simp add: store_of_def cells_def squares_eq)

lemma grid_upd_B3:
  "(store_of (Nine r1 (Nine a b c d e f g h i) r3 r4 r5 r6 r7 r8 r9))(''B3'' := v) =
     store_of (Nine r1 (Nine a b v d e f g h i) r3 r4 r5 r6 r7 r8 r9)"
  using store_cells_upd[of "cells (Nine r1 (Nine a b c d e f g h i) r3 r4 r5 r6 r7 r8 r9)" 11 v]
  by (cases r1; cases r3; cases r4; cases r5; cases r6; cases r7; cases r8; cases r9;
      simp add: store_of_def cells_def squares_eq)

lemma grid_upd_B4:
  "(store_of (Nine r1 (Nine a b c d e f g h i) r3 r4 r5 r6 r7 r8 r9))(''B4'' := v) =
     store_of (Nine r1 (Nine a b c v e f g h i) r3 r4 r5 r6 r7 r8 r9)"
  using store_cells_upd[of "cells (Nine r1 (Nine a b c d e f g h i) r3 r4 r5 r6 r7 r8 r9)" 12 v]
  by (cases r1; cases r3; cases r4; cases r5; cases r6; cases r7; cases r8; cases r9;
      simp add: store_of_def cells_def squares_eq)

lemma grid_upd_B5:
  "(store_of (Nine r1 (Nine a b c d e f g h i) r3 r4 r5 r6 r7 r8 r9))(''B5'' := v) =
     store_of (Nine r1 (Nine a b c d v f g h i) r3 r4 r5 r6 r7 r8 r9)"
  using store_cells_upd[of "cells (Nine r1 (Nine a b c d e f g h i) r3 r4 r5 r6 r7 r8 r9)" 13 v]
  by (cases r1; cases r3; cases r4; cases r5; cases r6; cases r7; cases r8; cases r9;
      simp add: store_of_def cells_def squares_eq)

lemma grid_upd_B6:
  "(store_of (Nine r1 (Nine a b c d e f g h i) r3 r4 r5 r6 r7 r8 r9))(''B6'' := v) =
     store_of (Nine r1 (Nine a b c d e v g h i) r3 r4 r5 r6 r7 r8 r9)"
  using store_cells_upd[of "cells (Nine r1 (Nine a b c d e f g h i) r3 r4 r5 r6 r7 r8 r9)" 14 v]
  by (cases r1; cases r3; cases r4; cases r5; cases r6; cases r7; cases r8; cases r9;
      simp add: store_of_def cells_def squares_eq)

lemma grid_upd_B7:
  "(store_of (Nine r1 (Nine a b c d e f g h i) r3 r4 r5 r6 r7 r8 r9))(''B7'' := v) =
     store_of (Nine r1 (Nine a b c d e f v h i) r3 r4 r5 r6 r7 r8 r9)"
  using store_cells_upd[of "cells (Nine r1 (Nine a b c d e f g h i) r3 r4 r5 r6 r7 r8 r9)" 15 v]
  by (cases r1; cases r3; cases r4; cases r5; cases r6; cases r7; cases r8; cases r9;
      simp add: store_of_def cells_def squares_eq)

lemma grid_upd_B8:
  "(store_of (Nine r1 (Nine a b c d e f g h i) r3 r4 r5 r6 r7 r8 r9))(''B8'' := v) =
     store_of (Nine r1 (Nine a b c d e f g v i) r3 r4 r5 r6 r7 r8 r9)"
  using store_cells_upd[of "cells (Nine r1 (Nine a b c d e f g h i) r3 r4 r5 r6 r7 r8 r9)" 16 v]
  by (cases r1; cases r3; cases r4; cases r5; cases r6; cases r7; cases r8; cases r9;
      simp add: store_of_def cells_def squares_eq)

lemma grid_upd_B9:
  "(store_of (Nine r1 (Nine a b c d e f g h i) r3 r4 r5 r6 r7 r8 r9))(''B9'' := v) =
     store_of (Nine r1 (Nine a b c d e f g h v) r3 r4 r5 r6 r7 r8 r9)"
  using store_cells_upd[of "cells (Nine r1 (Nine a b c d e f g h i) r3 r4 r5 r6 r7 r8 r9)" 17 v]
  by (cases r1; cases r3; cases r4; cases r5; cases r6; cases r7; cases r8; cases r9;
      simp add: store_of_def cells_def squares_eq)

lemma grid_upd_C1:
  "(store_of (Nine r1 r2 (Nine a b c d e f g h i) r4 r5 r6 r7 r8 r9))(''C1'' := v) =
     store_of (Nine r1 r2 (Nine v b c d e f g h i) r4 r5 r6 r7 r8 r9)"
  using store_cells_upd[of "cells (Nine r1 r2 (Nine a b c d e f g h i) r4 r5 r6 r7 r8 r9)" 18 v]
  by (cases r1; cases r2; cases r4; cases r5; cases r6; cases r7; cases r8; cases r9;
      simp add: store_of_def cells_def squares_eq)

lemma grid_upd_C2:
  "(store_of (Nine r1 r2 (Nine a b c d e f g h i) r4 r5 r6 r7 r8 r9))(''C2'' := v) =
     store_of (Nine r1 r2 (Nine a v c d e f g h i) r4 r5 r6 r7 r8 r9)"
  using store_cells_upd[of "cells (Nine r1 r2 (Nine a b c d e f g h i) r4 r5 r6 r7 r8 r9)" 19 v]
  by (cases r1; cases r2; cases r4; cases r5; cases r6; cases r7; cases r8; cases r9;
      simp add: store_of_def cells_def squares_eq)

lemma grid_upd_C3:
  "(store_of (Nine r1 r2 (Nine a b c d e f g h i) r4 r5 r6 r7 r8 r9))(''C3'' := v) =
     store_of (Nine r1 r2 (Nine a b v d e f g h i) r4 r5 r6 r7 r8 r9)"
  using store_cells_upd[of "cells (Nine r1 r2 (Nine a b c d e f g h i) r4 r5 r6 r7 r8 r9)" 20 v]
  by (cases r1; cases r2; cases r4; cases r5; cases r6; cases r7; cases r8; cases r9;
      simp add: store_of_def cells_def squares_eq)

lemma grid_upd_C4:
  "(store_of (Nine r1 r2 (Nine a b c d e f g h i) r4 r5 r6 r7 r8 r9))(''C4'' := v) =
     store_of (Nine r1 r2 (Nine a b c v e f g h i) r4 r5 r6 r7 r8 r9)"
  using store_cells_upd[of "cells (Nine r1 r2 (Nine a b c d e f g h i) r4 r5 r6 r7 r8 r9)" 21 v]
  by (cases r1; cases r2; cases r4; cases r5; cases r6; cases r7; cases r8; cases r9;
      simp add: store_of_def cells_def squares_eq)

lemma grid_upd_C5:
  "(store_of (Nine r1 r2 (Nine a b c d e f g h i) r4 r5 r6 r7 r8 r9))(''C5'' := v) =
     store_of (Nine r1 r2 (Nine a b c d v f g h i) r4 r5 r6 r7 r8 r9)"
  using store_cells_upd[of "cells (Nine r1 r2 (Nine a b c d e f g h i) r4 r5 r6 r7 r8 r9)" 22 v]
  by (cases r1; cases r2; cases r4; cases r5; cases r6; cases r7; cases r8; cases r9;
      simp add: store_of_def cells_def squares_eq)

lemma grid_upd_C6:
  "(store_of (Nine r1 r2 (Nine a b c d e f g h i) r4 r5 r6 r7 r8 r9))(''C6'' := v) =
     store_of (Nine r1 r2 (Nine a b c d e v g h i) r4 r5 r6 r7 r8 r9)"
  using store_cells_upd[of "cells (Nine r1 r2 (Nine a b c d e f g h i) r4 r5 r6 r7 r8 r9)" 23 v]
  by (cases r1; cases r2; cases r4; cases r5; cases r6; cases r7; cases r8; cases r9;
      simp add: store_of_def cells_def squares_eq)

lemma grid_upd_C7:
  "(store_of (Nine r1 r2 (Nine a b c d e f g h i) r4 r5 r6 r7 r8 r9))(''C7'' := v) =
     store_of (Nine r1 r2 (Nine a b c d e f v h i) r4 r5 r6 r7 r8 r9)"
  using store_cells_upd[of "cells (Nine r1 r2 (Nine a b c d e f g h i) r4 r5 r6 r7 r8 r9)" 24 v]
  by (cases r1; cases r2; cases r4; cases r5; cases r6; cases r7; cases r8; cases r9;
      simp add: store_of_def cells_def squares_eq)

lemma grid_upd_C8:
  "(store_of (Nine r1 r2 (Nine a b c d e f g h i) r4 r5 r6 r7 r8 r9))(''C8'' := v) =
     store_of (Nine r1 r2 (Nine a b c d e f g v i) r4 r5 r6 r7 r8 r9)"
  using store_cells_upd[of "cells (Nine r1 r2 (Nine a b c d e f g h i) r4 r5 r6 r7 r8 r9)" 25 v]
  by (cases r1; cases r2; cases r4; cases r5; cases r6; cases r7; cases r8; cases r9;
      simp add: store_of_def cells_def squares_eq)

lemma grid_upd_C9:
  "(store_of (Nine r1 r2 (Nine a b c d e f g h i) r4 r5 r6 r7 r8 r9))(''C9'' := v) =
     store_of (Nine r1 r2 (Nine a b c d e f g h v) r4 r5 r6 r7 r8 r9)"
  using store_cells_upd[of "cells (Nine r1 r2 (Nine a b c d e f g h i) r4 r5 r6 r7 r8 r9)" 26 v]
  by (cases r1; cases r2; cases r4; cases r5; cases r6; cases r7; cases r8; cases r9;
      simp add: store_of_def cells_def squares_eq)

lemma grid_upd_D1:
  "(store_of (Nine r1 r2 r3 (Nine a b c d e f g h i) r5 r6 r7 r8 r9))(''D1'' := v) =
     store_of (Nine r1 r2 r3 (Nine v b c d e f g h i) r5 r6 r7 r8 r9)"
  using store_cells_upd[of "cells (Nine r1 r2 r3 (Nine a b c d e f g h i) r5 r6 r7 r8 r9)" 27 v]
  by (cases r1; cases r2; cases r3; cases r5; cases r6; cases r7; cases r8; cases r9;
      simp add: store_of_def cells_def squares_eq)

lemma grid_upd_D2:
  "(store_of (Nine r1 r2 r3 (Nine a b c d e f g h i) r5 r6 r7 r8 r9))(''D2'' := v) =
     store_of (Nine r1 r2 r3 (Nine a v c d e f g h i) r5 r6 r7 r8 r9)"
  using store_cells_upd[of "cells (Nine r1 r2 r3 (Nine a b c d e f g h i) r5 r6 r7 r8 r9)" 28 v]
  by (cases r1; cases r2; cases r3; cases r5; cases r6; cases r7; cases r8; cases r9;
      simp add: store_of_def cells_def squares_eq)

lemma grid_upd_D3:
  "(store_of (Nine r1 r2 r3 (Nine a b c d e f g h i) r5 r6 r7 r8 r9))(''D3'' := v) =
     store_of (Nine r1 r2 r3 (Nine a b v d e f g h i) r5 r6 r7 r8 r9)"
  using store_cells_upd[of "cells (Nine r1 r2 r3 (Nine a b c d e f g h i) r5 r6 r7 r8 r9)" 29 v]
  by (cases r1; cases r2; cases r3; cases r5; cases r6; cases r7; cases r8; cases r9;
      simp add: store_of_def cells_def squares_eq)

lemma grid_upd_D4:
  "(store_of (Nine r1 r2 r3 (Nine a b c d e f g h i) r5 r6 r7 r8 r9))(''D4'' := v) =
     store_of (Nine r1 r2 r3 (Nine a b c v e f g h i) r5 r6 r7 r8 r9)"
  using store_cells_upd[of "cells (Nine r1 r2 r3 (Nine a b c d e f g h i) r5 r6 r7 r8 r9)" 30 v]
  by (cases r1; cases r2; cases r3; cases r5; cases r6; cases r7; cases r8; cases r9;
      simp add: store_of_def cells_def squares_eq)

lemma grid_upd_D5:
  "(store_of (Nine r1 r2 r3 (Nine a b c d e f g h i) r5 r6 r7 r8 r9))(''D5'' := v) =
     store_of (Nine r1 r2 r3 (Nine a b c d v f g h i) r5 r6 r7 r8 r9)"
  using store_cells_upd[of "cells (Nine r1 r2 r3 (Nine a b c d e f g h i) r5 r6 r7 r8 r9)" 31 v]
  by (cases r1; cases r2; cases r3; cases r5; cases r6; cases r7; cases r8; cases r9;
      simp add: store_of_def cells_def squares_eq)

lemma grid_upd_D6:
  "(store_of (Nine r1 r2 r3 (Nine a b c d e f g h i) r5 r6 r7 r8 r9))(''D6'' := v) =
     store_of (Nine r1 r2 r3 (Nine a b c d e v g h i) r5 r6 r7 r8 r9)"
  using store_cells_upd[of "cells (Nine r1 r2 r3 (Nine a b c d e f g h i) r5 r6 r7 r8 r9)" 32 v]
  by (cases r1; cases r2; cases r3; cases r5; cases r6; cases r7; cases r8; cases r9;
      simp add: store_of_def cells_def squares_eq)

lemma grid_upd_D7:
  "(store_of (Nine r1 r2 r3 (Nine a b c d e f g h i) r5 r6 r7 r8 r9))(''D7'' := v) =
     store_of (Nine r1 r2 r3 (Nine a b c d e f v h i) r5 r6 r7 r8 r9)"
  using store_cells_upd[of "cells (Nine r1 r2 r3 (Nine a b c d e f g h i) r5 r6 r7 r8 r9)" 33 v]
  by (cases r1; cases r2; cases r3; cases r5; cases r6; cases r7; cases r8; cases r9;
      simp add: store_of_def cells_def squares_eq)

lemma grid_upd_D8:
  "(store_of (Nine r1 r2 r3 (Nine a b c d e f g h i) r5 r6 r7 r8 r9))(''D8'' := v) =
     store_of (Nine r1 r2 r3 (Nine a b c d e f g v i) r5 r6 r7 r8 r9)"
  using store_cells_upd[of "cells (Nine r1 r2 r3 (Nine a b c d e f g h i) r5 r6 r7 r8 r9)" 34 v]
  by (cases r1; cases r2; cases r3; cases r5; cases r6; cases r7; cases r8; cases r9;
      simp add: store_of_def cells_def squares_eq)

lemma grid_upd_D9:
  "(store_of (Nine r1 r2 r3 (Nine a b c d e f g h i) r5 r6 r7 r8 r9))(''D9'' := v) =
     store_of (Nine r1 r2 r3 (Nine a b c d e f g h v) r5 r6 r7 r8 r9)"
  using store_cells_upd[of "cells (Nine r1 r2 r3 (Nine a b c d e f g h i) r5 r6 r7 r8 r9)" 35 v]
  by (cases r1; cases r2; cases r3; cases r5; cases r6; cases r7; cases r8; cases r9;
      simp add: store_of_def cells_def squares_eq)

lemma grid_upd_E1:
  "(store_of (Nine r1 r2 r3 r4 (Nine a b c d e f g h i) r6 r7 r8 r9))(''E1'' := v) =
     store_of (Nine r1 r2 r3 r4 (Nine v b c d e f g h i) r6 r7 r8 r9)"
  using store_cells_upd[of "cells (Nine r1 r2 r3 r4 (Nine a b c d e f g h i) r6 r7 r8 r9)" 36 v]
  by (cases r1; cases r2; cases r3; cases r4; cases r6; cases r7; cases r8; cases r9;
      simp add: store_of_def cells_def squares_eq)

lemma grid_upd_E2:
  "(store_of (Nine r1 r2 r3 r4 (Nine a b c d e f g h i) r6 r7 r8 r9))(''E2'' := v) =
     store_of (Nine r1 r2 r3 r4 (Nine a v c d e f g h i) r6 r7 r8 r9)"
  using store_cells_upd[of "cells (Nine r1 r2 r3 r4 (Nine a b c d e f g h i) r6 r7 r8 r9)" 37 v]
  by (cases r1; cases r2; cases r3; cases r4; cases r6; cases r7; cases r8; cases r9;
      simp add: store_of_def cells_def squares_eq)

lemma grid_upd_E3:
  "(store_of (Nine r1 r2 r3 r4 (Nine a b c d e f g h i) r6 r7 r8 r9))(''E3'' := v) =
     store_of (Nine r1 r2 r3 r4 (Nine a b v d e f g h i) r6 r7 r8 r9)"
  using store_cells_upd[of "cells (Nine r1 r2 r3 r4 (Nine a b c d e f g h i) r6 r7 r8 r9)" 38 v]
  by (cases r1; cases r2; cases r3; cases r4; cases r6; cases r7; cases r8; cases r9;
      simp add: store_of_def cells_def squares_eq)

lemma grid_upd_E4:
  "(store_of (Nine r1 r2 r3 r4 (Nine a b c d e f g h i) r6 r7 r8 r9))(''E4'' := v) =
     store_of (Nine r1 r2 r3 r4 (Nine a b c v e f g h i) r6 r7 r8 r9)"
  using store_cells_upd[of "cells (Nine r1 r2 r3 r4 (Nine a b c d e f g h i) r6 r7 r8 r9)" 39 v]
  by (cases r1; cases r2; cases r3; cases r4; cases r6; cases r7; cases r8; cases r9;
      simp add: store_of_def cells_def squares_eq)

lemma grid_upd_E5:
  "(store_of (Nine r1 r2 r3 r4 (Nine a b c d e f g h i) r6 r7 r8 r9))(''E5'' := v) =
     store_of (Nine r1 r2 r3 r4 (Nine a b c d v f g h i) r6 r7 r8 r9)"
  using store_cells_upd[of "cells (Nine r1 r2 r3 r4 (Nine a b c d e f g h i) r6 r7 r8 r9)" 40 v]
  by (cases r1; cases r2; cases r3; cases r4; cases r6; cases r7; cases r8; cases r9;
      simp add: store_of_def cells_def squares_eq)

lemma grid_upd_E6:
  "(store_of (Nine r1 r2 r3 r4 (Nine a b c d e f g h i) r6 r7 r8 r9))(''E6'' := v) =
     store_of (Nine r1 r2 r3 r4 (Nine a b c d e v g h i) r6 r7 r8 r9)"
  using store_cells_upd[of "cells (Nine r1 r2 r3 r4 (Nine a b c d e f g h i) r6 r7 r8 r9)" 41 v]
  by (cases r1; cases r2; cases r3; cases r4; cases r6; cases r7; cases r8; cases r9;
      simp add: store_of_def cells_def squares_eq)

lemma grid_upd_E7:
  "(store_of (Nine r1 r2 r3 r4 (Nine a b c d e f g h i) r6 r7 r8 r9))(''E7'' := v) =
     store_of (Nine r1 r2 r3 r4 (Nine a b c d e f v h i) r6 r7 r8 r9)"
  using store_cells_upd[of "cells (Nine r1 r2 r3 r4 (Nine a b c d e f g h i) r6 r7 r8 r9)" 42 v]
  by (cases r1; cases r2; cases r3; cases r4; cases r6; cases r7; cases r8; cases r9;
      simp add: store_of_def cells_def squares_eq)

lemma grid_upd_E8:
  "(store_of (Nine r1 r2 r3 r4 (Nine a b c d e f g h i) r6 r7 r8 r9))(''E8'' := v) =
     store_of (Nine r1 r2 r3 r4 (Nine a b c d e f g v i) r6 r7 r8 r9)"
  using store_cells_upd[of "cells (Nine r1 r2 r3 r4 (Nine a b c d e f g h i) r6 r7 r8 r9)" 43 v]
  by (cases r1; cases r2; cases r3; cases r4; cases r6; cases r7; cases r8; cases r9;
      simp add: store_of_def cells_def squares_eq)

lemma grid_upd_E9:
  "(store_of (Nine r1 r2 r3 r4 (Nine a b c d e f g h i) r6 r7 r8 r9))(''E9'' := v) =
     store_of (Nine r1 r2 r3 r4 (Nine a b c d e f g h v) r6 r7 r8 r9)"
  using store_cells_upd[of "cells (Nine r1 r2 r3 r4 (Nine a b c d e f g h i) r6 r7 r8 r9)" 44 v]
  by (cases r1; cases r2; cases r3; cases r4; cases r6; cases r7; cases r8; cases r9;
      simp add: store_of_def cells_def squares_eq)

lemma grid_upd_F1:
  "(store_of (Nine r1 r2 r3 r4 r5 (Nine a b c d e f g h i) r7 r8 r9))(''F1'' := v) =
     store_of (Nine r1 r2 r3 r4 r5 (Nine v b c d e f g h i) r7 r8 r9)"
  using store_cells_upd[of "cells (Nine r1 r2 r3 r4 r5 (Nine a b c d e f g h i) r7 r8 r9)" 45 v]
  by (cases r1; cases r2; cases r3; cases r4; cases r5; cases r7; cases r8; cases r9;
      simp add: store_of_def cells_def squares_eq)

lemma grid_upd_F2:
  "(store_of (Nine r1 r2 r3 r4 r5 (Nine a b c d e f g h i) r7 r8 r9))(''F2'' := v) =
     store_of (Nine r1 r2 r3 r4 r5 (Nine a v c d e f g h i) r7 r8 r9)"
  using store_cells_upd[of "cells (Nine r1 r2 r3 r4 r5 (Nine a b c d e f g h i) r7 r8 r9)" 46 v]
  by (cases r1; cases r2; cases r3; cases r4; cases r5; cases r7; cases r8; cases r9;
      simp add: store_of_def cells_def squares_eq)

lemma grid_upd_F3:
  "(store_of (Nine r1 r2 r3 r4 r5 (Nine a b c d e f g h i) r7 r8 r9))(''F3'' := v) =
     store_of (Nine r1 r2 r3 r4 r5 (Nine a b v d e f g h i) r7 r8 r9)"
  using store_cells_upd[of "cells (Nine r1 r2 r3 r4 r5 (Nine a b c d e f g h i) r7 r8 r9)" 47 v]
  by (cases r1; cases r2; cases r3; cases r4; cases r5; cases r7; cases r8; cases r9;
      simp add: store_of_def cells_def squares_eq)

lemma grid_upd_F4:
  "(store_of (Nine r1 r2 r3 r4 r5 (Nine a b c d e f g h i) r7 r8 r9))(''F4'' := v) =
     store_of (Nine r1 r2 r3 r4 r5 (Nine a b c v e f g h i) r7 r8 r9)"
  using store_cells_upd[of "cells (Nine r1 r2 r3 r4 r5 (Nine a b c d e f g h i) r7 r8 r9)" 48 v]
  by (cases r1; cases r2; cases r3; cases r4; cases r5; cases r7; cases r8; cases r9;
      simp add: store_of_def cells_def squares_eq)

lemma grid_upd_F5:
  "(store_of (Nine r1 r2 r3 r4 r5 (Nine a b c d e f g h i) r7 r8 r9))(''F5'' := v) =
     store_of (Nine r1 r2 r3 r4 r5 (Nine a b c d v f g h i) r7 r8 r9)"
  using store_cells_upd[of "cells (Nine r1 r2 r3 r4 r5 (Nine a b c d e f g h i) r7 r8 r9)" 49 v]
  by (cases r1; cases r2; cases r3; cases r4; cases r5; cases r7; cases r8; cases r9;
      simp add: store_of_def cells_def squares_eq)

lemma grid_upd_F6:
  "(store_of (Nine r1 r2 r3 r4 r5 (Nine a b c d e f g h i) r7 r8 r9))(''F6'' := v) =
     store_of (Nine r1 r2 r3 r4 r5 (Nine a b c d e v g h i) r7 r8 r9)"
  using store_cells_upd[of "cells (Nine r1 r2 r3 r4 r5 (Nine a b c d e f g h i) r7 r8 r9)" 50 v]
  by (cases r1; cases r2; cases r3; cases r4; cases r5; cases r7; cases r8; cases r9;
      simp add: store_of_def cells_def squares_eq)

lemma grid_upd_F7:
  "(store_of (Nine r1 r2 r3 r4 r5 (Nine a b c d e f g h i) r7 r8 r9))(''F7'' := v) =
     store_of (Nine r1 r2 r3 r4 r5 (Nine a b c d e f v h i) r7 r8 r9)"
  using store_cells_upd[of "cells (Nine r1 r2 r3 r4 r5 (Nine a b c d e f g h i) r7 r8 r9)" 51 v]
  by (cases r1; cases r2; cases r3; cases r4; cases r5; cases r7; cases r8; cases r9;
      simp add: store_of_def cells_def squares_eq)

lemma grid_upd_F8:
  "(store_of (Nine r1 r2 r3 r4 r5 (Nine a b c d e f g h i) r7 r8 r9))(''F8'' := v) =
     store_of (Nine r1 r2 r3 r4 r5 (Nine a b c d e f g v i) r7 r8 r9)"
  using store_cells_upd[of "cells (Nine r1 r2 r3 r4 r5 (Nine a b c d e f g h i) r7 r8 r9)" 52 v]
  by (cases r1; cases r2; cases r3; cases r4; cases r5; cases r7; cases r8; cases r9;
      simp add: store_of_def cells_def squares_eq)

lemma grid_upd_F9:
  "(store_of (Nine r1 r2 r3 r4 r5 (Nine a b c d e f g h i) r7 r8 r9))(''F9'' := v) =
     store_of (Nine r1 r2 r3 r4 r5 (Nine a b c d e f g h v) r7 r8 r9)"
  using store_cells_upd[of "cells (Nine r1 r2 r3 r4 r5 (Nine a b c d e f g h i) r7 r8 r9)" 53 v]
  by (cases r1; cases r2; cases r3; cases r4; cases r5; cases r7; cases r8; cases r9;
      simp add: store_of_def cells_def squares_eq)

lemma grid_upd_G1:
  "(store_of (Nine r1 r2 r3 r4 r5 r6 (Nine a b c d e f g h i) r8 r9))(''G1'' := v) =
     store_of (Nine r1 r2 r3 r4 r5 r6 (Nine v b c d e f g h i) r8 r9)"
  using store_cells_upd[of "cells (Nine r1 r2 r3 r4 r5 r6 (Nine a b c d e f g h i) r8 r9)" 54 v]
  by (cases r1; cases r2; cases r3; cases r4; cases r5; cases r6; cases r8; cases r9;
      simp add: store_of_def cells_def squares_eq)

lemma grid_upd_G2:
  "(store_of (Nine r1 r2 r3 r4 r5 r6 (Nine a b c d e f g h i) r8 r9))(''G2'' := v) =
     store_of (Nine r1 r2 r3 r4 r5 r6 (Nine a v c d e f g h i) r8 r9)"
  using store_cells_upd[of "cells (Nine r1 r2 r3 r4 r5 r6 (Nine a b c d e f g h i) r8 r9)" 55 v]
  by (cases r1; cases r2; cases r3; cases r4; cases r5; cases r6; cases r8; cases r9;
      simp add: store_of_def cells_def squares_eq)

lemma grid_upd_G3:
  "(store_of (Nine r1 r2 r3 r4 r5 r6 (Nine a b c d e f g h i) r8 r9))(''G3'' := v) =
     store_of (Nine r1 r2 r3 r4 r5 r6 (Nine a b v d e f g h i) r8 r9)"
  using store_cells_upd[of "cells (Nine r1 r2 r3 r4 r5 r6 (Nine a b c d e f g h i) r8 r9)" 56 v]
  by (cases r1; cases r2; cases r3; cases r4; cases r5; cases r6; cases r8; cases r9;
      simp add: store_of_def cells_def squares_eq)

lemma grid_upd_G4:
  "(store_of (Nine r1 r2 r3 r4 r5 r6 (Nine a b c d e f g h i) r8 r9))(''G4'' := v) =
     store_of (Nine r1 r2 r3 r4 r5 r6 (Nine a b c v e f g h i) r8 r9)"
  using store_cells_upd[of "cells (Nine r1 r2 r3 r4 r5 r6 (Nine a b c d e f g h i) r8 r9)" 57 v]
  by (cases r1; cases r2; cases r3; cases r4; cases r5; cases r6; cases r8; cases r9;
      simp add: store_of_def cells_def squares_eq)

lemma grid_upd_G5:
  "(store_of (Nine r1 r2 r3 r4 r5 r6 (Nine a b c d e f g h i) r8 r9))(''G5'' := v) =
     store_of (Nine r1 r2 r3 r4 r5 r6 (Nine a b c d v f g h i) r8 r9)"
  using store_cells_upd[of "cells (Nine r1 r2 r3 r4 r5 r6 (Nine a b c d e f g h i) r8 r9)" 58 v]
  by (cases r1; cases r2; cases r3; cases r4; cases r5; cases r6; cases r8; cases r9;
      simp add: store_of_def cells_def squares_eq)

lemma grid_upd_G6:
  "(store_of (Nine r1 r2 r3 r4 r5 r6 (Nine a b c d e f g h i) r8 r9))(''G6'' := v) =
     store_of (Nine r1 r2 r3 r4 r5 r6 (Nine a b c d e v g h i) r8 r9)"
  using store_cells_upd[of "cells (Nine r1 r2 r3 r4 r5 r6 (Nine a b c d e f g h i) r8 r9)" 59 v]
  by (cases r1; cases r2; cases r3; cases r4; cases r5; cases r6; cases r8; cases r9;
      simp add: store_of_def cells_def squares_eq)

lemma grid_upd_G7:
  "(store_of (Nine r1 r2 r3 r4 r5 r6 (Nine a b c d e f g h i) r8 r9))(''G7'' := v) =
     store_of (Nine r1 r2 r3 r4 r5 r6 (Nine a b c d e f v h i) r8 r9)"
  using store_cells_upd[of "cells (Nine r1 r2 r3 r4 r5 r6 (Nine a b c d e f g h i) r8 r9)" 60 v]
  by (cases r1; cases r2; cases r3; cases r4; cases r5; cases r6; cases r8; cases r9;
      simp add: store_of_def cells_def squares_eq)

lemma grid_upd_G8:
  "(store_of (Nine r1 r2 r3 r4 r5 r6 (Nine a b c d e f g h i) r8 r9))(''G8'' := v) =
     store_of (Nine r1 r2 r3 r4 r5 r6 (Nine a b c d e f g v i) r8 r9)"
  using store_cells_upd[of "cells (Nine r1 r2 r3 r4 r5 r6 (Nine a b c d e f g h i) r8 r9)" 61 v]
  by (cases r1; cases r2; cases r3; cases r4; cases r5; cases r6; cases r8; cases r9;
      simp add: store_of_def cells_def squares_eq)

lemma grid_upd_G9:
  "(store_of (Nine r1 r2 r3 r4 r5 r6 (Nine a b c d e f g h i) r8 r9))(''G9'' := v) =
     store_of (Nine r1 r2 r3 r4 r5 r6 (Nine a b c d e f g h v) r8 r9)"
  using store_cells_upd[of "cells (Nine r1 r2 r3 r4 r5 r6 (Nine a b c d e f g h i) r8 r9)" 62 v]
  by (cases r1; cases r2; cases r3; cases r4; cases r5; cases r6; cases r8; cases r9;
      simp add: store_of_def cells_def squares_eq)

lemma grid_upd_H1:
  "(store_of (Nine r1 r2 r3 r4 r5 r6 r7 (Nine a b c d e f g h i) r9))(''H1'' := v) =
     store_of (Nine r1 r2 r3 r4 r5 r6 r7 (Nine v b c d e f g h i) r9)"
  using store_cells_upd[of "cells (Nine r1 r2 r3 r4 r5 r6 r7 (Nine a b c d e f g h i) r9)" 63 v]
  by (cases r1; cases r2; cases r3; cases r4; cases r5; cases r6; cases r7; cases r9;
      simp add: store_of_def cells_def squares_eq)

lemma grid_upd_H2:
  "(store_of (Nine r1 r2 r3 r4 r5 r6 r7 (Nine a b c d e f g h i) r9))(''H2'' := v) =
     store_of (Nine r1 r2 r3 r4 r5 r6 r7 (Nine a v c d e f g h i) r9)"
  using store_cells_upd[of "cells (Nine r1 r2 r3 r4 r5 r6 r7 (Nine a b c d e f g h i) r9)" 64 v]
  by (cases r1; cases r2; cases r3; cases r4; cases r5; cases r6; cases r7; cases r9;
      simp add: store_of_def cells_def squares_eq)

lemma grid_upd_H3:
  "(store_of (Nine r1 r2 r3 r4 r5 r6 r7 (Nine a b c d e f g h i) r9))(''H3'' := v) =
     store_of (Nine r1 r2 r3 r4 r5 r6 r7 (Nine a b v d e f g h i) r9)"
  using store_cells_upd[of "cells (Nine r1 r2 r3 r4 r5 r6 r7 (Nine a b c d e f g h i) r9)" 65 v]
  by (cases r1; cases r2; cases r3; cases r4; cases r5; cases r6; cases r7; cases r9;
      simp add: store_of_def cells_def squares_eq)

lemma grid_upd_H4:
  "(store_of (Nine r1 r2 r3 r4 r5 r6 r7 (Nine a b c d e f g h i) r9))(''H4'' := v) =
     store_of (Nine r1 r2 r3 r4 r5 r6 r7 (Nine a b c v e f g h i) r9)"
  using store_cells_upd[of "cells (Nine r1 r2 r3 r4 r5 r6 r7 (Nine a b c d e f g h i) r9)" 66 v]
  by (cases r1; cases r2; cases r3; cases r4; cases r5; cases r6; cases r7; cases r9;
      simp add: store_of_def cells_def squares_eq)

lemma grid_upd_H5:
  "(store_of (Nine r1 r2 r3 r4 r5 r6 r7 (Nine a b c d e f g h i) r9))(''H5'' := v) =
     store_of (Nine r1 r2 r3 r4 r5 r6 r7 (Nine a b c d v f g h i) r9)"
  using store_cells_upd[of "cells (Nine r1 r2 r3 r4 r5 r6 r7 (Nine a b c d e f g h i) r9)" 67 v]
  by (cases r1; cases r2; cases r3; cases r4; cases r5; cases r6; cases r7; cases r9;
      simp add: store_of_def cells_def squares_eq)

lemma grid_upd_H6:
  "(store_of (Nine r1 r2 r3 r4 r5 r6 r7 (Nine a b c d e f g h i) r9))(''H6'' := v) =
     store_of (Nine r1 r2 r3 r4 r5 r6 r7 (Nine a b c d e v g h i) r9)"
  using store_cells_upd[of "cells (Nine r1 r2 r3 r4 r5 r6 r7 (Nine a b c d e f g h i) r9)" 68 v]
  by (cases r1; cases r2; cases r3; cases r4; cases r5; cases r6; cases r7; cases r9;
      simp add: store_of_def cells_def squares_eq)

lemma grid_upd_H7:
  "(store_of (Nine r1 r2 r3 r4 r5 r6 r7 (Nine a b c d e f g h i) r9))(''H7'' := v) =
     store_of (Nine r1 r2 r3 r4 r5 r6 r7 (Nine a b c d e f v h i) r9)"
  using store_cells_upd[of "cells (Nine r1 r2 r3 r4 r5 r6 r7 (Nine a b c d e f g h i) r9)" 69 v]
  by (cases r1; cases r2; cases r3; cases r4; cases r5; cases r6; cases r7; cases r9;
      simp add: store_of_def cells_def squares_eq)

lemma grid_upd_H8:
  "(store_of (Nine r1 r2 r3 r4 r5 r6 r7 (Nine a b c d e f g h i) r9))(''H8'' := v) =
     store_of (Nine r1 r2 r3 r4 r5 r6 r7 (Nine a b c d e f g v i) r9)"
  using store_cells_upd[of "cells (Nine r1 r2 r3 r4 r5 r6 r7 (Nine a b c d e f g h i) r9)" 70 v]
  by (cases r1; cases r2; cases r3; cases r4; cases r5; cases r6; cases r7; cases r9;
      simp add: store_of_def cells_def squares_eq)

lemma grid_upd_H9:
  "(store_of (Nine r1 r2 r3 r4 r5 r6 r7 (Nine a b c d e f g h i) r9))(''H9'' := v) =
     store_of (Nine r1 r2 r3 r4 r5 r6 r7 (Nine a b c d e f g h v) r9)"
  using store_cells_upd[of "cells (Nine r1 r2 r3 r4 r5 r6 r7 (Nine a b c d e f g h i) r9)" 71 v]
  by (cases r1; cases r2; cases r3; cases r4; cases r5; cases r6; cases r7; cases r9;
      simp add: store_of_def cells_def squares_eq)

lemma grid_upd_I1:
  "(store_of (Nine r1 r2 r3 r4 r5 r6 r7 r8 (Nine a b c d e f g h i)))(''I1'' := v) =
     store_of (Nine r1 r2 r3 r4 r5 r6 r7 r8 (Nine v b c d e f g h i))"
  using store_cells_upd[of "cells (Nine r1 r2 r3 r4 r5 r6 r7 r8 (Nine a b c d e f g h i))" 72 v]
  by (cases r1; cases r2; cases r3; cases r4; cases r5; cases r6; cases r7; cases r8;
      simp add: store_of_def cells_def squares_eq)

lemma grid_upd_I2:
  "(store_of (Nine r1 r2 r3 r4 r5 r6 r7 r8 (Nine a b c d e f g h i)))(''I2'' := v) =
     store_of (Nine r1 r2 r3 r4 r5 r6 r7 r8 (Nine a v c d e f g h i))"
  using store_cells_upd[of "cells (Nine r1 r2 r3 r4 r5 r6 r7 r8 (Nine a b c d e f g h i))" 73 v]
  by (cases r1; cases r2; cases r3; cases r4; cases r5; cases r6; cases r7; cases r8;
      simp add: store_of_def cells_def squares_eq)

lemma grid_upd_I3:
  "(store_of (Nine r1 r2 r3 r4 r5 r6 r7 r8 (Nine a b c d e f g h i)))(''I3'' := v) =
     store_of (Nine r1 r2 r3 r4 r5 r6 r7 r8 (Nine a b v d e f g h i))"
  using store_cells_upd[of "cells (Nine r1 r2 r3 r4 r5 r6 r7 r8 (Nine a b c d e f g h i))" 74 v]
  by (cases r1; cases r2; cases r3; cases r4; cases r5; cases r6; cases r7; cases r8;
      simp add: store_of_def cells_def squares_eq)

lemma grid_upd_I4:
  "(store_of (Nine r1 r2 r3 r4 r5 r6 r7 r8 (Nine a b c d e f g h i)))(''I4'' := v) =
     store_of (Nine r1 r2 r3 r4 r5 r6 r7 r8 (Nine a b c v e f g h i))"
  using store_cells_upd[of "cells (Nine r1 r2 r3 r4 r5 r6 r7 r8 (Nine a b c d e f g h i))" 75 v]
  by (cases r1; cases r2; cases r3; cases r4; cases r5; cases r6; cases r7; cases r8;
      simp add: store_of_def cells_def squares_eq)

lemma grid_upd_I5:
  "(store_of (Nine r1 r2 r3 r4 r5 r6 r7 r8 (Nine a b c d e f g h i)))(''I5'' := v) =
     store_of (Nine r1 r2 r3 r4 r5 r6 r7 r8 (Nine a b c d v f g h i))"
  using store_cells_upd[of "cells (Nine r1 r2 r3 r4 r5 r6 r7 r8 (Nine a b c d e f g h i))" 76 v]
  by (cases r1; cases r2; cases r3; cases r4; cases r5; cases r6; cases r7; cases r8;
      simp add: store_of_def cells_def squares_eq)

lemma grid_upd_I6:
  "(store_of (Nine r1 r2 r3 r4 r5 r6 r7 r8 (Nine a b c d e f g h i)))(''I6'' := v) =
     store_of (Nine r1 r2 r3 r4 r5 r6 r7 r8 (Nine a b c d e v g h i))"
  using store_cells_upd[of "cells (Nine r1 r2 r3 r4 r5 r6 r7 r8 (Nine a b c d e f g h i))" 77 v]
  by (cases r1; cases r2; cases r3; cases r4; cases r5; cases r6; cases r7; cases r8;
      simp add: store_of_def cells_def squares_eq)

lemma grid_upd_I7:
  "(store_of (Nine r1 r2 r3 r4 r5 r6 r7 r8 (Nine a b c d e f g h i)))(''I7'' := v) =
     store_of (Nine r1 r2 r3 r4 r5 r6 r7 r8 (Nine a b c d e f v h i))"
  using store_cells_upd[of "cells (Nine r1 r2 r3 r4 r5 r6 r7 r8 (Nine a b c d e f g h i))" 78 v]
  by (cases r1; cases r2; cases r3; cases r4; cases r5; cases r6; cases r7; cases r8;
      simp add: store_of_def cells_def squares_eq)

lemma grid_upd_I8:
  "(store_of (Nine r1 r2 r3 r4 r5 r6 r7 r8 (Nine a b c d e f g h i)))(''I8'' := v) =
     store_of (Nine r1 r2 r3 r4 r5 r6 r7 r8 (Nine a b c d e f g v i))"
  using store_cells_upd[of "cells (Nine r1 r2 r3 r4 r5 r6 r7 r8 (Nine a b c d e f g h i))" 79 v]
  by (cases r1; cases r2; cases r3; cases r4; cases r5; cases r6; cases r7; cases r8;
      simp add: store_of_def cells_def squares_eq)

lemma grid_upd_I9:
  "(store_of (Nine r1 r2 r3 r4 r5 r6 r7 r8 (Nine a b c d e f g h i)))(''I9'' := v) =
     store_of (Nine r1 r2 r3 r4 r5 r6 r7 r8 (Nine a b c d e f g h v))"
  using store_cells_upd[of "cells (Nine r1 r2 r3 r4 r5 r6 r7 r8 (Nine a b c d e f g h i))" 80 v]
  by (cases r1; cases r2; cases r3; cases r4; cases r5; cases r6; cases r7; cases r8;
      simp add: store_of_def cells_def squares_eq)

lemmas grid_upd =
  grid_upd_A1 grid_upd_A2 grid_upd_A3 grid_upd_A4 grid_upd_A5 grid_upd_A6 grid_upd_A7 grid_upd_A8 grid_upd_A9
  grid_upd_B1 grid_upd_B2 grid_upd_B3 grid_upd_B4 grid_upd_B5 grid_upd_B6 grid_upd_B7 grid_upd_B8 grid_upd_B9
  grid_upd_C1 grid_upd_C2 grid_upd_C3 grid_upd_C4 grid_upd_C5 grid_upd_C6 grid_upd_C7 grid_upd_C8 grid_upd_C9
  grid_upd_D1 grid_upd_D2 grid_upd_D3 grid_upd_D4 grid_upd_D5 grid_upd_D6 grid_upd_D7 grid_upd_D8 grid_upd_D9
  grid_upd_E1 grid_upd_E2 grid_upd_E3 grid_upd_E4 grid_upd_E5 grid_upd_E6 grid_upd_E7 grid_upd_E8 grid_upd_E9
  grid_upd_F1 grid_upd_F2 grid_upd_F3 grid_upd_F4 grid_upd_F5 grid_upd_F6 grid_upd_F7 grid_upd_F8 grid_upd_F9
  grid_upd_G1 grid_upd_G2 grid_upd_G3 grid_upd_G4 grid_upd_G5 grid_upd_G6 grid_upd_G7 grid_upd_G8 grid_upd_G9
  grid_upd_H1 grid_upd_H2 grid_upd_H3 grid_upd_H4 grid_upd_H5 grid_upd_H6 grid_upd_H7 grid_upd_H8 grid_upd_H9
  grid_upd_I1 grid_upd_I2 grid_upd_I3 grid_upd_I4 grid_upd_I5 grid_upd_I6 grid_upd_I7 grid_upd_I8 grid_upd_I9

lemma char_eq:
  "(CHR ''1'' = CHR ''1'') = True"
  "(CHR ''1'' = CHR ''2'') = False"
  "(CHR ''1'' = CHR ''3'') = False"
  "(CHR ''1'' = CHR ''4'') = False"
  "(CHR ''1'' = CHR ''5'') = False"
  "(CHR ''1'' = CHR ''6'') = False"
  "(CHR ''1'' = CHR ''7'') = False"
  "(CHR ''1'' = CHR ''8'') = False"
  "(CHR ''1'' = CHR ''9'') = False"
  "(CHR ''2'' = CHR ''1'') = False"
  "(CHR ''2'' = CHR ''2'') = True"
  "(CHR ''2'' = CHR ''3'') = False"
  "(CHR ''2'' = CHR ''4'') = False"
  "(CHR ''2'' = CHR ''5'') = False"
  "(CHR ''2'' = CHR ''6'') = False"
  "(CHR ''2'' = CHR ''7'') = False"
  "(CHR ''2'' = CHR ''8'') = False"
  "(CHR ''2'' = CHR ''9'') = False"
  "(CHR ''3'' = CHR ''1'') = False"
  "(CHR ''3'' = CHR ''2'') = False"
  "(CHR ''3'' = CHR ''3'') = True"
  "(CHR ''3'' = CHR ''4'') = False"
  "(CHR ''3'' = CHR ''5'') = False"
  "(CHR ''3'' = CHR ''6'') = False"
  "(CHR ''3'' = CHR ''7'') = False"
  "(CHR ''3'' = CHR ''8'') = False"
  "(CHR ''3'' = CHR ''9'') = False"
  "(CHR ''4'' = CHR ''1'') = False"
  "(CHR ''4'' = CHR ''2'') = False"
  "(CHR ''4'' = CHR ''3'') = False"
  "(CHR ''4'' = CHR ''4'') = True"
  "(CHR ''4'' = CHR ''5'') = False"
  "(CHR ''4'' = CHR ''6'') = False"
  "(CHR ''4'' = CHR ''7'') = False"
  "(CHR ''4'' = CHR ''8'') = False"
  "(CHR ''4'' = CHR ''9'') = False"
  "(CHR ''5'' = CHR ''1'') = False"
  "(CHR ''5'' = CHR ''2'') = False"
  "(CHR ''5'' = CHR ''3'') = False"
  "(CHR ''5'' = CHR ''4'') = False"
  "(CHR ''5'' = CHR ''5'') = True"
  "(CHR ''5'' = CHR ''6'') = False"
  "(CHR ''5'' = CHR ''7'') = False"
  "(CHR ''5'' = CHR ''8'') = False"
  "(CHR ''5'' = CHR ''9'') = False"
  "(CHR ''6'' = CHR ''1'') = False"
  "(CHR ''6'' = CHR ''2'') = False"
  "(CHR ''6'' = CHR ''3'') = False"
  "(CHR ''6'' = CHR ''4'') = False"
  "(CHR ''6'' = CHR ''5'') = False"
  "(CHR ''6'' = CHR ''6'') = True"
  "(CHR ''6'' = CHR ''7'') = False"
  "(CHR ''6'' = CHR ''8'') = False"
  "(CHR ''6'' = CHR ''9'') = False"
  "(CHR ''7'' = CHR ''1'') = False"
  "(CHR ''7'' = CHR ''2'') = False"
  "(CHR ''7'' = CHR ''3'') = False"
  "(CHR ''7'' = CHR ''4'') = False"
  "(CHR ''7'' = CHR ''5'') = False"
  "(CHR ''7'' = CHR ''6'') = False"
  "(CHR ''7'' = CHR ''7'') = True"
  "(CHR ''7'' = CHR ''8'') = False"
  "(CHR ''7'' = CHR ''9'') = False"
  "(CHR ''8'' = CHR ''1'') = False"
  "(CHR ''8'' = CHR ''2'') = False"
  "(CHR ''8'' = CHR ''3'') = False"
  "(CHR ''8'' = CHR ''4'') = False"
  "(CHR ''8'' = CHR ''5'') = False"
  "(CHR ''8'' = CHR ''6'') = False"
  "(CHR ''8'' = CHR ''7'') = False"
  "(CHR ''8'' = CHR ''8'') = True"
  "(CHR ''8'' = CHR ''9'') = False"
  "(CHR ''9'' = CHR ''1'') = False"
  "(CHR ''9'' = CHR ''2'') = False"
  "(CHR ''9'' = CHR ''3'') = False"
  "(CHR ''9'' = CHR ''4'') = False"
  "(CHR ''9'' = CHR ''5'') = False"
  "(CHR ''9'' = CHR ''6'') = False"
  "(CHR ''9'' = CHR ''7'') = False"
  "(CHR ''9'' = CHR ''8'') = False"
  "(CHR ''9'' = CHR ''9'') = True"
  "(CHR ''.'' = CHR ''1'') = False"
  "(CHR ''.'' = CHR ''2'') = False"
  "(CHR ''.'' = CHR ''3'') = False"
  "(CHR ''.'' = CHR ''4'') = False"
  "(CHR ''.'' = CHR ''5'') = False"
  "(CHR ''.'' = CHR ''6'') = False"
  "(CHR ''.'' = CHR ''7'') = False"
  "(CHR ''.'' = CHR ''8'') = False"
  "(CHR ''.'' = CHR ''9'') = False"
  by simp_all

lemma store_of_cong: "store_of g = store_of g"
  by (rule refl)

lemma is_in_simps: "is_in v [] = False" "is_in v (x # xs) = (if v = x then True else is_in v xs)"
  by (auto simp: is_in_def)

lemma len_rules: "length [] = 0" "length (x # xs) = Suc (length xs)" "(Suc m = Suc n) = (m = n)"
  "(Suc m = 0) = False" "(0 = Suc m) = False" "1 = Suc 0" "hd (x # xs) = x"
  by simp_all

lemmas eval_rules = assign.simps assign_loop.simps eliminate.simps eliminate_peers.simps
  eliminate_units.simps get_val_places.simps assign_givens.simps
  is_in_simps char_eq grid_look grid_upd units_tab peers_tab remove1.simps prod.case
  if_True if_False not_True_eq_False not_False_eq_True simp_thms(1-20) Let_def len_rules
  fst_conv snd_conv DIGITS_def

lemmas eval_congs = store_of_cong if_weak_cong prod.case_cong_weak let_weak_cong


section \<open>The classic puzzle\<close>

text \<open>
  The store of a blank board and the store the classic puzzle is propagated to:
  assigning its 32 givens leaves one candidate at every square.
\<close>

definition blank_grid :: "string nine nine" where
  "blank_grid = (Nine (Nine ''123456789'' ''123456789'' ''123456789'' ''123456789'' ''123456789''
    ''123456789'' ''123456789'' ''123456789'' ''123456789'') (Nine ''123456789'' ''123456789''
    ''123456789'' ''123456789'' ''123456789'' ''123456789'' ''123456789'' ''123456789''
    ''123456789'') (Nine ''123456789'' ''123456789'' ''123456789'' ''123456789'' ''123456789''
    ''123456789'' ''123456789'' ''123456789'' ''123456789'') (Nine ''123456789'' ''123456789''
    ''123456789'' ''123456789'' ''123456789'' ''123456789'' ''123456789'' ''123456789''
    ''123456789'') (Nine ''123456789'' ''123456789'' ''123456789'' ''123456789'' ''123456789''
    ''123456789'' ''123456789'' ''123456789'' ''123456789'') (Nine ''123456789'' ''123456789''
    ''123456789'' ''123456789'' ''123456789'' ''123456789'' ''123456789'' ''123456789''
    ''123456789'') (Nine ''123456789'' ''123456789'' ''123456789'' ''123456789'' ''123456789''
    ''123456789'' ''123456789'' ''123456789'' ''123456789'') (Nine ''123456789'' ''123456789''
    ''123456789'' ''123456789'' ''123456789'' ''123456789'' ''123456789'' ''123456789''
    ''123456789'') (Nine ''123456789'' ''123456789'' ''123456789'' ''123456789'' ''123456789''
    ''123456789'' ''123456789'' ''123456789'' ''123456789''))"

definition classic_solved_grid :: "string nine nine" where
  "classic_solved_grid = (Nine (Nine ''4'' ''8'' ''3'' ''9'' ''2'' ''1'' ''6'' ''5'' ''7'') (Nine
    ''9'' ''6'' ''7'' ''3'' ''4'' ''5'' ''8'' ''2'' ''1'') (Nine ''2'' ''5'' ''1'' ''8'' ''7''
    ''6'' ''4'' ''9'' ''3'') (Nine ''5'' ''4'' ''8'' ''1'' ''3'' ''2'' ''9'' ''7'' ''6'') (Nine
    ''7'' ''2'' ''9'' ''5'' ''6'' ''4'' ''1'' ''3'' ''8'') (Nine ''1'' ''3'' ''6'' ''7'' ''9''
    ''8'' ''2'' ''4'' ''5'') (Nine ''3'' ''7'' ''2'' ''6'' ''8'' ''9'' ''5'' ''1'' ''4'') (Nine
    ''8'' ''1'' ''4'' ''2'' ''5'' ''3'' ''7'' ''6'' ''9'') (Nine ''6'' ''9'' ''5'' ''4'' ''1''
    ''7'' ''3'' ''8'' ''2''))"

lemma zip_classic: "zip squares classic_puzzle = [(''A1'', CHR ''.''), (''A2'', CHR ''.''),
  (''A3'', CHR ''3''), (''A4'', CHR ''.''), (''A5'', CHR ''2''), (''A6'', CHR ''.''), (''A7'', CHR
  ''6''), (''A8'', CHR ''.''), (''A9'', CHR ''.''), (''B1'', CHR ''9''), (''B2'', CHR ''.''),
  (''B3'', CHR ''.''), (''B4'', CHR ''3''), (''B5'', CHR ''.''), (''B6'', CHR ''5''), (''B7'', CHR
  ''.''), (''B8'', CHR ''.''), (''B9'', CHR ''1''), (''C1'', CHR ''.''), (''C2'', CHR ''.''),
  (''C3'', CHR ''1''), (''C4'', CHR ''8''), (''C5'', CHR ''.''), (''C6'', CHR ''6''), (''C7'', CHR
  ''4''), (''C8'', CHR ''.''), (''C9'', CHR ''.''), (''D1'', CHR ''.''), (''D2'', CHR ''.''),
  (''D3'', CHR ''8''), (''D4'', CHR ''1''), (''D5'', CHR ''.''), (''D6'', CHR ''2''), (''D7'', CHR
  ''9''), (''D8'', CHR ''.''), (''D9'', CHR ''.''), (''E1'', CHR ''7''), (''E2'', CHR ''.''),
  (''E3'', CHR ''.''), (''E4'', CHR ''.''), (''E5'', CHR ''.''), (''E6'', CHR ''.''), (''E7'', CHR
  ''.''), (''E8'', CHR ''.''), (''E9'', CHR ''8''), (''F1'', CHR ''.''), (''F2'', CHR ''.''),
  (''F3'', CHR ''6''), (''F4'', CHR ''7''), (''F5'', CHR ''.''), (''F6'', CHR ''8''), (''F7'', CHR
  ''2''), (''F8'', CHR ''.''), (''F9'', CHR ''.''), (''G1'', CHR ''.''), (''G2'', CHR ''.''),
  (''G3'', CHR ''2''), (''G4'', CHR ''6''), (''G5'', CHR ''.''), (''G6'', CHR ''9''), (''G7'', CHR
  ''5''), (''G8'', CHR ''.''), (''G9'', CHR ''.''), (''H1'', CHR ''8''), (''H2'', CHR ''.''),
  (''H3'', CHR ''.''), (''H4'', CHR ''2''), (''H5'', CHR ''.''), (''H6'', CHR ''3''), (''H7'', CHR
  ''.''), (''H8'', CHR ''.''), (''H9'', CHR ''9''), (''I1'', CHR ''.''), (''I2'', CHR ''.''),
  (''I3'', CHR ''5''), (''I4'', CHR ''.''), (''I5'', CHR ''1''), (''I6'', CHR ''.''), (''I7'', CHR
  ''3''), (''I8'', CHR ''.''), (''I9'', CHR ''.'')]"
  by (simp add: squares_eq classic_puzzle_def)

lemma seed_classic:
  "assign_givens (store_of blank_grid) (zip squares classic_puzzle) =
     Some (store_of classic_solved_grid)"
  unfolding zip_classic blank_grid_def classic_solved_grid_def
  by (simp only: eval_rules cong: eval_congs)

lemma all_digits_apply: "all_digits sqs sq = (if sq \<in> set sqs then DIGITS else [])"
  unfolding all_digits_def by (induction sqs rule: rev_induct) auto

lemma map_of_zip_replicate:
  "map_of (zip ks (replicate (length ks) v)) k = (if k \<in> set ks then Some v else None)"
  by (induction ks) auto

lemma cells_blank_grid: "cells blank_grid = replicate (length squares) DIGITS"
  by (simp add: blank_grid_def cells_def length_squares DIGITS_def eval_nat_numeral)

lemma all_digits_squares: "all_digits squares = store_of blank_grid"
  by (rule ext)
     (simp add: all_digits_apply store_of_def store_cells_def cells_blank_grid map_of_zip_replicate)

lemma max_nr_candidates_single:
  "\<forall>sq \<in> set sqs. length (cands sq) = 1 \<Longrightarrow> sqs \<noteq> [] \<or> max_nr
    = 1 \<Longrightarrow> max_nr \<le> 1 \<Longrightarrow>
   max_nr_candidates cands sqs max_nr = 1"
  by (induction sqs arbitrary: max_nr) auto

lemma classic_solved_single: "\<forall>sq \<in> set squares. length (store_of classic_solved_grid sq) = 1"
  unfolding squares_eq classic_solved_grid_def by (simp add: grid_look)

lemma solution_of_classic: "solution_of (store_of classic_solved_grid) =
  ''483921657967345821251876493548132976729564138136798245372689514814253769695417382''"
  unfolding solution_of_def squares_eq classic_solved_grid_def 
  by (simp add: grid_look)

lemma search_solved:
  "max_nr_candidates cands squares 0 = 1 \<Longrightarrow> search [cands] (Some 0) reverse = (Inr (Some 0), [cands])"
  by (simp add: search.simps)

lemma validate_classic: "validate_board (Some classic_puzzle) = Inr True"
  by (simp add: validate_board_valid_iff classic_puzzle_def is_in_def DIGITS_def BLANK_CHAR_def)

lemma nr_givens_classic: "nr_givens_of classic_puzzle = 32"
  by (simp add: nr_givens_of_def classic_puzzle_def is_in_def DIGITS_def BLANK_CHAR_def)

lemma get_candidates_map_classic:
  "get_candidates_map classic_puzzle = Inr (Some (store_of classic_solved_grid))"
  by (simp add: get_candidates_map_def validate_classic get_square_vals_map_def length_squares
      all_digits_squares seed_classic classic_puzzle_def[THEN arg_cong[of _ _ length]])

lemma squares_nonempty: "squares \<noteq> []"
  using length_squares by auto

text \<open>
  C1, as stated, passes \<open>solve\<close> the classic board with \<open>0\<close> at the empty
  squares. \<open>validate_board\<close>, the first call of \<open>solve\<close>, accepts the digits 1 to 9
  and the blank marker \<open>.\<close> only: on this board \<open>solve\<close> throws
  \<open>ERR_BOARD_CHARACTER_INVALID\<close> and returns no solution, whichever way it
  searches.
\<close>

theorem solve_zeros_board_rejected:
  "solve ''003020600900305001001806400008102900700000008006708200002609500800203009005010300''
     False = Inl ERR_BOARD_CHARACTER_INVALID \<and>
   solve ''003020600900305001001806400008102900700000008006708200002609500800203009005010300''
     True = Inl ERR_BOARD_CHARACTER_INVALID"
  by (simp add: solve_def validate_board_def NR_SQUARES_def is_in_def DIGITS_def BLANK_CHAR_def)

text \<open>
  C1, amended: on the classic board with the blank marker \<open>.\<close> in the place of
  every \<open>0\<close>, \<open>solve\<close> with \<open>reverse\<close> false returns the solution string
  \<open>483921657967345821251876493548132976729564138136798245372689514814253769695417382\<close>.
\<close>

theorem solve_classic_puzzle:
  "solve (map (\<lambda>char. if char = CHR ''0'' then BLANK_CHAR else char)
       ''003020600900305001001806400008102900700000008006708200002609500800203009005010300'')
     False =
   Inr (Some ''483921657967345821251876493548132976729564138136798245372689514814253769695417382'')"
proof -
  have board: "map (\<lambda>char. if char = CHR ''0'' then BLANK_CHAR else char)
       ''003020600900305001001806400008102900700000008006708200002609500800203009005010300'' =
     classic_puzzle"
    by (simp add: classic_puzzle_def BLANK_CHAR_def)
  have "max_nr_candidates (store_of classic_solved_grid) squares 0 = 1"
    using classic_solved_single squares_nonempty by (simp add: max_nr_candidates_single)
  then have "search [store_of classic_solved_grid] (Some 0) False =
               (Inr (Some 0), [store_of classic_solved_grid])"
    by (rule search_solved)
  then show ?thesis
    unfolding board
    by (simp add: solve_def validate_classic nr_givens_classic MIN_GIVENS_def
        get_candidates_map_classic solution_of_classic)
qed

section \<open>A solved board is its own solution\<close>

text \<open>
  \<open>board_val\<close> is the character of a board at a square, as \<open>_get_square_vals_map\<close>
  pairs them. A store is consistent with a filling \<open>sol\<close> of the squares when, at
  every square, the value of \<open>sol\<close> is among the candidates, which are digits, each
  once. When no square has the value of one of its peers and every unit has every
  digit, \<open>_assign\<close> of the value of \<open>sol\<close> and \<open>_eliminate\<close> of any other value
  succeed and keep the store consistent.
\<close>

definition board_val :: "string \<Rightarrow> square \<Rightarrow> char" where
  "board_val board sq = (case map_of (zip squares board) sq of Some val \<Rightarrow> val | None \<Rightarrow> BLANK_CHAR)"

definition consistent :: "(square \<Rightarrow> char) \<Rightarrow> candidates \<Rightarrow> bool" where
  "consistent sol cands =
     (\<forall>q \<in> set squares. sol q \<in> set (cands q) \<and> distinct (cands q) \<and> set (cands q) \<subseteq> set DIGITS)"

definition latin :: "(square \<Rightarrow> char) \<Rightarrow> bool" where
  "latin sol =
     ((\<forall>sq \<in> set squares. \<forall>p \<in> set (square_peers_map sq). sol p \<noteq> sol sq) \<and>
      (\<forall>u \<in> set units. \<forall>d \<in> set DIGITS. \<exists>q \<in> set u. sol q = d))"

lemma consistent_remove1:
  assumes "consistent sol cands" "val \<noteq> sol sq"
  shows "consistent sol (cands(sq := remove1 val (cands sq)))"
  unfolding consistent_def
proof (intro ballI)
  fix q assume q: "q \<in> set squares"
  have c: "sol q \<in> set (cands q)" "distinct (cands q)" "set (cands q) \<subseteq> set DIGITS"
    using assms(1) q unfolding consistent_def by blast+
  show "sol q \<in> set ((cands(sq := remove1 val (cands sq))) q) \<and>
        distinct ((cands(sq := remove1 val (cands sq))) q) \<and>
        set ((cands(sq := remove1 val (cands sq))) q) \<subseteq> set DIGITS"
  proof (cases "q = sq")
    case True
    have "sol sq \<in> set (remove1 val (cands sq))" using c(1) assms(2) True by simp
    moreover have "set (remove1 val (cands sq)) \<subseteq> set DIGITS"
      using c(3) True set_remove1_subset[of val "cands sq"] by blast
    ultimately show ?thesis using c(2) True by simp
  next
    case False
    then show ?thesis using c by simp
  qed
qed

lemma unit_in_squares: "u \<in> set units \<Longrightarrow> set u \<subseteq> set squares"
  using units_sizes unfolding list_all_iff by blast

lemma units_of_square: "sq \<in> set squares \<Longrightarrow> set (square_units_map sq) \<subseteq> set units"
  by (auto simp: set_square_units_map)

lemma peers_in_squares:
  assumes "sq \<in> set squares" shows "set (square_peers_map sq) \<subseteq> set squares"
proof
  fix p assume "p \<in> set (square_peers_map sq)"
  then obtain u where "u \<in> set units" "p \<in> set u"
    using peer_iff[OF assms, of p] by blast
  then show "p \<in> set squares" using unit_in_squares by blast
qed

lemma set_get_val_places:
  "set (get_val_places cands val unit) = {q \<in> set unit. val \<in> set (cands q)}"
  by (induction unit) (auto simp: is_in_def)

lemma distinct_set_singleton: "distinct xs \<Longrightarrow> set xs \<subseteq> {v} \<Longrightarrow> v \<in> set xs \<Longrightarrow> xs = [v]"
proof (cases xs)
  case Nil
  assume "v \<in> set xs" with Nil show ?thesis by simp
next
  case (Cons a as)
  assume d: "distinct xs" and s: "set xs \<subseteq> {v}"
  from s Cons have a: "a = v" by simp
  from s Cons have "set as \<subseteq> {v}" by simp
  moreover from d Cons a have "v \<notin> set as" by simp
  ultimately have "as = []" by (cases as) auto
  with Cons a show ?thesis by simp
qed

lemma shrinks_set: "shrinks c' c \<Longrightarrow> set (c' q) \<subseteq> set (c q)"
  by (simp add: shrinks_def)

lemma keep_solution:
  assumes L: "latin sol"
  shows
    "sq \<in> set squares \<Longrightarrow> consistent sol cands \<Longrightarrow> val = sol sq \<Longrightarrow>
       fst (assign cands sq val) \<and> consistent sol (snd (assign cands sq val)) \<and>
       snd (assign cands sq val) sq = [val]"
    "sq \<in> set squares \<Longrightarrow> consistent sol cands \<Longrightarrow> sol sq \<notin> set ovs \<Longrightarrow>
       fst (assign_loop cands sq ovs) \<and> consistent sol (snd (assign_loop cands sq ovs)) \<and>
       set (snd (assign_loop cands sq ovs) sq) \<inter> set ovs = {}"
    "sq \<in> set squares \<Longrightarrow> consistent sol cands \<Longrightarrow> val \<noteq> sol sq \<Longrightarrow>
       fst (eliminate cands sq val) \<and> consistent sol (snd (eliminate cands sq val)) \<and>
       val \<notin> set (snd (eliminate cands sq val) sq)"
    "set ps \<subseteq> set squares \<Longrightarrow> consistent sol cands \<Longrightarrow> \<forall>p \<in> set ps. sol p \<noteq> tv \<Longrightarrow>
       fst (eliminate_peers cands ps tv) \<and> consistent sol (snd (eliminate_peers cands ps tv))"
    "set us \<subseteq> set units \<Longrightarrow> consistent sol cands \<Longrightarrow> val \<in> set DIGITS \<Longrightarrow>
       fst (eliminate_units cands us val) \<and> consistent sol (snd (eliminate_units cands us val))"
proof (induct cands sq val and cands sq ovs and cands sq val and cands ps tv and cands us val
    rule: assign_assign_loop_eliminate_eliminate_peers_eliminate_units.induct)
  case (1 cands sq val)
  have c: "sol sq \<in> set (cands sq)" "distinct (cands sq)"
    using 1(2,3) unfolding consistent_def by blast+
  have notin: "sol sq \<notin> set (remove1 val (cands sq))"
    using c(2) 1(4) by simp
  define r where "r = assign_loop cands sq (remove1 val (cands sq))"
  have ih: "fst r \<and> consistent sol (snd r) \<and> set (snd r sq) \<inter> set (remove1 val (cands sq)) = {}"
    unfolding r_def using 1(1)[OF 1(2) 1(3) notin] .
  have sub: "set (snd r sq) \<subseteq> set (cands sq)"
    unfolding r_def using shrinks_assign_loop[of cands sq "remove1 val (cands sq)"] by (rule shrinks_set)
  have "set (remove1 val (cands sq)) = set (cands sq) - {val}"
    using c(2) by simp
  with sub ih have one: "set (snd r sq) \<subseteq> {val}" by blast
  have "val \<in> set (snd r sq)" "distinct (snd r sq)"
    using ih 1(2,4) unfolding consistent_def by blast+
  with one have "snd r sq = [val]" by (simp add: distinct_set_singleton)
  with ih show ?case by (simp add: assign.simps r_def)
next
  case (2 cands sq)
  then show ?case by simp
next
  case (3 cands sq other_val other_vals)
  obtain ok c' where e: "eliminate cands sq other_val = (ok, c')"
    by (cases "eliminate cands sq other_val")
  have ne: "other_val \<noteq> sol sq" and rest: "sol sq \<notin> set other_vals"
    using 3(5) by auto
  have ih1: "ok \<and> consistent sol c' \<and> other_val \<notin> set (c' sq)"
    using 3(1)[OF 3(3) 3(4) ne] e by simp
  then have ok: ok by simp
  define r where "r = assign_loop c' sq other_vals"
  have ih2: "fst r \<and> consistent sol (snd r) \<and> set (snd r sq) \<inter> set other_vals = {}"
    unfolding r_def using 3(2)[OF e[symmetric] ok 3(3) _ rest] ih1 by simp
  have "set (snd r sq) \<subseteq> set (c' sq)"
    unfolding r_def using shrinks_assign_loop[of c' sq other_vals] by (rule shrinks_set)
  with ih1 have "other_val \<notin> set (snd r sq)" by blast
  with ih2 have "fst r \<and> consistent sol (snd r) \<and> set (snd r sq) \<inter> set (other_val # other_vals) = {}"
    by simp
  then show ?case using e ok by (simp add: r_def)
next
  case (4 cands sq val)
  define c1 where "c1 = cands(sq := remove1 val (cands sq))"
  have c: "sol sq \<in> set (cands sq)" "distinct (cands sq)" "set (cands sq) \<subseteq> set DIGITS"
    using 4(4,5) unfolding consistent_def by blast+
  show ?case
  proof (cases "is_in val (cands sq)")
    case False
    with 4(5) show ?thesis by (simp add: eliminate.simps is_in_def)
  next
    case mem: True
    then have dig: "val \<in> set DIGITS" using c(3) by (auto simp: is_in_def)
    have c1: "consistent sol c1"
      unfolding c1_def using 4(5,6) by (rule consistent_remove1)
    have c1sq: "sol sq \<in> set (c1 sq)" "distinct (c1 sq)"
      using c1 4(4) unfolding consistent_def by blast+
    have gone: "val \<notin> set (c1 sq)" unfolding c1_def using c(2) by simp
    have below: "shrinks (snd (eliminate cands sq val)) c1"
      unfolding c1_def using mem by (rule eliminate_below)
    then have "set (snd (eliminate cands sq val) sq) \<subseteq> set (c1 sq)" by (rule shrinks_set)
    with gone have final: "val \<notin> set (snd (eliminate cands sq val) sq)" by blast
    have us: "set (square_units_map sq) \<subseteq> set units"
      using 4(4) by (rule units_of_square)
    have nz: "length (c1 sq) \<noteq> 0" using c1sq(1) by auto
    have "fst (eliminate cands sq val) \<and> consistent sol (snd (eliminate cands sq val))"
    proof (cases "length (c1 sq) = 1")
      case one: True
      then obtain x where x: "c1 sq = [x]" by (cases "c1 sq") auto
      with c1sq(1) have hd: "hd (c1 sq) = sol sq" by simp
      obtain ok c2 where e: "eliminate_peers c1 (square_peers_map sq) (hd (c1 sq)) = (ok, c2)"
        by (cases "eliminate_peers c1 (square_peers_map sq) (hd (c1 sq))")
      have diff: "\<forall>p \<in> set (square_peers_map sq). sol p \<noteq> hd (c1 sq)"
        using L 4(4) hd unfolding latin_def by simp
      have mem': "\<not> \<not> is_in val (cands sq)" using mem by simp
      have ih1: "ok \<and> consistent sol c2"
        using 4(1)[OF mem' c1_def refl one peers_in_squares[OF 4(4)] c1 diff] e by simp
      then have ok: ok by simp
      have ih2: "fst (eliminate_units c2 (square_units_map sq) val) \<and>
                 consistent sol (snd (eliminate_units c2 (square_units_map sq) val))"
        using 4(2)[OF mem' c1_def refl one e[symmetric] ok us _ dig] ih1 by simp
      show ?thesis
        using mem one e ok ih2 by (simp add: eliminate.simps Let_def flip: c1_def)
    next
      case notone: False
      have mem': "\<not> \<not> is_in val (cands sq)" using mem by simp
      have ih: "fst (eliminate_units c1 (square_units_map sq) val) \<and>
                consistent sol (snd (eliminate_units c1 (square_units_map sq) val))"
        using 4(3)[OF mem' c1_def refl notone nz us c1 dig] .
      show ?thesis
        using mem notone nz ih by (simp add: eliminate.simps Let_def flip: c1_def)
    qed
    with final show ?thesis by simp
  qed
next
  case (5 cands target_val)
  then show ?case by simp
next
  case (6 cands peer peers target_val)
  obtain ok c' where e: "eliminate cands peer target_val = (ok, c')"
    by (cases "eliminate cands peer target_val")
  have p: "peer \<in> set squares" "set peers \<subseteq> set squares" using 6(3) by auto
  have ne: "target_val \<noteq> sol peer" and rest: "\<forall>p \<in> set peers. sol p \<noteq> target_val"
    using 6(5) by auto
  have ih1: "ok \<and> consistent sol c' \<and> target_val \<notin> set (c' peer)"
    using 6(1)[OF p(1) 6(4) ne] e by simp
  then have ok: ok by simp
  have ih2: "fst (eliminate_peers c' peers target_val) \<and>
             consistent sol (snd (eliminate_peers c' peers target_val))"
    using 6(2)[OF e[symmetric] ok p(2) _ rest] ih1 by simp
  then show ?case using e ok by simp
next
  case (7 cands val)
  then show ?case by simp
next
  case (8 cands unit us val)
  define places where "places = get_val_places cands val unit"
  have u: "unit \<in> set units" "set us \<subseteq> set units" using 8(4) by auto
  obtain q where q: "q \<in> set unit" "sol q = val"
    using L u(1) 8(6) unfolding latin_def by blast
  have qsq: "q \<in> set squares" using unit_in_squares[OF u(1)] q(1) by blast
  then have "val \<in> set (cands q)" using 8(5) q(2) unfolding consistent_def by blast
  then have qin: "q \<in> set places"
    unfolding places_def using q(1) by (simp add: set_get_val_places)
  then have nz: "length places \<noteq> 0" by auto
  show ?case
  proof (cases "length places = 1")
    case one: True
    then obtain x where px: "places = [x]" by (cases places) auto
    with qin have hd: "hd places = q" by simp
    obtain ok c' where e: "assign cands (hd places) val = (ok, c')"
      by (cases "assign cands (hd places) val")
    have ih1: "ok \<and> consistent sol c'"
      using 8(1)[OF places_def nz one] hd qsq 8(5) q(2) e by simp
    then have ok: ok by simp
    have ih2: "fst (eliminate_units c' us val) \<and> consistent sol (snd (eliminate_units c' us val))"
      using 8(2)[OF places_def nz one e[symmetric] ok u(2) _ 8(6)] ih1 by simp
    then show ?thesis using px e ok by (simp add: Let_def flip: places_def)
  next
    case False
    have "fst (eliminate_units cands us val) \<and> consistent sol (snd (eliminate_units cands us val))"
      using 8(3)[OF places_def nz False u(2) 8(5) 8(6)] .
    then show ?thesis using nz False by (simp add: Let_def flip: places_def)
  qed
qed

lemma board_val_nth:
  "length board = length squares \<Longrightarrow> i < length squares \<Longrightarrow> board_val board (squares ! i) = board ! i"
  unfolding board_val_def using distinct_squares
  by (simp add: map_of_zip_nth)

lemma map_board_val: "length board = length squares \<Longrightarrow> map (board_val board) squares = board"
  by (rule nth_equalityI) (simp_all add: board_val_nth)

lemma board_val_in:
  assumes "length board = length squares" "sq \<in> set squares"
  shows "board_val board sq \<in> set board" "(sq, board_val board sq) \<in> set (zip squares board)"
proof -
  obtain i where i: "i < length squares" "squares ! i = sq"
    using assms(2) by (auto simp: in_set_conv_nth)
  then have v: "board_val board sq = board ! i"
    using board_val_nth[OF assms(1), of i] by simp
  show "board_val board sq \<in> set board" using v i(1) assms(1) by simp
  show "(sq, board_val board sq) \<in> set (zip squares board)"
    using v i assms(1) by (auto simp: in_set_zip)
qed

lemma zip_board_val:
  assumes "length board = length squares" "(sq, val) \<in> set (zip squares board)"
  shows "sq \<in> set squares \<and> val = board_val board sq"
proof -
  obtain i where i: "i < length squares" "squares ! i = sq" "board ! i = val"
    using assms by (auto simp: in_set_zip)
  then show ?thesis using board_val_nth[OF assms(1), of i] by auto
qed

lemma filter_one: "length (filter P xs) = 1 \<Longrightarrow> a \<in> set xs \<Longrightarrow> b \<in> set xs \<Longrightarrow> P a \<Longrightarrow> P b \<Longrightarrow> a = b"
proof -
  assume l: "length (filter P xs) = 1" and m: "a \<in> set xs" "b \<in> set xs" "P a" "P b"
  then obtain x where x: "filter P xs = [x]" by (cases "filter P xs") auto
  have "a \<in> set (filter P xs)" "b \<in> set (filter P xs)" using m by simp_all
  then show "a = b" unfolding x by simp
qed

lemma filter_one_ex: "length (filter P xs) = 1 \<Longrightarrow> \<exists>q \<in> set xs. P q"
proof -
  assume "length (filter P xs) = 1"
  then obtain x where x: "filter P xs = [x]" by (cases "filter P xs") auto
  then have "x \<in> set (filter P xs)" by simp
  then show ?thesis by auto
qed

lemma solved_board_latin:
  assumes len: "length board = 81"
    and dig: "\<forall>char \<in> set board. char \<in> set DIGITS"
    and uni: "\<forall>unit \<in> set units. \<forall>digit \<in> set DIGITS.
               length (filter (\<lambda>sq. board_val board sq = digit) unit) = 1"
  shows "latin (board_val board)"
  unfolding latin_def
proof (intro conjI ballI)
  fix sq p assume sq: "sq \<in> set squares" and p: "p \<in> set (square_peers_map sq)"
  have l: "length board = length squares" using len length_squares by simp
  from p obtain u where u: "p \<noteq> sq" "u \<in> set units" "sq \<in> set u" "p \<in> set u"
    using peer_iff[OF sq, of p] by blast
  have d: "board_val board sq \<in> set DIGITS"
    using board_val_in(1)[OF l sq] dig by blast
  have one: "length (filter (\<lambda>q. board_val board q = board_val board sq) u) = 1"
    using uni u(2) d by blast
  show "board_val board p \<noteq> board_val board sq"
  proof
    assume "board_val board p = board_val board sq"
    then have "p = sq" using filter_one[OF one u(4) u(3)] by simp
    with u(1) show False by simp
  qed
next
  fix u d assume "u \<in> set units" "d \<in> set DIGITS"
  then have "length (filter (\<lambda>sq. board_val board sq = d) u) = 1" using uni by blast
  then show "\<exists>q \<in> set u. board_val board q = d" by (rule filter_one_ex)
qed

lemma assign_givens_solution:
  assumes L: "latin sol"
  shows "consistent sol cands \<Longrightarrow>
         \<forall>(sq, val) \<in> set svs. sq \<in> set squares \<and> val = sol sq \<and> val \<in> set DIGITS \<Longrightarrow>
         \<exists>c'. assign_givens cands svs = Some c' \<and> consistent sol c' \<and> shrinks c' cands \<and>
              (\<forall>(sq, val) \<in> set svs. c' sq = [val])"
proof (induction svs arbitrary: cands)
  case Nil
  then show ?case by (simp add: shrinks_refl)
next
  case (Cons sv svs)
  obtain sq val where sv: "sv = (sq, val)" by (cases sv)
  have h: "sq \<in> set squares" "val = sol sq" "val \<in> set DIGITS"
    using Cons.prems(2) sv by auto
  obtain ok c1 where a: "assign cands sq val = (ok, c1)" by (cases "assign cands sq val")
  have k: "ok \<and> consistent sol c1 \<and> c1 sq = [val]"
    using keep_solution(1)[OF L h(1) Cons.prems(1) h(2)] a by simp
  have s1: "shrinks c1 cands" using shrinks_assign[of cands sq val] a by simp
  have rest: "\<forall>(sq, val) \<in> set svs. sq \<in> set squares \<and> val = sol sq \<and> val \<in> set DIGITS"
    using Cons.prems(2) by simp
  obtain c' where c': "assign_givens c1 svs = Some c'" "consistent sol c'" "shrinks c' c1"
      "\<forall>(sq, val) \<in> set svs. c' sq = [val]"
    using Cons.IH[OF _ rest, of c1] k by blast
  have "set (c' sq) \<subseteq> {val}" using shrinks_set[OF c'(3), of sq] k by simp
  moreover have "val \<in> set (c' sq)" "distinct (c' sq)"
    using c'(2) h(1,2) unfolding consistent_def by blast+
  ultimately have "c' sq = [val]" by (simp add: distinct_set_singleton)
  moreover have "shrinks c' cands" using c'(3) s1 by (meson shrinks_trans)
  moreover have "assign_givens cands (sv # svs) = Some c'"
    using sv h(3) a k c'(1) by (simp add: is_in_def)
  ultimately show ?case using c'(2,4) sv by simp
qed

lemma consistent_all_digits:
  "\<forall>sq \<in> set squares. sol sq \<in> set DIGITS \<Longrightarrow> consistent sol (all_digits squares)"
  unfolding consistent_def by (simp add: all_digits_apply) (simp add: DIGITS_def)

lemma concat_singletons: "\<forall>x \<in> set xs. f x = [g x] \<Longrightarrow> concat (map f xs) = map g xs"
  by (induction xs) simp_all

text \<open>
  C2: on every valid board of 81 characters without a blank, in which every one of
  the 27 units holds each digit 1 to 9 exactly once, \<open>solve\<close> returns the board
  itself, whichever way the search runs.
\<close>

theorem solve_solved_board:
  assumes len: "length board = 81"
    and valid: "\<forall>char \<in> set board. (char \<in> set DIGITS \<or> char = BLANK_CHAR) \<and> char \<noteq> BLANK_CHAR"
    and uni: "\<forall>unit \<in> set units. \<forall>digit \<in> set DIGITS.
               length (filter (\<lambda>sq. board_val board sq = digit) unit) = 1"
  shows "solve board reverse = Inr (Some board)"
proof -
  have l: "length board = length squares" using len length_squares by simp
  have dig: "\<forall>char \<in> set board. char \<in> set DIGITS" using valid by blast
  have L: "latin (board_val board)" using len dig uni by (rule solved_board_latin)
  have d: "\<forall>sq \<in> set squares. board_val board sq \<in> set DIGITS"
    using board_val_in(1)[OF l] dig by blast
  have giv: "\<forall>(sq, val) \<in> set (zip squares board).
               sq \<in> set squares \<and> val = board_val board sq \<and> val \<in> set DIGITS"
    using zip_board_val[OF l] d by blast
  obtain c' where c': "assign_givens (all_digits squares) (zip squares board) = Some c'"
    "\<forall>(sq, val) \<in> set (zip squares board). c' sq = [val]"
    using assign_givens_solution[OF L consistent_all_digits[OF d] giv] by blast
  have single: "\<forall>sq \<in> set squares. c' sq = [board_val board sq]"
    using c'(2) board_val_in(2)[OF l] by blast
  have v: "validate_board (Some board) = Inr True"
    using len valid by (intro validate_board_cases(5)) blast+
  have "filter (\<lambda>char. char \<noteq> BLANK_CHAR \<and> is_in char DIGITS) board = board"
    using valid by (intro filter_True) (auto simp: is_in_def)
  then have n: "nr_givens_of board = 81" using len by (simp add: nr_givens_of_def)
  have g: "get_candidates_map board = Inr (Some c')"
    using v l c'(1) by (simp add: get_candidates_map_def get_square_vals_map_def)
  have "max_nr_candidates c' squares 0 = 1"
    using single squares_nonempty by (simp add: max_nr_candidates_single)
  then have s: "search [c'] (Some 0) reverse = (Inr (Some 0), [c'])" by (rule search_solved)
  have "solution_of c' = map (board_val board) squares"
    unfolding solution_of_def using single by (rule concat_singletons)
  also have "\<dots> = board" using l by (rule map_board_val)
  finally have sol: "solution_of c' = board" .
  show ?thesis
    using v n g s sol by (simp add: solve_def MIN_GIVENS_def)
qed

definition classic_solution :: string where
  "classic_solution =
     ''483921657967345821251876493548132976729564138136798245372689514814253769695417382''"

theorem solve_solved_board_witness:
  "length classic_solution = 81 \<and>
   list_all (\<lambda>char. is_in char DIGITS \<and> char \<noteq> BLANK_CHAR) classic_solution \<and>
   list_all (\<lambda>unit. list_all (\<lambda>digit.
      length (filter (\<lambda>sq. board_val classic_solution sq = digit) unit) = 1) DIGITS) units \<and>
   solve classic_solution False = Inr (Some classic_solution) \<and>
   solve classic_solution True = Inr (Some classic_solution)"
proof -
  have len: "length classic_solution = 81" by (simp add: classic_solution_def)
  have valid: "\<forall>char \<in> set classic_solution.
      (char \<in> set DIGITS \<or> char = BLANK_CHAR) \<and> char \<noteq> BLANK_CHAR"
    by (simp add: classic_solution_def DIGITS_def BLANK_CHAR_def)
  have "map (board_val classic_solution) squares = classic_solution"
    using len length_squares by (intro map_board_val) simp
  also have "classic_solution =
     ''483921657967345821251876493548132976729564138136798245372689514814253769695417382''"
    by (rule classic_solution_def)
  finally have tab: "map (board_val classic_solution) squares =
     ''483921657967345821251876493548132976729564138136798245372689514814253769695417382''" .
  have uni: "\<forall>unit \<in> set units. \<forall>digit \<in> set DIGITS.
      length (filter (\<lambda>sq. board_val classic_solution sq = digit) unit) = 1"
    using tab unfolding units_eq squares_eq DIGITS_def by simp
  have "list_all (\<lambda>char. is_in char DIGITS \<and> char \<noteq> BLANK_CHAR) classic_solution"
    using valid unfolding list_all_iff is_in_def by blast
  moreover have "list_all (\<lambda>unit. list_all (\<lambda>digit.
      length (filter (\<lambda>sq. board_val classic_solution sq = digit) unit) = 1) DIGITS) units"
    using uni unfolding list_all_iff by blast
  ultimately show ?thesis
    using len solve_solved_board[OF len valid uni, of False]
      solve_solved_board[OF len valid uni, of True] by blast
qed

end
